theory Spec2Isabelle
  imports Complex_Main
begin

section \<open>JavaScript values shared by the three command files\<close>

text \<open>
  A value caught by a \<^verbatim>\<open>catch\<close> clause is either an instance of \<^verbatim>\<open>Error\<close>, which
  carries a message, or some other thrown value. The source reads a caught value only
  through \<^verbatim>\<open>error instanceof Error ? error.message : 'Unknown error'\<close>.
\<close>

datatype thrown = Error string | NonError

fun error_message :: "thrown \<Rightarrow> string" where
  "error_message (Error m) = m"
| "error_message NonError = ''Unknown error''"

text \<open>\<^verbatim>\<open>String.prototype.startsWith\<close> and \<^verbatim>\<open>String.prototype.includes\<close>.\<close>

fun startsWith :: "string \<Rightarrow> string \<Rightarrow> bool" where
  "startsWith s [] = True"
| "startsWith [] (p # ps) = False"
| "startsWith (c # cs) (p # ps) = (c = p \<and> startsWith cs ps)"

fun str_includes :: "string \<Rightarrow> string \<Rightarrow> bool" where
  "str_includes [] sub = (sub = [])"
| "str_includes (c # cs) sub = (startsWith (c # cs) sub \<or> str_includes cs sub)"

text \<open>
  A truthiness test on a value of type \<^verbatim>\<open>string | undefined\<close>: \<^verbatim>\<open>undefined\<close>, \<^verbatim>\<open>null\<close>
  and the empty string are falsy.
\<close>

fun truthy :: "string option \<Rightarrow> bool" where
  "truthy None = False"
| "truthy (Some s) = (s \<noteq> [])"

section \<open>The account command (network registry, detector, resolver, inspector)\<close>

datatype NetworkName = mainnet | testnet | devnet | localnet

record NetworkConfig =
  url :: string
  suiNsEndpoint :: string
  chainId :: string

record Balance =
  coinType :: string
  totalBalance :: string

record SuiNameResponse =
  resp_address :: "string option"
  resp_name :: "string option"

text \<open>An RPC client is bound to the endpoint it was constructed with.\<close>

record SuiClient =
  client_url :: string

text \<open>
  The collaborators of the account command. \<open>getFullnodeUrl\<close> is the SDK's table of
  public endpoints and \<open>encodeURIComponent\<close> the runtime's (total on well-formed
  strings, which is what a command-line argument is). \<open>getAllBalances\<close> answers the detector's probe (line 131), \<open>fetchAllBalances\<close>
  the inspector's later request on the chosen client (line 91), \<open>getObject\<close> the object
  query, and \<open>axios_get\<close> maps a request URL to either a thrown value or the \<^verbatim>\<open>data\<close> of
  the response, which may be absent. \<open>balances_reject_first\<close> says which of the two RPC
  requests of the inspection rejects first in time when both reject.
\<close>

record 'obj world =
  getFullnodeUrl :: "NetworkName \<Rightarrow> string"
  encodeURIComponent :: "string \<Rightarrow> string"
  getAllBalances :: "SuiClient \<Rightarrow> string \<Rightarrow> thrown + Balance list"
  fetchAllBalances :: "SuiClient \<Rightarrow> string \<Rightarrow> thrown + Balance list"
  getObject :: "SuiClient \<Rightarrow> string \<Rightarrow> thrown + 'obj"
  balances_reject_first :: bool
  axios_get :: "string \<Rightarrow> thrown + SuiNameResponse option"

text \<open>Every request that leaves the process is recorded, in the order it is issued.\<close>

datatype event =
    RpcGetAllBalances SuiClient string
  | RpcGetObject SuiClient string
  | AxiosGet string

text \<open>
  The object literal \<^verbatim>\<open>NETWORKS\<close>, as its key/value pairs in the order they are written.
\<close>

definition NETWORKS :: "(NetworkName \<Rightarrow> string) \<Rightarrow> (NetworkName \<times> NetworkConfig) list" where
  "NETWORKS fullnode =
     [(mainnet, \<lparr>url = fullnode mainnet,
                 suiNsEndpoint = ''https://api.suins.io/mainnet'', chainId = ''0x1''\<rparr>),
      (testnet, \<lparr>url = fullnode testnet,
                 suiNsEndpoint = ''https://api.suins.io/testnet'', chainId = ''0x2''\<rparr>),
      (devnet, \<lparr>url = fullnode devnet,
                suiNsEndpoint = ''https://api.suins.io/devnet'', chainId = ''0x3''\<rparr>),
      (localnet, \<lparr>url = ''http://127.0.0.1:9000'',
                  suiNsEndpoint = ''http://localhost:3000/api'', chainId = ''0x4''\<rparr>)]"

text \<open>\<^verbatim>\<open>Object.keys\<close>: the own string keys in insertion order.\<close>

definition Object_keys :: "('k \<times> 'v) list \<Rightarrow> 'k list" where
  "Object_keys obj = map fst obj"

text \<open>\<^verbatim>\<open>NETWORKS[network]\<close>; the table has an entry for every \<open>NetworkName\<close> (lemma \<open>NETWORKS_total\<close>).\<close>

definition NETWORKS_at :: "'obj world \<Rightarrow> NetworkName \<Rightarrow> NetworkConfig" where
  "NETWORKS_at w network = the (map_of (NETWORKS (getFullnodeUrl w)) network)"

definition networksToCheck :: "NetworkName list" where
  "networksToCheck = [mainnet, testnet, devnet]"

definition new_SuiClient :: "'obj world \<Rightarrow> NetworkName \<Rightarrow> SuiClient" where
  "new_SuiClient w network = \<lparr>client_url = url (NETWORKS_at w network)\<rparr>"

text \<open>
  The \<^verbatim>\<open>for\<close> loop of \<^verbatim>\<open>detectNetworkForAddress\<close> over the candidates still to be
  probed: the requests issued, and the match if the loop returned during this part.
\<close>

fun detect_loop :: "'obj world \<Rightarrow> string \<Rightarrow> NetworkName list
    \<Rightarrow> event list \<times> (NetworkName \<times> SuiClient) option" where
  "detect_loop w addr [] = ([], None)"
| "detect_loop w addr (network # rest) =
     (let client = new_SuiClient w network in
      case getAllBalances w client addr of
        Inr balances \<Rightarrow>
          if length balances > 0 then ([RpcGetAllBalances client addr], Some (network, client))
          else (RpcGetAllBalances client addr # fst (detect_loop w addr rest),
                snd (detect_loop w addr rest))
      | Inl err \<Rightarrow>
          (RpcGetAllBalances client addr # fst (detect_loop w addr rest),
           snd (detect_loop w addr rest)))"

definition detectNetworkForAddress :: "'obj world \<Rightarrow> string
    \<Rightarrow> event list \<times> (thrown + NetworkName \<times> SuiClient)" where
  "detectNetworkForAddress w addr =
     (case detect_loop w addr networksToCheck of
        (tr, Some found) \<Rightarrow> (tr, Inr found)
      | (tr, None) \<Rightarrow> (tr, Inl (Error ''Address not found on any supported network'')))"

text \<open>
  \<^verbatim>\<open>resolveSuiName\<close>: every failure inside the \<^verbatim>\<open>try\<close>, including its own
  \<^verbatim>\<open>'No address returned'\<close>, is rethrown wrapped.
\<close>

definition failed_to_resolve :: "thrown \<Rightarrow> thrown" where
  "failed_to_resolve err = Error (''Failed to resolve name: '' @ error_message err)"

definition resolve_url :: "'obj world \<Rightarrow> string \<Rightarrow> NetworkName \<Rightarrow> string" where
  "resolve_url w nm network =
     suiNsEndpoint (NETWORKS_at w network) @ ''/resolve?name='' @ encodeURIComponent w nm"

definition resolveSuiName :: "'obj world \<Rightarrow> string \<Rightarrow> NetworkName
    \<Rightarrow> event list \<times> (thrown + string)" where
  "resolveSuiName w nm network =
     (let request = resolve_url w nm network in
      case axios_get w request of
        Inl err \<Rightarrow> ([AxiosGet request], Inl (failed_to_resolve err))
      | Inr data \<Rightarrow>
          (case data of
             None \<Rightarrow> ([AxiosGet request],
                       Inl (failed_to_resolve (Error ''No address returned'')))
           | Some body \<Rightarrow>
               (case resp_address body of
                  None \<Rightarrow> ([AxiosGet request],
                            Inl (failed_to_resolve (Error ''No address returned'')))
                | Some a \<Rightarrow>
                    if a = [] then ([AxiosGet request],
                                    Inl (failed_to_resolve (Error ''No address returned'')))
                    else ([AxiosGet request], Inr a))))"

fun resolve_loop :: "'obj world \<Rightarrow> string \<Rightarrow> NetworkName list
    \<Rightarrow> event list \<times> string option" where
  "resolve_loop w nm [] = ([], None)"
| "resolve_loop w nm (network # rest) =
     (case resolveSuiName w nm network of
        (tr, Inr a) \<Rightarrow>
          if truthy (Some a) then (tr, Some a)
          else (tr @ fst (resolve_loop w nm rest), snd (resolve_loop w nm rest))
      | (tr, Inl err) \<Rightarrow> (tr @ fst (resolve_loop w nm rest), snd (resolve_loop w nm rest)))"

definition resolveSuiNameOnAllNetworks :: "'obj world \<Rightarrow> string
    \<Rightarrow> event list \<times> (thrown + string)" where
  "resolveSuiNameOnAllNetworks w nm =
     (case resolve_loop w nm (Object_keys (NETWORKS (getFullnodeUrl w))) of
        (tr, Some a) \<Rightarrow> (tr, Inr a)
      | (tr, None) \<Rightarrow>
          (tr, Inl (Error (''SuiNS name \"'' @ nm @ ''\" not found on any network''))))"

text \<open>
  \<^verbatim>\<open>checkForSuiNsName\<close> returns \<^verbatim>\<open>string | null\<close>: its \<^verbatim>\<open>catch\<close> returns \<^verbatim>\<open>null\<close>, so the
  result type has no error branch.
\<close>

definition reverse_lookup_url :: "'obj world \<Rightarrow> string \<Rightarrow> NetworkName \<Rightarrow> string" where
  "reverse_lookup_url w addr network =
     suiNsEndpoint (NETWORKS_at w network) @ ''/reverse-lookup?address='' @ addr"

definition checkForSuiNsName :: "'obj world \<Rightarrow> string \<Rightarrow> NetworkName
    \<Rightarrow> event list \<times> string option" where
  "checkForSuiNsName w addr network =
     (let request = reverse_lookup_url w addr network in
      case axios_get w request of
        Inl err \<Rightarrow> ([AxiosGet request], None)
      | Inr data \<Rightarrow>
          (case data of
             None \<Rightarrow> ([AxiosGet request], None)
           | Some body \<Rightarrow>
               ([AxiosGet request], if truthy (resp_name body) then resp_name body else None)))"

text \<open>What the action prints on success (the spinner and the colours are left out).\<close>

record 'obj AccountReport =
  report_network :: NetworkName
  report_address :: string
  report_suiNsName :: "string option"
  report_balances :: "Balance list"
  report_accountInfo :: 'obj

text \<open>
  The action of the \<^verbatim>\<open>getAccountInfo\<close> command. \<open>Inl m\<close> is \<^verbatim>\<open>spinner.fail(m)\<close> followed
  by \<^verbatim>\<open>process.exit(1)\<close>. The three requests of \<^verbatim>\<open>Promise.all\<close> are all issued, in the
  order of the array, before any of them is awaited; \<^verbatim>\<open>Promise.all\<close> rejects with the
  rejection that comes first in time.
\<close>

definition isSuiNsName :: "string \<Rightarrow> bool" where
  "isSuiNsName identifier = str_includes identifier ''.sui''"

definition inspect :: "'obj world \<Rightarrow> string \<Rightarrow> string \<Rightarrow> NetworkName \<Rightarrow> SuiClient
    \<Rightarrow> event list \<times> (string + 'obj AccountReport)" where
  "inspect w identifier addr network client =
     (let reverse = (if isSuiNsName identifier then ([], Some identifier)
                     else checkForSuiNsName w addr network);
          issued = [RpcGetObject client addr, RpcGetAllBalances client addr] @ fst reverse
      in case getObject w client addr of
           Inl err \<Rightarrow>
             (case fetchAllBalances w client addr of
                Inl err' \<Rightarrow>
                  (issued, Inl (error_message (if balances_reject_first w then err' else err)))
              | Inr balances \<Rightarrow> (issued, Inl (error_message err)))
         | Inr accountInfo \<Rightarrow>
             (case fetchAllBalances w client addr of
                Inl err \<Rightarrow> (issued, Inl (error_message err))
              | Inr balances \<Rightarrow>
                  (issued, Inr \<lparr>report_network = network, report_address = addr,
                                report_suiNsName =
                                  (if truthy (snd reverse) then snd reverse else None),
                                report_balances = balances,
                                report_accountInfo = accountInfo\<rparr>)))"

text \<open>Lines 83 to 114: detection on the address, then the inspection.\<close>

definition detect_and_inspect :: "'obj world \<Rightarrow> string \<Rightarrow> string
    \<Rightarrow> event list \<times> (string + 'obj AccountReport)" where
  "detect_and_inspect w identifier addr =
     (case detectNetworkForAddress w addr of
        (tr, Inl err) \<Rightarrow> (tr, Inl (error_message err))
      | (tr, Inr (network, client)) \<Rightarrow>
          (tr @ fst (inspect w identifier addr network client),
           snd (inspect w identifier addr network client)))"

definition getAccountInfo :: "'obj world \<Rightarrow> string
    \<Rightarrow> event list \<times> (string + 'obj AccountReport)" where
  "getAccountInfo w identifier =
     (let resolved = (if isSuiNsName identifier then resolveSuiNameOnAllNetworks w identifier
                      else ([], Inr identifier))
      in case snd resolved of
           Inl err \<Rightarrow> (fst resolved, Inl (error_message err))
         | Inr addr \<Rightarrow>
             (fst resolved @ fst (detect_and_inspect w identifier addr),
              snd (detect_and_inspect w identifier addr)))"

section \<open>The NFT command\<close>

record NftMetadata =
  creator :: "string option"
  nft_type :: "string option"
  tag :: "string option"
  allTimeFloorPrice :: "string option"
  nft_name :: "string option"
  nft_description :: "string option"
  nft_imageUrl :: "string option"
  attributes :: "(string \<times> string) list option"

record MarketplaceApiResponse =
  stat_allTimeFloorPrice :: "string option"

text \<open>
  The part of the SDK's object response that \<^verbatim>\<open>getNftDetails\<close> reads. Parsed content either
  is a Move object, whose \<^verbatim>\<open>fields\<close> are given as \<^verbatim>\<open>Object.entries\<close> lists them, or a
  package, which has no \<^verbatim>\<open>fields\<close> key. \<open>'v\<close> is the type of a field value.
\<close>

datatype 'v SuiParsedData = MoveObject "(string \<times> 'v) list" | Package

record DisplayFieldsResponse =
  display_data :: "(string \<rightharpoonup> string) option"

record 'v SuiObjectData =
  data_type :: "string option"
  data_display :: "DisplayFieldsResponse option"
  data_content :: "'v SuiParsedData option"

record 'v SuiObjectResponse =
  response_data :: "'v SuiObjectData option"

text \<open>
  The collaborators of the NFT command: the RPC object query on mainnet, the marketplace
  endpoint (the \<^verbatim>\<open>data\<close> of its response may be absent), and the runtime's
  \<^verbatim>\<open>typeof v === 'object'\<close>, \<^verbatim>\<open>JSON.stringify\<close> and \<^verbatim>\<open>String\<close> on field values, and the
  message it gives a \<^verbatim>\<open>TypeError\<close> for reading a property of \<^verbatim>\<open>undefined\<close>.
\<close>

record 'v nft_world =
  nft_getObject :: "string \<Rightarrow> thrown + 'v SuiObjectResponse"
  marketplace_get :: "string \<Rightarrow> thrown + MarketplaceApiResponse option"
  typeof_object :: "'v \<Rightarrow> bool"
  JSON_stringify :: "'v \<Rightarrow> string"
  String_of :: "'v \<Rightarrow> string"
  type_error_message :: string

datatype nft_event =
    NftGetObject string
  | MarketplaceGet string
  | ConsoleLog string
  | ConsoleError string

text \<open>\<^verbatim>\<open>obj[key] = v\<close> on an object held as its list of entries.\<close>

fun assign :: "(string \<times> string) list \<Rightarrow> string \<Rightarrow> string \<Rightarrow> (string \<times> string) list" where
  "assign [] k v = [(k, v)]"
| "assign ((k', v') # rest) k v =
     (if k' = k then (k, v) # rest else (k', v') # assign rest k v)"

text \<open>The loop over \<^verbatim>\<open>Object.entries(fields)\<close>, started with the attributes built so far.\<close>

fun collect_attributes :: "'v nft_world \<Rightarrow> (string \<times> string) list \<Rightarrow> (string \<times> 'v) list
    \<Rightarrow> (string \<times> string) list" where
  "collect_attributes w attrs [] = attrs"
| "collect_attributes w attrs ((k, v) # rest) =
     (if \<not> startsWith k ''_''
      then collect_attributes w
             (assign attrs k (if typeof_object w v then JSON_stringify w v else String_of w v)) rest
      else collect_attributes w attrs rest)"

text \<open>\<^verbatim>\<open>x || 'Not available'\<close>\<close>

definition or_not_available :: "string option \<Rightarrow> string" where
  "or_not_available x = (if truthy x then the x else ''Not available'')"

text \<open>\<^verbatim>\<open>nftObject.data.display?.data ?? undefined\<close>\<close>

definition display_of :: "'v SuiObjectData \<Rightarrow> (string \<rightharpoonup> string) option" where
  "display_of d = (case data_display d of None \<Rightarrow> None | Some dr \<Rightarrow> display_data dr)"

text \<open>The metadata record after the display and content steps (lines 40 to 67).\<close>

definition build_metadata :: "'v nft_world \<Rightarrow> 'v SuiObjectData \<Rightarrow> NftMetadata" where
  "build_metadata w d =
     (let nftType = data_type d;
          display = display_of d;
          content = data_content d;
          metadata0 = \<lparr>creator = None, nft_type = nftType, tag = None, allTimeFloorPrice = None,
                       nft_name = None, nft_description = None, nft_imageUrl = None,
                       attributes = None\<rparr>;
          metadata1 = (case display of
                         None \<Rightarrow> metadata0
                       | Some disp \<Rightarrow>
                           metadata0\<lparr>nft_name := disp ''name'',
                                     nft_description := disp ''description'',
                                     nft_imageUrl := disp ''image_url'',
                                     creator := disp ''creator'',
                                     tag := disp ''tag''\<rparr>)
      in case content of
           Some (MoveObject entries) \<Rightarrow>
             metadata1\<lparr>attributes := Some (collect_attributes w [] entries)\<rparr>
         | _ \<Rightarrow> metadata1)"

text \<open>The lines printed from \<^verbatim>\<open>'NFT Details:'\<close> on (lines 83 to 106), colours left out.\<close>

definition render_details :: "NftMetadata \<Rightarrow> nft_event list" where
  "render_details metadata =
     [ConsoleLog ''\<newline>NFT Details:'',
      ConsoleLog ''----------------------------------'',
      ConsoleLog (''Name: '' @ or_not_available (nft_name metadata)),
      ConsoleLog (''Type: '' @ or_not_available (nft_type metadata)),
      ConsoleLog (''Creator: '' @ or_not_available (creator metadata)),
      ConsoleLog (''Tag: '' @ or_not_available (tag metadata)),
      ConsoleLog (''All Time Floor Price: '' @ or_not_available (allTimeFloorPrice metadata))]
     @ (if truthy (nft_description metadata)
        then [ConsoleLog (''\<newline>Description: '' @ the (nft_description metadata))] else [])
     @ (if truthy (nft_imageUrl metadata)
        then [ConsoleLog (''\<newline>Image URL: '' @ the (nft_imageUrl metadata))] else [])
     @ (case attributes metadata of
          None \<Rightarrow> []
        | Some attrs \<Rightarrow>
            if length attrs > 0
            then ConsoleLog ''\<newline>Attributes:''
                 # map (\<lambda>(k, v). ConsoleLog (''  '' @ k @ '': '' @ v)) attrs
            else [])
     @ [ConsoleLog ''----------------------------------\<newline>'']"

text \<open>
  The floor-price step (lines 69 to 80): the request, and either the metadata with the
  statistic stored or the unchanged metadata and the line the \<^verbatim>\<open>catch\<close> prints. A
  response without \<^verbatim>\<open>data\<close> makes the property read throw a \<^verbatim>\<open>TypeError\<close> inside the
  \<^verbatim>\<open>try\<close>.
\<close>

definition floor_price_failed :: "thrown \<Rightarrow> nft_event" where
  "floor_price_failed err =
     (case err of
        Error m \<Rightarrow> ConsoleLog (''Could not fetch floor price data: '' @ m)
      | NonError \<Rightarrow> ConsoleLog ''Could not fetch floor price data'')"

definition stats_url :: "string \<Rightarrow> string" where
  "stats_url nftObjectId = ''https://api.suimarketplace.com/nfts/'' @ nftObjectId @ ''/stats''"

definition fetch_floor_price :: "'v nft_world \<Rightarrow> string \<Rightarrow> NftMetadata
    \<Rightarrow> nft_event list \<times> NftMetadata" where
  "fetch_floor_price w nftObjectId metadata =
     (let request = stats_url nftObjectId in
      case marketplace_get w request of
        Inl err \<Rightarrow> ([MarketplaceGet request, floor_price_failed err], metadata)
      | Inr None \<Rightarrow> ([MarketplaceGet request, floor_price_failed (Error (type_error_message w))], metadata)
      | Inr (Some body) \<Rightarrow>
          ([MarketplaceGet request],
           metadata\<lparr>allTimeFloorPrice := stat_allTimeFloorPrice body\<rparr>))"

text \<open>
  \<^verbatim>\<open>getNftDetails\<close>: everything it requests and prints, in order, and either the thrown
  value or the metadata record it printed (the source returns nothing).
\<close>

definition getNftDetails :: "'v nft_world \<Rightarrow> string
    \<Rightarrow> nft_event list \<times> (thrown + NftMetadata)" where
  "getNftDetails w nftObjectId =
     (let start = [ConsoleLog (''\<newline>Fetching details for NFT: '' @ nftObjectId @ ''...''),
                   NftGetObject nftObjectId] in
      case nft_getObject w nftObjectId of
        Inl err \<Rightarrow> (start, Inl err)
      | Inr nftObject \<Rightarrow>
          (case response_data nftObject of
             None \<Rightarrow> (start, Inl (Error ''NFT not found or data unavailable''))
           | Some d \<Rightarrow>
               (let priced = fetch_floor_price w nftObjectId (build_metadata w d) in
                (start @ fst priced @ render_details (snd priced), Inr (snd priced)))))"

text \<open>The command's action: the exit status, \<open>1\<close> after printing the error.\<close>

definition getNftDetails_action :: "'v nft_world \<Rightarrow> string \<Rightarrow> nft_event list \<times> nat" where
  "getNftDetails_action w nftObjectId =
     (case getNftDetails w nftObjectId of
        (tr, Inl err) \<Rightarrow> (tr @ [ConsoleError (''Error: '' @ error_message err)], 1)
      | (tr, Inr metadata) \<Rightarrow> (tr, 0))"

section \<open>The launch workflow\<close>

text \<open>
  A JavaScript number: a real value, one of the two infinities, or \<^verbatim>\<open>NaN\<close>. The schema only
  compares a number with the constants \<open>0\<close>, \<open>1\<close>, \<open>100\<close> and \<open>10000\<close>, which is exact.
\<close>

datatype number = NaN | NegInfinity | Num real | Infinity

fun number_lt :: "number \<Rightarrow> real \<Rightarrow> bool" where
  "number_lt NaN c = False"
| "number_lt NegInfinity c = True"
| "number_lt (Num r) c = (r < c)"
| "number_lt Infinity c = False"

fun number_gt :: "number \<Rightarrow> real \<Rightarrow> bool" where
  "number_gt NaN c = False"
| "number_gt NegInfinity c = False"
| "number_gt (Num r) c = (r > c)"
| "number_gt Infinity c = True"

text \<open>\<^verbatim>\<open>z.enum(['mainnet', 'testnet', 'devnet'])\<close>\<close>

datatype LaunchNetwork = launch_mainnet | launch_testnet | launch_devnet

fun network_string :: "LaunchNetwork \<Rightarrow> string" where
  "network_string launch_mainnet = ''mainnet''"
| "network_string launch_testnet = ''testnet''"
| "network_string launch_devnet = ''devnet''"

text \<open>The input type of \<^verbatim>\<open>MemeSchema\<close>: the three fields with a default may be omitted.\<close>

record RawAnswers =
  raw_name :: string
  raw_symbol :: string
  raw_description :: "string option"
  raw_imagePath :: string
  raw_network :: "LaunchNetwork option"
  raw_totalSupply :: number
  raw_royaltyBps :: "number option"

text \<open>\<^verbatim>\<open>MemeConfig\<close>, the output type of the schema.\<close>

record MemeConfig =
  name :: string
  symbol :: string
  description :: string
  imagePath :: string
  network :: LaunchNetwork
  totalSupply :: number
  royaltyBps :: number

text \<open>\<^verbatim>\<open>MemeConfig & { imageUrl: string }\<close>\<close>

record MemeConfigWithUrl = MemeConfig +
  imageUrl :: string

record WalrusResponse =
  walrus_url :: string

record MoveBuildOutput =
  modules :: "string list"
  dependencies :: "string list"

record SuiObjectChange =
  change_type :: string
  packageId :: "string option"

record TransactionResult =
  objectChanges :: "SuiObjectChange list option"
  digest :: string

text \<open>What \<^verbatim>\<open>deployCollection\<close> prints: the package identifier and the explorer link.\<close>

record DeployReport =
  reported_packageId :: string
  reported_explorer :: string

text \<open>
  The collaborators of the launch workflow: the file system, the working directory and
  \<^verbatim>\<open>path.join\<close>, the two credentials of the environment, the upload endpoint (request URL,
  payload and authorization header), the subprocess runner (command and directory), the
  rendering of a number inside a template literal, and the SDK (key decoding, parsing of
  the build output, construction and execution of the publish transaction on a client
  bound to an endpoint).
\<close>

record 'kp launch_world =
  cwd :: string
  path_join :: "string list \<Rightarrow> string"
  fs_access :: "string \<Rightarrow> thrown + unit"
  fs_mkdir :: "string \<Rightarrow> thrown + unit"
  fs_readFile :: "string \<Rightarrow> thrown + string"
  fs_writeFile :: "string \<Rightarrow> string \<Rightarrow> thrown + unit"
  WALRUS_API_KEY :: "string option"
  axios_post :: "string \<Rightarrow> string \<Rightarrow> string \<Rightarrow> thrown + WalrusResponse"
  Number_toString :: "number \<Rightarrow> string"
  execSync :: "string \<Rightarrow> string \<Rightarrow> thrown + string"
  SUI_PRIVATE_KEY :: "string option"
  fromSecretKey :: "string \<Rightarrow> thrown + 'kp"
  JSON_parse :: "string \<Rightarrow> thrown + MoveBuildOutput"
  launch_getFullnodeUrl :: "LaunchNetwork \<Rightarrow> string"
  signAndExecuteTransaction :: "string \<Rightarrow> MoveBuildOutput \<Rightarrow> 'kp \<Rightarrow> thrown + TransactionResult"

datatype launch_event =
    FsAccess string
  | FsMkdir string
  | FsReadFile string
  | AxiosPost string string string
  | FsWriteFile string string
  | ExecSync string string
  | SignAndExecute string

text \<open>An issue of a failed parse: a message written in the schema, or one of zod's codes.\<close>

datatype issue = Message string | too_small | too_big | invalid_type

datatype failure = ZodError "(string \<times> issue) list" | Thrown thrown

text \<open>
  Sequencing of awaited steps: the effects of both steps in order, and the first failure
  ends the workflow.
\<close>

definition and_then :: "'e list \<times> (failure + 'a) \<Rightarrow> ('a \<Rightarrow> 'e list \<times> (failure + 'b))
    \<Rightarrow> 'e list \<times> (failure + 'b)" where
  "and_then step rest =
     (case step of
        (tr, Inl err) \<Rightarrow> (tr, Inl err)
      | (tr, Inr x) \<Rightarrow> (tr @ fst (rest x), snd (rest x)))"

definition perform :: "'e \<Rightarrow> thrown + 'a \<Rightarrow> 'e list \<times> (failure + 'a)" where
  "perform ev outcome =
     ([ev], case outcome of Inl err \<Rightarrow> Inl (Thrown err) | Inr x \<Rightarrow> Inr x)"

text \<open>
  \<^verbatim>\<open>toLowerCase\<close> on the letters \<open>A\<close> to \<open>Z\<close>; the only string it is applied to is a symbol
  that has passed the schema.
\<close>

definition isUpperAZ :: "char \<Rightarrow> bool" where
  "isUpperAZ c = (65 \<le> (of_char c :: nat) \<and> (of_char c :: nat) \<le> 90)"

definition toLowerCase :: "string \<Rightarrow> string" where
  "toLowerCase s = map (\<lambda>c. if isUpperAZ c then char_of (of_char c + (32::nat)) else c) s"

text \<open>The regular expression \<^verbatim>\<open>/^[A-Z]{3,5}$/\<close>.\<close>

definition matches_AZ_3_5 :: "string \<Rightarrow> bool" where
  "matches_AZ_3_5 s = (3 \<le> length s \<and> length s \<le> 5 \<and> list_all isUpperAZ s)"

subsection \<open>The schema\<close>

definition description_default :: string where
  "description_default = ''A meme NFT collection''"

definition network_default :: LaunchNetwork where
  "network_default = launch_testnet"

definition royaltyBps_default :: number where
  "royaltyBps_default = Num 5"

text \<open>The checks of the fields of \<^verbatim>\<open>MemeSchema.shape\<close>, each giving the issues it raises.\<close>

definition shape_name :: "string \<Rightarrow> issue list" where
  "shape_name val = (if length val < 1 then [Message ''Name cannot be empty''] else [])"

definition shape_symbol :: "string \<Rightarrow> issue list" where
  "shape_symbol val =
     (if matches_AZ_3_5 val then [] else [Message ''Must be 3-5 uppercase letters''])"

definition shape_imagePath :: "'kp launch_world \<Rightarrow> string \<Rightarrow> issue list" where
  "shape_imagePath w val =
     (case fs_access w val of Inr u \<Rightarrow> [] | Inl err \<Rightarrow> [Message ''File not found''])"

definition number_min_max :: "real \<Rightarrow> real \<Rightarrow> number \<Rightarrow> issue list" where
  "number_min_max lo hi val =
     (if val = NaN then [invalid_type]
      else (if number_lt val lo then [too_small] else [])
         @ (if number_gt val hi then [too_big] else []))"

definition shape_totalSupply :: "number \<Rightarrow> issue list" where
  "shape_totalSupply val = number_min_max 1 10000 val"

definition shape_royaltyBps :: "number option \<Rightarrow> issue list" where
  "shape_royaltyBps val =
     (case val of None \<Rightarrow> [] | Some r \<Rightarrow> number_min_max 0 100 r)"

definition with_default :: "'a \<Rightarrow> 'a option \<Rightarrow> 'a" where
  "with_default d val = (case val of None \<Rightarrow> d | Some x \<Rightarrow> x)"

text \<open>
  The defaults the questions of the form offer (lines 73, 89, 95 and 105); three of them
  are read from the schema.
\<close>

datatype answer = AnswerString string | AnswerNetwork LaunchNetwork | AnswerNumber number

definition question_defaults :: "(string \<times> answer) list" where
  "question_defaults =
     [(''description'', AnswerString description_default),
      (''network'', AnswerNetwork network_default),
      (''totalSupply'', AnswerNumber (Num 1000)),
      (''royaltyBps'', AnswerNumber royaltyBps_default)]"

definition schema_issues :: "'kp launch_world \<Rightarrow> RawAnswers \<Rightarrow> (string \<times> issue) list" where
  "schema_issues w raw =
       map (Pair ''name'') (shape_name (raw_name raw))
     @ map (Pair ''symbol'') (shape_symbol (raw_symbol raw))
     @ map (Pair ''totalSupply'') (shape_totalSupply (raw_totalSupply raw))
     @ map (Pair ''royaltyBps'') (shape_royaltyBps (raw_royaltyBps raw))
     @ map (Pair ''imagePath'') (shape_imagePath w (raw_imagePath raw))"

text \<open>
  \<^verbatim>\<open>MemeSchema.parseAsync\<close>: the refinement of \<^verbatim>\<open>imagePath\<close> asks the file system once; the
  parse throws when any field raised an issue. The issue of the asynchronous refinement is
  reported after those of the synchronous checks.
\<close>

definition MemeSchema_parseAsync :: "'kp launch_world \<Rightarrow> RawAnswers
    \<Rightarrow> launch_event list \<times> (failure + MemeConfig)" where
  "MemeSchema_parseAsync w raw =
     ([FsAccess (raw_imagePath raw)],
      if schema_issues w raw = []
      then Inr \<lparr>name = raw_name raw, symbol = raw_symbol raw,
                description = with_default description_default (raw_description raw),
                imagePath = raw_imagePath raw,
                network = with_default network_default (raw_network raw),
                totalSupply = raw_totalSupply raw,
                royaltyBps = with_default royaltyBps_default (raw_royaltyBps raw)\<rparr>
      else Inl (ZodError (schema_issues w raw)))"

subsection \<open>The steps after validation\<close>

text \<open>A missing credential is interpolated as the text \<^verbatim>\<open>undefined\<close>.\<close>

definition uploadToWalrus :: "'kp launch_world \<Rightarrow> string
    \<Rightarrow> launch_event list \<times> (failure + string)" where
  "uploadToWalrus w filePath =
     and_then (perform (FsReadFile filePath) (fs_readFile w filePath)) (\<lambda>data.
       (let authorization = ''Bearer '' @ with_default ''undefined'' (WALRUS_API_KEY w) in
        and_then (perform (AxiosPost ''https://api.walrus.gg/upload'' data authorization)
                    (axios_post w ''https://api.walrus.gg/upload'' data authorization))
          (\<lambda>res. ([], Inr (walrus_url res)))))"

definition move_toml :: "MemeConfigWithUrl \<Rightarrow> string" where
  "move_toml config =
     ''[package]\<newline>''
     @ ''name = \"meme_'' @ toLowerCase (symbol config) @ ''\"\<newline>''
     @ ''version = \"0.1.0\"\<newline>''
     @ ''\<newline>''
     @ ''[dependencies]\<newline>''
     @ ''Sui = { git = \"https://github.com/MystenLabs/sui.git\", subdir = \"crates/sui-framework/packages/sui-framework\", rev = \"framework/testnet\" }''"

definition generateMoveCode :: "'kp launch_world \<Rightarrow> MemeConfigWithUrl \<Rightarrow> string" where
  "generateMoveCode w config =
     ''module meme_'' @ toLowerCase (symbol config) @ ''::meme {\<newline>''
     @ ''    use sui::transfer;\<newline>''
     @ ''    use sui::object::{Self, UID};\<newline>''
     @ ''    use sui::tx_context::TxContext;\<newline>''
     @ ''    use sui::display;\<newline>''
     @ ''    use sui::url::Url;\<newline>''
     @ ''    use sui::string::String;\<newline>''
     @ ''\<newline>''
     @ ''    struct '' @ symbol config @ '' has key, store {\<newline>''
     @ ''        id: UID,\<newline>''
     @ ''        name: String,\<newline>''
     @ ''        description: String,\<newline>''
     @ ''        image_url: Url,\<newline>''
     @ ''    }\<newline>''
     @ ''\<newline>''
     @ ''    public fun init(otw: &mut TxContext) {\<newline>''
     @ ''        let display = display::new_with_fields(\<newline>''
     @ ''            &mut display::new(),\<newline>''
     @ ''            vector[\<newline>''
     @ ''                (\"name\", \"'' @ name config @ ''\"),\<newline>''
     @ ''                (\"description\", \"'' @ description config @ ''\"),\<newline>''
     @ ''                (\"image_url\", \"'' @ imageUrl config @ ''\"),\<newline>''
     @ ''                (\"creator\", \"Meme Creator\"),\<newline>''
     @ ''                (\"royalty\", \"'' @ Number_toString w (royaltyBps config) @ ''\"),\<newline>''
     @ ''                (\"symbol\", \"'' @ symbol config @ ''\")\<newline>''
     @ ''            ]\<newline>''
     @ ''        );\<newline>''
     @ ''        display::update_version(&mut display);\<newline>''
     @ ''        transfer::public_transfer(display, tx_context::sender(otw));\<newline>''
     @ ''    }\<newline>''
     @ ''\<newline>''
     @ ''    public entry fun mint(\<newline>''
     @ ''        name: String,\<newline>''
     @ ''        description: String,\<newline>''
     @ ''        image_url: Url,\<newline>''
     @ ''        recipient: address,\<newline>''
     @ ''        ctx: &mut TxContext\<newline>''
     @ ''    ) {\<newline>''
     @ ''        let meme = '' @ symbol config @ '' {\<newline>''
     @ ''            id: object::new(ctx),\<newline>''
     @ ''            name,\<newline>''
     @ ''            description,\<newline>''
     @ ''            image_url\<newline>''
     @ ''        };\<newline>''
     @ ''        transfer::public_transfer(meme, recipient);\<newline>''
     @ ''    }\<newline>''
     @ ''}''"

definition generateMoveFiles :: "'kp launch_world \<Rightarrow> string \<Rightarrow> MemeConfigWithUrl
    \<Rightarrow> launch_event list \<times> (failure + unit)" where
  "generateMoveFiles w projectDir config =
     and_then (perform (FsMkdir (path_join w [projectDir, ''sources'']))
                 (fs_mkdir w (path_join w [projectDir, ''sources'']))) (\<lambda>u1.
     and_then (perform (FsWriteFile (path_join w [projectDir, ''Move.toml'']) (move_toml config))
                 (fs_writeFile w (path_join w [projectDir, ''Move.toml'']) (move_toml config)))
       (\<lambda>u2.
     perform (FsWriteFile (path_join w [projectDir, ''sources'', ''meme.move''])
                (generateMoveCode w config))
       (fs_writeFile w (path_join w [projectDir, ''sources'', ''meme.move''])
          (generateMoveCode w config))))"

definition getKeypair :: "'kp launch_world \<Rightarrow> thrown + 'kp" where
  "getKeypair w =
     (if \<not> truthy (SUI_PRIVATE_KEY w) then Inl (Error ''Missing SUI_PRIVATE_KEY in environment'')
      else fromSecretKey w (the (SUI_PRIVATE_KEY w)))"

text \<open>\<^verbatim>\<open>objectChanges?.find(change => change.type === 'published' && 'packageId' in change)\<close>\<close>

definition publishedPackage :: "TransactionResult \<Rightarrow> SuiObjectChange option" where
  "publishedPackage result =
     (case objectChanges result of
        None \<Rightarrow> None
      | Some changes \<Rightarrow>
          find (\<lambda>change. change_type change = ''published'' \<and> packageId change \<noteq> None) changes)"

definition deployCollection :: "'kp launch_world \<Rightarrow> string \<Rightarrow> LaunchNetwork
    \<Rightarrow> launch_event list \<times> (failure + DeployReport)" where
  "deployCollection w projectDir net =
     (case getKeypair w of
        Inl err \<Rightarrow> ([], Inl (Thrown err))
      | Inr keypair \<Rightarrow>
          and_then (perform (ExecSync ''sui move build --dump-bytecode-as-base64'' projectDir)
                      (execSync w ''sui move build --dump-bytecode-as-base64'' projectDir))
            (\<lambda>out.
          (case JSON_parse w out of
             Inl err \<Rightarrow> ([], Inl (Thrown err))
           | Inr buildOutput \<Rightarrow>
               and_then (perform (SignAndExecute (launch_getFullnodeUrl w net))
                           (signAndExecuteTransaction w (launch_getFullnodeUrl w net)
                              buildOutput keypair))
                 (\<lambda>result.
                    ([], Inr \<lparr>reported_packageId =
                                (case publishedPackage result of
                                   Some change \<Rightarrow> the (packageId change)
                                 | None \<Rightarrow> ''Unknown''),
                              reported_explorer =
                                ''https://suiexplorer.com/txblock/'' @ digest result
                                  @ ''?network='' @ network_string net\<rparr>)))))"

text \<open>Line 118, and the object \<^verbatim>\<open>{ ...answers, imageUrl }\<close> of line 128.\<close>

definition projectDir_of :: "'kp launch_world \<Rightarrow> MemeConfig \<Rightarrow> string" where
  "projectDir_of w answers = path_join w [cwd w, ''meme-'' @ toLowerCase (symbol answers)]"

definition with_imageUrl :: "MemeConfig \<Rightarrow> string \<Rightarrow> MemeConfigWithUrl" where
  "with_imageUrl answers uploaded =
     \<lparr>name = name answers, symbol = symbol answers, description = description answers,
      imagePath = imagePath answers, network = network answers,
      totalSupply = totalSupply answers, royaltyBps = royaltyBps answers, imageUrl = uploaded\<rparr>"

text \<open>
  \<^verbatim>\<open>launchMeme\<close>, given the answers the form returned. The progress lines it prints are
  left out.
\<close>

definition launchMeme :: "'kp launch_world \<Rightarrow> RawAnswers
    \<Rightarrow> launch_event list \<times> (failure + DeployReport)" where
  "launchMeme w rawAnswers =
     and_then (MemeSchema_parseAsync w rawAnswers) (\<lambda>answers.
       (let projectDir = projectDir_of w answers in
        and_then (perform (FsMkdir projectDir) (fs_mkdir w projectDir)) (\<lambda>u1.
        and_then (uploadToWalrus w (imagePath answers)) (\<lambda>uploaded.
        and_then (generateMoveFiles w projectDir (with_imageUrl answers uploaded)) (\<lambda>u2.
        and_then (perform (ExecSync ''sui move build'' projectDir)
                    (execSync w ''sui move build'' projectDir)) (\<lambda>out.
        deployCollection w projectDir (network answers)))))))"

section \<open>Notions used in the statements\<close>

text \<open>The probe of one candidate, and whether its answer is a match (lines 131 and 132).\<close>

definition probe :: "'obj world \<Rightarrow> string \<Rightarrow> NetworkName \<Rightarrow> event" where
  "probe w addr n = RpcGetAllBalances (new_SuiClient w n) addr"

definition has_balances :: "'obj world \<Rightarrow> string \<Rightarrow> NetworkName \<Rightarrow> bool" where
  "has_balances w addr n =
     (case getAllBalances w (new_SuiClient w n) addr of
        Inr balances \<Rightarrow> length balances > 0
      | Inl err \<Rightarrow> False)"

text \<open>The spec's wording of the name convention: the identifier ends in \<^verbatim>\<open>.sui\<close>.\<close>

definition spec_has_sui_suffix :: "string \<Rightarrow> bool" where
  "spec_has_sui_suffix identifier = startsWith (rev identifier) (rev ''.sui'')"

text \<open>The steps of the launch workflow that come after the upload.\<close>

fun after_upload :: "launch_event \<Rightarrow> bool" where
  "after_upload (FsWriteFile p c) = True"
| "after_upload (ExecSync c d) = True"
| "after_upload (SignAndExecute u) = True"
| "after_upload ev = False"

fun is_build :: "launch_event \<Rightarrow> bool" where
  "is_build (ExecSync c d) = (c = ''sui move build'')"
| "is_build ev = False"

fun is_write :: "launch_event \<Rightarrow> bool" where
  "is_write (FsWriteFile p c) = True"
| "is_write ev = False"

text \<open>Whether a number lies in a closed interval.\<close>

fun in_range :: "real \<Rightarrow> real \<Rightarrow> number \<Rightarrow> bool" where
  "in_range lo hi (Num r) = (lo \<le> r \<and> r \<le> hi)"
| "in_range lo hi x = False"

section \<open>Example worlds\<close>

definition sdk_fullnode :: "NetworkName \<Rightarrow> string" where
  "sdk_fullnode n =
     (case n of
        mainnet \<Rightarrow> ''https://fullnode.mainnet.sui.io:443''
      | testnet \<Rightarrow> ''https://fullnode.testnet.sui.io:443''
      | devnet \<Rightarrow> ''https://fullnode.devnet.sui.io:443''
      | localnet \<Rightarrow> ''http://127.0.0.1:9000'')"

definition one_coin :: "Balance list" where
  "one_coin = [\<lparr>coinType = ''0x2::sui::SUI'', totalBalance = ''7''\<rparr>]"

text \<open>
  A world in which mainnet is unreachable, the address \<^verbatim>\<open>0xa11ce\<close> holds a coin on testnet
  only, the testnet naming service knows \<^verbatim>\<open>alice.sui\<close> and \<^verbatim>\<open>a.suix\<close>, and every reverse
  lookup fails.
\<close>

definition example_world :: "string world" where
  "example_world =
     \<lparr>getFullnodeUrl = sdk_fullnode,
      encodeURIComponent = (\<lambda>s. s),
      getAllBalances = (\<lambda>c a.
        if client_url c = ''https://fullnode.mainnet.sui.io:443'' then Inl (Error ''timeout'')
        else if client_url c = ''https://fullnode.testnet.sui.io:443'' \<and> a = ''0xa11ce''
        then Inr one_coin else Inr []),
      fetchAllBalances = (\<lambda>c a. Inr one_coin),
      getObject = (\<lambda>c a. Inr ''{}''),
      balances_reject_first = False,
      axios_get = (\<lambda>u.
        if u = ''https://api.suins.io/mainnet/resolve?name=alice.sui'' then Inl (Error ''503'')
        else if u = ''https://api.suins.io/testnet/resolve?name=alice.sui''
        then Inr (Some \<lparr>resp_address = Some ''0xa11ce'', resp_name = None\<rparr>)
        else if u = ''https://api.suins.io/testnet/resolve?name=a.suix''
        then Inr (Some \<lparr>resp_address = Some ''0xa11ce'', resp_name = None\<rparr>)
        else if u = ''https://api.suins.io/testnet/reverse-lookup?address=0xa11ce''
        then Inl (Error ''Network Error'')
        else Inr None)\<rparr>"

text \<open>
  An NFT world with one object that has a type and content but no display data, and a
  marketplace that is down. Field values are strings here.
\<close>

definition example_nft_world :: "string nft_world" where
  "example_nft_world =
     \<lparr>nft_getObject = (\<lambda>i.
        if i = ''0x1''
        then Inr \<lparr>response_data = Some \<lparr>data_type = Some ''0x2::devnet_nft::DevNetNFT'',
                                         data_display = None,
                                         data_content = Some (MoveObject [(''_id'', ''x''),
                                                                          (''power'', ''9'')])\<rparr>\<rparr>
        else Inr \<lparr>response_data = None\<rparr>),
      marketplace_get = (\<lambda>u. Inl (Error ''ENOTFOUND'')),
      typeof_object = (\<lambda>v. False),
      JSON_stringify = (\<lambda>v. v),
      String_of = (\<lambda>v. v),
      type_error_message = ''Cannot read properties of undefined''\<rparr>"

definition priced_nft_world :: "string nft_world" where
  "priced_nft_world =
     example_nft_world\<lparr>marketplace_get :=
       (\<lambda>u. Inr (Some \<lparr>stat_allTimeFloorPrice = Some ''12 SUI''\<rparr>))\<rparr>"

definition dataless_nft_world :: "string nft_world" where
  "dataless_nft_world = example_nft_world\<lparr>marketplace_get := (\<lambda>u. Inr None)\<rparr>"

text \<open>
  A launch world in which every collaborator succeeds, and the same world with the upload
  endpoint down.
\<close>

definition example_launch_world :: "unit launch_world" where
  "example_launch_world =
     \<lparr>cwd = ''/home/u'',
      path_join = (\<lambda>segments. foldr (\<lambda>seg acc. if acc = [] then seg else seg @ ''/'' @ acc)
                                 segments []),
      fs_access = (\<lambda>p. if p = ''doge.png'' then Inr () else Inl (Error ''ENOENT'')),
      fs_mkdir = (\<lambda>p. Inr ()),
      fs_readFile = (\<lambda>p. Inr ''PNG''),
      fs_writeFile = (\<lambda>p c. Inr ()),
      WALRUS_API_KEY = Some ''k'',
      axios_post = (\<lambda>u d a. Inr \<lparr>walrus_url = ''https://walrus.example/doge''\<rparr>),
      Number_toString = (\<lambda>n. if n = Num 5 then ''5'' else ''0''),
      execSync = (\<lambda>c d. Inr ''{}''),
      SUI_PRIVATE_KEY = Some ''key'',
      fromSecretKey = (\<lambda>k. Inr ()),
      JSON_parse = (\<lambda>t. Inr \<lparr>modules = [], dependencies = []\<rparr>),
      launch_getFullnodeUrl = (\<lambda>n. ''https://fullnode.'' @ network_string n @ ''.sui.io:443''),
      signAndExecuteTransaction = (\<lambda>u b k.
        Inr \<lparr>objectChanges = Some [\<lparr>change_type = ''published'', packageId = Some ''0xpkg''\<rparr>],
             digest = ''D1''\<rparr>)\<rparr>"

definition upload_down_world :: "unit launch_world" where
  "upload_down_world =
     example_launch_world\<lparr>axios_post := (\<lambda>u d a. Inl (Error ''502''))\<rparr>"

definition doge_answers :: RawAnswers where
  "doge_answers =
     \<lparr>raw_name = ''Doge \"1\"'', raw_symbol = ''DOGE'', raw_description = None,
      raw_imagePath = ''doge.png'', raw_network = None, raw_totalSupply = Num 1000,
      raw_royaltyBps = None\<rparr>"


text \<open>The configuration the example answers parse to.\<close>

definition doge_config :: MemeConfig where
  "doge_config = \<lparr>name = ''Doge \"1\"'', symbol = ''DOGE'', description = ''A meme NFT collection'',
             imagePath = ''doge.png'', network = launch_testnet, totalSupply = Num 1000,
             royaltyBps = Num 5\<rparr>"

section \<open>Auxiliary facts\<close>

lemma NETWORKS_keys: "Object_keys (NETWORKS g) = [mainnet, testnet, devnet, localnet]"
  by (simp add: Object_keys_def NETWORKS_def)

lemma NETWORKS_total: "map_of (NETWORKS g) n \<noteq> None"
  by (cases n) (simp_all add: NETWORKS_def)

lemma startsWith_iff: "startsWith s p \<longleftrightarrow> (\<exists>t. s = p @ t)"
  by (induction s p rule: startsWith.induct) auto

lemma str_includes_iff: "str_includes s sub \<longleftrightarrow> (\<exists>a b. s = a @ sub @ b)"
proof (induction s)
  case Nil
  then show ?case by auto
next
  case (Cons c cs)
  show ?case
  proof
    assume "str_includes (c # cs) sub"
    then consider "startsWith (c # cs) sub" | "str_includes cs sub" by auto
    then show "\<exists>a b. c # cs = a @ sub @ b"
    proof cases
      case 1
      then obtain t where "c # cs = sub @ t" using startsWith_iff by blast
      then have "c # cs = [] @ sub @ t" by simp
      then show ?thesis by blast
    next
      case 2
      then obtain a b where "cs = a @ sub @ b" using Cons.IH by blast
      then have "c # cs = (c # a) @ sub @ b" by simp
      then show ?thesis by blast
    qed
  next
    assume "\<exists>a b. c # cs = a @ sub @ b"
    then obtain a b where ab: "c # cs = a @ sub @ b" by blast
    show "str_includes (c # cs) sub"
    proof (cases a)
      case Nil
      then have "startsWith (c # cs) sub" using ab startsWith_iff by auto
      then show ?thesis by simp
    next
      case (Cons x a')
      then have "cs = a' @ sub @ b" using ab by simp
      then have "str_includes cs sub" using Cons.IH by blast
      then show ?thesis by simp
    qed
  qed
qed

lemma spec_has_sui_suffix_iff: "spec_has_sui_suffix s \<longleftrightarrow> (\<exists>a. s = a @ ''.sui'')"
proof -
  have "spec_has_sui_suffix s \<longleftrightarrow> (\<exists>t. rev s = rev ''.sui'' @ t)"
    unfolding spec_has_sui_suffix_def startsWith_iff ..
  also have "\<dots> \<longleftrightarrow> (\<exists>a. s = a @ ''.sui'')"
  proof
    assume "\<exists>t. rev s = rev ''.sui'' @ t"
    then obtain t where "rev s = rev ''.sui'' @ t" by blast
    then have "rev (rev s) = rev (rev ''.sui'' @ t)" by simp
    then have "s = rev t @ ''.sui''" by simp
    then show "\<exists>a. s = a @ ''.sui''" by blast
  next
    assume "\<exists>a. s = a @ ''.sui''"
    then obtain a where "s = a @ ''.sui''" by blast
    then have "rev s = rev ''.sui'' @ rev a" by simp
    then show "\<exists>t. rev s = rev ''.sui'' @ t" by blast
  qed
  finally show ?thesis .
qed


lemma detect_loop_step_miss:
  "\<not> has_balances w addr n \<Longrightarrow>
   detect_loop w addr (n # ns)
     = (probe w addr n # fst (detect_loop w addr ns), snd (detect_loop w addr ns))"
  by (simp add: has_balances_def probe_def Let_def split: sum.splits)

lemma detect_loop_step_hit:
  "has_balances w addr n \<Longrightarrow>
   detect_loop w addr (n # ns) = ([probe w addr n], Some (n, new_SuiClient w n))"
  by (simp add: has_balances_def probe_def Let_def split: sum.splits)

lemma detect_loop_none:
  "\<forall>m\<in>set ns. \<not> has_balances w addr m \<Longrightarrow>
   detect_loop w addr ns = (map (probe w addr) ns, None)"
proof (induction ns)
  case Nil
  show ?case by simp
next
  case (Cons n ns)
  then have "\<not> has_balances w addr n" and "detect_loop w addr ns = (map (probe w addr) ns, None)"
    by simp_all
  then show ?case by (simp add: detect_loop_step_miss del: detect_loop.simps)
qed

lemma detect_loop_first:
  "\<forall>m\<in>set pre. \<not> has_balances w addr m \<Longrightarrow> has_balances w addr n \<Longrightarrow>
   detect_loop w addr (pre @ n # post)
     = (map (probe w addr) (pre @ [n]), Some (n, new_SuiClient w n))"
proof (induction pre)
  case Nil
  then show ?case by (simp add: detect_loop_step_hit del: detect_loop.simps)
next
  case (Cons p pre)
  then have miss: "\<not> has_balances w addr p"
    and ih: "detect_loop w addr (pre @ n # post)
     = (map (probe w addr) (pre @ [n]), Some (n, new_SuiClient w n))"
    by simp_all
  have "detect_loop w addr ((p # pre) @ n # post) = detect_loop w addr (p # (pre @ n # post))"
    by simp
  also have "\<dots> = (probe w addr p # fst (detect_loop w addr (pre @ n # post)),
      snd (detect_loop w addr (pre @ n # post)))"
    using miss by (rule detect_loop_step_miss)
  finally show ?case by (simp add: ih del: detect_loop.simps)
qed

declare detect_loop.simps [simp del]

section \<open>Network detection\<close>

text \<open>
  C1. Detection probes the candidates in the order mainnet, testnet, devnet. When \<open>n\<close> is the
  first candidate whose balance query succeeds with at least one entry, the candidates
  before it having failed or answered with no entry, detection returns \<open>n\<close> and the client
  bound to it, and the requests issued are the probes of the candidates up to \<open>n\<close> and no
  more. When no candidate matches, every candidate has been probed once and detection
  fails with the error "Address not found on any supported network". Localnet is not a
  candidate. A candidate matches when its query returns a non-empty list; a query that
  throws is no match and does not end the scan.
\<close>

theorem detect_first_match:
  "(networksToCheck = pre @ n # post \<and> (\<forall>m\<in>set pre. \<not> has_balances w addr m)
      \<and> has_balances w addr n
    \<longrightarrow> detectNetworkForAddress w addr
          = (map (probe w addr) (pre @ [n]), Inr (n, new_SuiClient w n)))
   \<and> ((\<forall>m\<in>set networksToCheck. \<not> has_balances w addr m)
    \<longrightarrow> detectNetworkForAddress w addr
          = (map (probe w addr) networksToCheck,
             Inl (Error ''Address not found on any supported network'')))
   \<and> networksToCheck = [mainnet, testnet, devnet]
   \<and> localnet \<notin> set networksToCheck
   \<and> (has_balances w addr n
        \<longleftrightarrow> (\<exists>balances. getAllBalances w (new_SuiClient w n) addr = Inr balances
              \<and> balances \<noteq> []))"
proof (intro conjI impI)
  assume h: "networksToCheck = pre @ n # post \<and> (\<forall>m\<in>set pre. \<not> has_balances w addr m)
      \<and> has_balances w addr n"
  then have "detect_loop w addr (pre @ n # post)
      = (map (probe w addr) (pre @ [n]), Some (n, new_SuiClient w n))"
    using detect_loop_first [of pre w addr n post] by blast
  with h show "detectNetworkForAddress w addr
          = (map (probe w addr) (pre @ [n]), Inr (n, new_SuiClient w n))"
    by (simp add: detectNetworkForAddress_def)
next
  assume "\<forall>m\<in>set networksToCheck. \<not> has_balances w addr m"
  then have "detect_loop w addr networksToCheck = (map (probe w addr) networksToCheck, None)"
    by (rule detect_loop_none)
  then show "detectNetworkForAddress w addr
          = (map (probe w addr) networksToCheck,
             Inl (Error ''Address not found on any supported network''))"
    by (simp add: detectNetworkForAddress_def)
next
  show "networksToCheck = [mainnet, testnet, devnet]" by (simp add: networksToCheck_def)
  show "localnet \<notin> set networksToCheck" by (simp add: networksToCheck_def)
  show "has_balances w addr n
        \<longleftrightarrow> (\<exists>balances. getAllBalances w (new_SuiClient w n) addr = Inr balances
              \<and> balances \<noteq> [])"
    by (cases "getAllBalances w (new_SuiClient w n) addr") (simp_all add: has_balances_def)
qed

text \<open>
  In the example world mainnet times out, which does not stop the scan: testnet is found
  for \<^verbatim>\<open>0xa11ce\<close> and devnet is not asked; \<^verbatim>\<open>0xb0b\<close> is found nowhere.
\<close>

lemma example_world_sel:
  "getFullnodeUrl example_world = sdk_fullnode"
  "encodeURIComponent example_world = (\<lambda>s. s)"
  "getAllBalances example_world = (\<lambda>c a.
        if client_url c = ''https://fullnode.mainnet.sui.io:443'' then Inl (Error ''timeout'')
        else if client_url c = ''https://fullnode.testnet.sui.io:443'' \<and> a = ''0xa11ce''
        then Inr one_coin else Inr [])"
  "fetchAllBalances example_world = (\<lambda>c a. Inr one_coin)"
  "getObject example_world = (\<lambda>c a. Inr ''{}'')"
  by (simp_all add: example_world_def)

lemma example_client:
  "new_SuiClient example_world n = \<lparr>client_url = sdk_fullnode n\<rparr>"
  by (cases n) (simp_all add: new_SuiClient_def NETWORKS_at_def NETWORKS_def example_world_sel
      sdk_fullnode_def)

lemma example_probe:
  "getAllBalances example_world (new_SuiClient example_world n) a
     = (if n = mainnet then Inl (Error ''timeout'')
        else if n = testnet \<and> a = ''0xa11ce'' then Inr one_coin else Inr [])"
  by (cases n) (simp_all add: example_client sdk_fullnode_def example_world_sel)

lemma example_has_balances:
  "has_balances example_world a n \<longleftrightarrow> n = testnet \<and> a = ''0xa11ce''"
  by (simp add: has_balances_def example_probe one_coin_def)

theorem detect_first_match_witness:
  "networksToCheck = [mainnet] @ testnet # [devnet]
   \<and> \<not> has_balances example_world ''0xa11ce'' mainnet
   \<and> has_balances example_world ''0xa11ce'' testnet
   \<and> getAllBalances example_world (new_SuiClient example_world mainnet) ''0xa11ce''
       = Inl (Error ''timeout'')
   \<and> detectNetworkForAddress example_world ''0xa11ce''
       = ([RpcGetAllBalances \<lparr>client_url = ''https://fullnode.mainnet.sui.io:443''\<rparr> ''0xa11ce'',
           RpcGetAllBalances \<lparr>client_url = ''https://fullnode.testnet.sui.io:443''\<rparr> ''0xa11ce''],
          Inr (testnet, \<lparr>client_url = ''https://fullnode.testnet.sui.io:443''\<rparr>))
   \<and> \<not> has_balances example_world ''0xb0b'' mainnet
   \<and> \<not> has_balances example_world ''0xb0b'' testnet
   \<and> \<not> has_balances example_world ''0xb0b'' devnet
   \<and> detectNetworkForAddress example_world ''0xb0b''
       = (map (probe example_world ''0xb0b'') [mainnet, testnet, devnet],
          Inl (Error ''Address not found on any supported network''))"
proof -
  have a: "networksToCheck = [mainnet] @ testnet # [devnet]
      \<and> (\<forall>m\<in>set [mainnet]. \<not> has_balances example_world ''0xa11ce'' m)
      \<and> has_balances example_world ''0xa11ce'' testnet"
    by (simp add: networksToCheck_def example_has_balances)
  have b: "\<forall>m\<in>set networksToCheck. \<not> has_balances example_world ''0xb0b'' m"
    by (simp add: example_has_balances)
  have c: "getAllBalances example_world (new_SuiClient example_world mainnet) ''0xa11ce''
       = Inl (Error ''timeout'')"
    by (simp add: example_probe)
  note found = detect_first_match [of "[mainnet]" testnet "[devnet]" example_world
      "''0xa11ce''", THEN conjunct1, THEN mp, OF a]
  note missing = detect_first_match [of "[mainnet]" testnet "[devnet]" example_world
      "''0xb0b''", THEN conjunct2, THEN conjunct1, THEN mp, OF b]
  have r1: "detectNetworkForAddress example_world ''0xa11ce''
       = ([RpcGetAllBalances \<lparr>client_url = ''https://fullnode.mainnet.sui.io:443''\<rparr> ''0xa11ce'',
           RpcGetAllBalances \<lparr>client_url = ''https://fullnode.testnet.sui.io:443''\<rparr> ''0xa11ce''],
          Inr (testnet, \<lparr>client_url = ''https://fullnode.testnet.sui.io:443''\<rparr>))"
    by (simp add: found probe_def example_client sdk_fullnode_def)
  have r2: "detectNetworkForAddress example_world ''0xb0b''
       = (map (probe example_world ''0xb0b'') [mainnet, testnet, devnet],
          Inl (Error ''Address not found on any supported network''))"
    by (simp add: missing networksToCheck_def)
  show ?thesis
    by (intro conjI a [THEN conjunct1] c r1 r2) (simp_all add: example_has_balances)
qed


lemma resolveSuiName_trace: "fst (resolveSuiName w nm n) = [AxiosGet (resolve_url w nm n)]"
  by (simp add: resolveSuiName_def Let_def split: sum.splits option.splits)

lemma resolveSuiName_Inr_iff:
  "snd (resolveSuiName w nm n) = Inr a \<longleftrightarrow>
   (\<exists>body. axios_get w (resolve_url w nm n) = Inr (Some body)
      \<and> resp_address body = Some a \<and> a \<noteq> [])"
  by (auto simp: resolveSuiName_def Let_def failed_to_resolve_def split: sum.splits option.splits)

lemma resolveSuiName_nonempty: "snd (resolveSuiName w nm n) = Inr a \<Longrightarrow> a \<noteq> []"
  by (auto simp: resolveSuiName_Inr_iff)

lemma resolve_loop_step_miss:
  assumes "isl (snd (resolveSuiName w nm n))"
  shows "resolve_loop w nm (n # ns)
     = (AxiosGet (resolve_url w nm n) # fst (resolve_loop w nm ns), snd (resolve_loop w nm ns))"
proof -
  obtain tr r where eq: "resolveSuiName w nm n = (tr, r)" by (cases "resolveSuiName w nm n")
  then have "tr = [AxiosGet (resolve_url w nm n)]" using resolveSuiName_trace [of w nm n] by simp
  moreover obtain err where "r = Inl err" using assms eq by (cases r) simp_all
  ultimately show ?thesis using eq by simp
qed

lemma resolve_loop_step_hit:
  assumes "snd (resolveSuiName w nm n) = Inr a"
  shows "resolve_loop w nm (n # ns) = ([AxiosGet (resolve_url w nm n)], Some a)"
proof -
  obtain tr r where eq: "resolveSuiName w nm n = (tr, r)" by (cases "resolveSuiName w nm n")
  then have "tr = [AxiosGet (resolve_url w nm n)]" using resolveSuiName_trace [of w nm n] by simp
  moreover have "r = Inr a" using assms eq by simp
  moreover have "a \<noteq> []" using assms by (rule resolveSuiName_nonempty)
  ultimately show ?thesis using eq by simp
qed

declare resolve_loop.simps [simp del]

lemma resolve_loop_none:
  "\<forall>m\<in>set ns. isl (snd (resolveSuiName w nm m)) \<Longrightarrow>
   resolve_loop w nm ns = (map (\<lambda>m. AxiosGet (resolve_url w nm m)) ns, None)"
proof (induction ns)
  case Nil
  show ?case by (simp add: resolve_loop.simps)
next
  case (Cons n ns)
  then show ?case by (simp add: resolve_loop_step_miss)
qed

lemma resolve_loop_first:
  "\<forall>m\<in>set pre. isl (snd (resolveSuiName w nm m)) \<Longrightarrow>
   snd (resolveSuiName w nm n) = Inr a \<Longrightarrow>
   resolve_loop w nm (pre @ n # post)
     = (map (\<lambda>m. AxiosGet (resolve_url w nm m)) (pre @ [n]), Some a)"
proof (induction pre)
  case Nil
  then show ?case by (simp add: resolve_loop_step_hit)
next
  case (Cons p pre)
  then show ?case by (simp add: resolve_loop_step_miss)
qed

lemma resolve_loop_None_all_failed:
  "snd (resolve_loop w nm ns) = None \<Longrightarrow> \<forall>m\<in>set ns. isl (snd (resolveSuiName w nm m))"
proof (induction ns)
  case Nil
  show ?case by simp
next
  case (Cons n ns)
  show ?case
  proof (cases "snd (resolveSuiName w nm n)")
    case (Inl err)
    then have miss: "isl (snd (resolveSuiName w nm n))" by simp
    then have "snd (resolve_loop w nm ns) = None"
      using Cons.prems by (simp add: resolve_loop_step_miss)
    then show ?thesis using Cons.IH miss by simp
  next
    case (Inr a)
    then have "snd (resolve_loop w nm (n # ns)) = Some a" by (simp add: resolve_loop_step_hit)
    then show ?thesis using Cons.prems by simp
  qed
qed

section \<open>Name resolution\<close>

text \<open>
  C2. Resolution scans the configured networks in table order with one lookup request
  per network tried. When \<open>n\<close> is the first network whose lookup yields an address, the
  lookups before it having failed, resolution returns that address, which is not empty,
  after the requests to the networks up to \<open>n\<close>. When the lookup fails on every network,
  resolution fails with the error "SuiNS name ... not found on any network" after one
  request to each. Whenever resolution fails, the error is that aggregate one and never a
  network's own, every network's lookup has failed, and every network has been asked.
\<close>

theorem resolve_first_address:
  "(Object_keys (NETWORKS (getFullnodeUrl w)) = pre @ n # post
      \<and> (\<forall>m\<in>set pre. isl (snd (resolveSuiName w nm m)))
      \<and> snd (resolveSuiName w nm n) = Inr a
    \<longrightarrow> resolveSuiNameOnAllNetworks w nm
          = (map (\<lambda>m. AxiosGet (resolve_url w nm m)) (pre @ [n]), Inr a)
        \<and> a \<noteq> [])
   \<and> ((\<forall>m\<in>set (Object_keys (NETWORKS (getFullnodeUrl w))). isl (snd (resolveSuiName w nm m)))
    \<longrightarrow> resolveSuiNameOnAllNetworks w nm
          = (map (\<lambda>m. AxiosGet (resolve_url w nm m)) (Object_keys (NETWORKS (getFullnodeUrl w))),
             Inl (Error (''SuiNS name \"'' @ nm @ ''\" not found on any network''))))
   \<and> (snd (resolveSuiNameOnAllNetworks w nm) = Inl err
    \<longrightarrow> err = Error (''SuiNS name \"'' @ nm @ ''\" not found on any network'')
        \<and> (\<forall>m\<in>set (Object_keys (NETWORKS (getFullnodeUrl w))).
              isl (snd (resolveSuiName w nm m)))
        \<and> fst (resolveSuiNameOnAllNetworks w nm)
          = map (\<lambda>m. AxiosGet (resolve_url w nm m)) (Object_keys (NETWORKS (getFullnodeUrl w))))
   \<and> fst (resolveSuiName w nm n) = [AxiosGet (resolve_url w nm n)]"
proof -
  let ?keys = "Object_keys (NETWORKS (getFullnodeUrl w))"
  let ?req = "\<lambda>m. AxiosGet (resolve_url w nm m)"
  have none: "resolveSuiNameOnAllNetworks w nm
          = (map ?req ?keys, Inl (Error (''SuiNS name \"'' @ nm @ ''\" not found on any network'')))"
    if "\<forall>m\<in>set ?keys. isl (snd (resolveSuiName w nm m))"
  proof -
    have "resolve_loop w nm ?keys = (map ?req ?keys, None)"
      using that by (rule resolve_loop_none)
    then show ?thesis by (simp add: resolveSuiNameOnAllNetworks_def)
  qed
  have first: "resolveSuiNameOnAllNetworks w nm = (map ?req (pre @ [n]), Inr a) \<and> a \<noteq> []"
    if h: "?keys = pre @ n # post \<and> (\<forall>m\<in>set pre. isl (snd (resolveSuiName w nm m)))
      \<and> snd (resolveSuiName w nm n) = Inr a"
  proof -
    have "resolve_loop w nm (pre @ n # post) = (map ?req (pre @ [n]), Some a)"
      using h resolve_loop_first [of pre w nm n a post] by blast
    then have "resolveSuiNameOnAllNetworks w nm = (map ?req (pre @ [n]), Inr a)"
      using h by (simp add: resolveSuiNameOnAllNetworks_def)
    moreover have "a \<noteq> []" using h resolveSuiName_nonempty by blast
    ultimately show ?thesis by simp
  qed
  have fail: "err = Error (''SuiNS name \"'' @ nm @ ''\" not found on any network'')
        \<and> (\<forall>m\<in>set ?keys. isl (snd (resolveSuiName w nm m)))
        \<and> fst (resolveSuiNameOnAllNetworks w nm) = map ?req ?keys"
    if f: "snd (resolveSuiNameOnAllNetworks w nm) = Inl err"
  proof -
    have "snd (resolve_loop w nm ?keys) = None"
      using f by (cases "resolve_loop w nm ?keys")
        (auto simp: resolveSuiNameOnAllNetworks_def split: option.splits)
    then have all: "\<forall>m\<in>set ?keys. isl (snd (resolveSuiName w nm m))"
      by (rule resolve_loop_None_all_failed)
    then show ?thesis using none f by simp
  qed
  show ?thesis using none first fail resolveSuiName_trace by blast
qed


text \<open>
  In the example world \<^verbatim>\<open>alice.sui\<close> fails on mainnet and resolves on testnet, after which
  devnet and localnet are not asked; \<^verbatim>\<open>nobody.sui\<close> resolves nowhere.
\<close>

lemma example_axios_get:
  "axios_get example_world = (\<lambda>u.
        if u = ''https://api.suins.io/mainnet/resolve?name=alice.sui'' then Inl (Error ''503'')
        else if u = ''https://api.suins.io/testnet/resolve?name=alice.sui''
        then Inr (Some \<lparr>resp_address = Some ''0xa11ce'', resp_name = None\<rparr>)
        else if u = ''https://api.suins.io/testnet/resolve?name=a.suix''
        then Inr (Some \<lparr>resp_address = Some ''0xa11ce'', resp_name = None\<rparr>)
        else if u = ''https://api.suins.io/testnet/reverse-lookup?address=0xa11ce''
        then Inl (Error ''Network Error'')
        else Inr None)"
  by (simp add: example_world_def)

lemma example_endpoint:
  "suiNsEndpoint (NETWORKS_at example_world n)
     = (case n of mainnet \<Rightarrow> ''https://api.suins.io/mainnet''
        | testnet \<Rightarrow> ''https://api.suins.io/testnet''
        | devnet \<Rightarrow> ''https://api.suins.io/devnet''
        | localnet \<Rightarrow> ''http://localhost:3000/api'')"
  by (cases n) (simp_all add: NETWORKS_at_def NETWORKS_def)

lemma example_resolve_url:
  "resolve_url example_world nm n = suiNsEndpoint (NETWORKS_at example_world n) @ ''/resolve?name='' @ nm"
  by (simp add: resolve_url_def example_world_sel)

lemma example_resolve_alice:
  "resolveSuiName example_world ''alice.sui'' mainnet
     = ([AxiosGet ''https://api.suins.io/mainnet/resolve?name=alice.sui''],
        Inl (Error ''Failed to resolve name: 503''))"
  "resolveSuiName example_world ''alice.sui'' testnet
     = ([AxiosGet ''https://api.suins.io/testnet/resolve?name=alice.sui''], Inr ''0xa11ce'')"
  by (simp_all add: resolveSuiName_def example_resolve_url example_endpoint example_axios_get
      failed_to_resolve_def)

lemma example_resolve_nobody:
  "resolveSuiName example_world ''nobody.sui'' n
     = ([AxiosGet (suiNsEndpoint (NETWORKS_at example_world n) @ ''/resolve?name=nobody.sui'')],
        Inl (Error ''Failed to resolve name: No address returned''))"
  by (cases n) (simp_all add: resolveSuiName_def example_resolve_url example_endpoint
      example_axios_get failed_to_resolve_def)

theorem resolve_first_address_witness:
  "Object_keys (NETWORKS (getFullnodeUrl example_world)) = [mainnet] @ testnet # [devnet, localnet]
   \<and> snd (resolveSuiName example_world ''alice.sui'' mainnet)
       = Inl (Error ''Failed to resolve name: 503'')
   \<and> snd (resolveSuiName example_world ''alice.sui'' testnet) = Inr ''0xa11ce''
   \<and> resolveSuiNameOnAllNetworks example_world ''alice.sui''
       = ([AxiosGet ''https://api.suins.io/mainnet/resolve?name=alice.sui'',
           AxiosGet ''https://api.suins.io/testnet/resolve?name=alice.sui''], Inr ''0xa11ce'')
   \<and> isl (snd (resolveSuiName example_world ''nobody.sui'' mainnet))
   \<and> isl (snd (resolveSuiName example_world ''nobody.sui'' testnet))
   \<and> isl (snd (resolveSuiName example_world ''nobody.sui'' devnet))
   \<and> isl (snd (resolveSuiName example_world ''nobody.sui'' localnet))
   \<and> resolveSuiNameOnAllNetworks example_world ''nobody.sui''
       = ([AxiosGet ''https://api.suins.io/mainnet/resolve?name=nobody.sui'',
           AxiosGet ''https://api.suins.io/testnet/resolve?name=nobody.sui'',
           AxiosGet ''https://api.suins.io/devnet/resolve?name=nobody.sui'',
           AxiosGet ''http://localhost:3000/api/resolve?name=nobody.sui''],
          Inl (Error ''SuiNS name \"nobody.sui\" not found on any network''))"
proof -
  have keys: "Object_keys (NETWORKS (getFullnodeUrl example_world))
      = [mainnet] @ testnet # [devnet, localnet]"
    by (simp add: NETWORKS_keys)
  have a: "Object_keys (NETWORKS (getFullnodeUrl example_world))
        = [mainnet] @ testnet # [devnet, localnet]
      \<and> (\<forall>m\<in>set [mainnet]. isl (snd (resolveSuiName example_world ''alice.sui'' m)))
      \<and> snd (resolveSuiName example_world ''alice.sui'' testnet) = Inr ''0xa11ce''"
    by (simp add: NETWORKS_keys example_resolve_alice)
  have b: "\<forall>m\<in>set (Object_keys (NETWORKS (getFullnodeUrl example_world))).
      isl (snd (resolveSuiName example_world ''nobody.sui'' m))"
    by (simp add: example_resolve_nobody)
  note found = resolve_first_address [of example_world "[mainnet]" testnet "[devnet, localnet]"
      "''alice.sui''" "''0xa11ce''" NonError, THEN conjunct1, THEN mp, OF a, THEN conjunct1]
  note missing = resolve_first_address [of example_world "[mainnet]" testnet "[devnet, localnet]"
      "''nobody.sui''" "''0xa11ce''" NonError, THEN conjunct2, THEN conjunct1, THEN mp, OF b]
  have r1: "resolveSuiNameOnAllNetworks example_world ''alice.sui''
       = ([AxiosGet ''https://api.suins.io/mainnet/resolve?name=alice.sui'',
           AxiosGet ''https://api.suins.io/testnet/resolve?name=alice.sui''], Inr ''0xa11ce'')"
    by (simp add: found example_resolve_url example_endpoint)
  have r2: "resolveSuiNameOnAllNetworks example_world ''nobody.sui''
       = ([AxiosGet ''https://api.suins.io/mainnet/resolve?name=nobody.sui'',
           AxiosGet ''https://api.suins.io/testnet/resolve?name=nobody.sui'',
           AxiosGet ''https://api.suins.io/devnet/resolve?name=nobody.sui'',
           AxiosGet ''http://localhost:3000/api/resolve?name=nobody.sui''],
          Inl (Error ''SuiNS name \"nobody.sui\" not found on any network''))"
    by (simp add: missing NETWORKS_keys example_resolve_url example_endpoint)
  have r3: "isl (snd (resolveSuiName example_world ''nobody.sui'' m))" for m
    by (simp add: example_resolve_nobody)
  show ?thesis
    by (intro conjI keys r1 r2 r3) (simp_all add: example_resolve_alice)
qed

section \<open>The two scans cover different networks\<close>

text \<open>
  C10. The table lists mainnet, testnet, devnet and localnet in this order and name
  resolution scans all of them: when every lookup fails, the four requests went to
  mainnet, testnet, devnet and then localnet, whose endpoint is the local one. Detection
  only has the three candidates mainnet, testnet and devnet: when no candidate matches,
  exactly these three were probed.
\<close>

theorem resolver_includes_localnet:
  "Object_keys (NETWORKS (getFullnodeUrl w)) = [mainnet, testnet, devnet, localnet]
   \<and> networksToCheck = [mainnet, testnet, devnet]
   \<and> ((\<forall>m. isl (snd (resolveSuiName w nm m)))
      \<longrightarrow> fst (resolveSuiNameOnAllNetworks w nm)
          = [AxiosGet (resolve_url w nm mainnet), AxiosGet (resolve_url w nm testnet),
             AxiosGet (resolve_url w nm devnet), AxiosGet (resolve_url w nm localnet)])
   \<and> resolve_url w nm localnet = ''http://localhost:3000/api/resolve?name='' @ encodeURIComponent w nm
   \<and> ((\<forall>m. \<not> has_balances w addr m)
      \<longrightarrow> fst (detectNetworkForAddress w addr)
          = [probe w addr mainnet, probe w addr testnet, probe w addr devnet])"
proof (intro conjI impI)
  show "Object_keys (NETWORKS (getFullnodeUrl w)) = [mainnet, testnet, devnet, localnet]"
    by (rule NETWORKS_keys)
  show "networksToCheck = [mainnet, testnet, devnet]"
    by (simp add: networksToCheck_def)
  show "resolve_url w nm localnet
      = ''http://localhost:3000/api/resolve?name='' @ encodeURIComponent w nm"
    by (simp add: resolve_url_def NETWORKS_at_def NETWORKS_def)
next
  assume "\<forall>m. isl (snd (resolveSuiName w nm m))"
  then have "resolve_loop w nm [mainnet, testnet, devnet, localnet]
      = (map (\<lambda>m. AxiosGet (resolve_url w nm m)) [mainnet, testnet, devnet, localnet], None)"
    by (intro resolve_loop_none) simp
  then show "fst (resolveSuiNameOnAllNetworks w nm)
          = [AxiosGet (resolve_url w nm mainnet), AxiosGet (resolve_url w nm testnet),
             AxiosGet (resolve_url w nm devnet), AxiosGet (resolve_url w nm localnet)]"
    by (simp add: resolveSuiNameOnAllNetworks_def NETWORKS_keys)
next
  assume "\<forall>m. \<not> has_balances w addr m"
  then have "detect_loop w addr [mainnet, testnet, devnet]
      = (map (probe w addr) [mainnet, testnet, devnet], None)"
    by (intro detect_loop_none) simp
  then show "fst (detectNetworkForAddress w addr)
          = [probe w addr mainnet, probe w addr testnet, probe w addr devnet]"
    by (simp add: detectNetworkForAddress_def networksToCheck_def)
qed

theorem resolver_includes_localnet_witness:
  "(\<forall>m. isl (snd (resolveSuiName example_world ''nobody.sui'' m)))
   \<and> fst (resolveSuiNameOnAllNetworks example_world ''nobody.sui'')
       = [AxiosGet ''https://api.suins.io/mainnet/resolve?name=nobody.sui'',
          AxiosGet ''https://api.suins.io/testnet/resolve?name=nobody.sui'',
          AxiosGet ''https://api.suins.io/devnet/resolve?name=nobody.sui'',
          AxiosGet ''http://localhost:3000/api/resolve?name=nobody.sui'']
   \<and> (\<forall>m. \<not> has_balances example_world ''0xb0b'' m)
   \<and> fst (detectNetworkForAddress example_world ''0xb0b'')
       = [RpcGetAllBalances \<lparr>client_url = ''https://fullnode.mainnet.sui.io:443''\<rparr> ''0xb0b'',
          RpcGetAllBalances \<lparr>client_url = ''https://fullnode.testnet.sui.io:443''\<rparr> ''0xb0b'',
          RpcGetAllBalances \<lparr>client_url = ''https://fullnode.devnet.sui.io:443''\<rparr> ''0xb0b'']"
proof -
  have a: "\<forall>m. isl (snd (resolveSuiName example_world ''nobody.sui'' m))"
    by (simp add: example_resolve_nobody)
  have b: "\<forall>m. \<not> has_balances example_world ''0xb0b'' m"
    by (simp add: example_has_balances)
  note all = resolver_includes_localnet [of example_world "''nobody.sui''" "''0xb0b''"]
  note lookups = all [THEN conjunct2, THEN conjunct2, THEN conjunct1, THEN mp, OF a]
  note probes = all [THEN conjunct2, THEN conjunct2, THEN conjunct2, THEN conjunct2, THEN mp, OF b]
  have r1: "fst (resolveSuiNameOnAllNetworks example_world ''nobody.sui'')
       = [AxiosGet ''https://api.suins.io/mainnet/resolve?name=nobody.sui'',
          AxiosGet ''https://api.suins.io/testnet/resolve?name=nobody.sui'',
          AxiosGet ''https://api.suins.io/devnet/resolve?name=nobody.sui'',
          AxiosGet ''http://localhost:3000/api/resolve?name=nobody.sui'']"
    by (simp add: lookups example_resolve_url example_endpoint)
  have r2: "fst (detectNetworkForAddress example_world ''0xb0b'')
       = [RpcGetAllBalances \<lparr>client_url = ''https://fullnode.mainnet.sui.io:443''\<rparr> ''0xb0b'',
          RpcGetAllBalances \<lparr>client_url = ''https://fullnode.testnet.sui.io:443''\<rparr> ''0xb0b'',
          RpcGetAllBalances \<lparr>client_url = ''https://fullnode.devnet.sui.io:443''\<rparr> ''0xb0b'']"
    by (simp add: probes probe_def example_client sdk_fullnode_def)
  show ?thesis
    by (intro conjI a b r1 r2)
qed


lemma isSuiNsName_iff: "isSuiNsName s \<longleftrightarrow> (\<exists>a b. s = a @ ''.sui'' @ b)"
  by (simp only: isSuiNsName_def str_includes_iff)

lemma detect_and_inspect_starts_with_detection:
  "\<exists>rest. fst (detect_and_inspect w identifier addr) = fst (detectNetworkForAddress w addr) @ rest"
  by (cases "detectNetworkForAddress w addr")
    (auto simp: detect_and_inspect_def split: sum.splits)

section \<open>Names and raw addresses\<close>

text \<open>
  C3, as amended. The account command treats its identifier as a name exactly when the
  identifier contains the text \<^verbatim>\<open>.sui\<close> somewhere, not only at its end. An identifier
  without that text goes to detection unchanged and no name is resolved. An identifier with
  it is resolved first: if resolution yields an address, the requests of the resolution
  come before those of detection, which runs on the resolved address; if resolution fails,
  the command ends with that error and detection does not run. Detection is the first thing
  done with the address.
\<close>

theorem name_iff_contains_sui:
  "(isSuiNsName identifier \<longleftrightarrow> (\<exists>a b. identifier = a @ ''.sui'' @ b))
   \<and> (\<not> isSuiNsName identifier
      \<longrightarrow> getAccountInfo w identifier = detect_and_inspect w identifier identifier)
   \<and> (isSuiNsName identifier \<and> snd (resolveSuiNameOnAllNetworks w identifier) = Inr addr
      \<longrightarrow> getAccountInfo w identifier
          = (fst (resolveSuiNameOnAllNetworks w identifier)
               @ fst (detect_and_inspect w identifier addr),
             snd (detect_and_inspect w identifier addr)))
   \<and> (isSuiNsName identifier \<and> snd (resolveSuiNameOnAllNetworks w identifier) = Inl err
      \<longrightarrow> getAccountInfo w identifier
          = (fst (resolveSuiNameOnAllNetworks w identifier), Inl (error_message err)))
   \<and> (\<exists>rest. fst (detect_and_inspect w identifier addr)
          = fst (detectNetworkForAddress w addr) @ rest)"
proof (intro conjI impI)
  show "isSuiNsName identifier \<longleftrightarrow> (\<exists>a b. identifier = a @ ''.sui'' @ b)"
    by (rule isSuiNsName_iff)
  show "\<exists>rest. fst (detect_and_inspect w identifier addr)
          = fst (detectNetworkForAddress w addr) @ rest"
    by (rule detect_and_inspect_starts_with_detection)
next
  assume "\<not> isSuiNsName identifier"
  then show "getAccountInfo w identifier = detect_and_inspect w identifier identifier"
    by (simp add: getAccountInfo_def)
next
  assume "isSuiNsName identifier \<and> snd (resolveSuiNameOnAllNetworks w identifier) = Inr addr"
  then show "getAccountInfo w identifier
          = (fst (resolveSuiNameOnAllNetworks w identifier)
               @ fst (detect_and_inspect w identifier addr),
             snd (detect_and_inspect w identifier addr))"
    by (simp add: getAccountInfo_def)
next
  assume "isSuiNsName identifier \<and> snd (resolveSuiNameOnAllNetworks w identifier) = Inl err"
  then show "getAccountInfo w identifier
          = (fst (resolveSuiNameOnAllNetworks w identifier), Inl (error_message err))"
    by (simp add: getAccountInfo_def)
qed

text \<open>
  The identifier \<^verbatim>\<open>a.suix\<close> does not end in \<^verbatim>\<open>.sui\<close>, yet the command resolves it as a name.
\<close>

lemma example_isSuiNsName:
  "isSuiNsName ''a.suix''" "isSuiNsName ''alice.sui''" "\<not> isSuiNsName ''0xa11ce''"
  by (simp_all add: isSuiNsName_def)

lemma example_suffix: "\<not> spec_has_sui_suffix ''a.suix''" "spec_has_sui_suffix ''alice.sui''"
  by (simp_all add: spec_has_sui_suffix_def)

lemma example_resolve_suix:
  "resolveSuiName example_world ''a.suix'' mainnet
     = ([AxiosGet ''https://api.suins.io/mainnet/resolve?name=a.suix''],
        Inl (Error ''Failed to resolve name: No address returned''))"
  "resolveSuiName example_world ''a.suix'' testnet
     = ([AxiosGet ''https://api.suins.io/testnet/resolve?name=a.suix''], Inr ''0xa11ce'')"
  by (simp_all add: resolveSuiName_def example_resolve_url example_endpoint example_axios_get
      failed_to_resolve_def)

lemma example_resolve_all_suix:
  "resolveSuiNameOnAllNetworks example_world ''a.suix''
     = ([AxiosGet ''https://api.suins.io/mainnet/resolve?name=a.suix'',
         AxiosGet ''https://api.suins.io/testnet/resolve?name=a.suix''], Inr ''0xa11ce'')"
proof -
  have "resolve_loop example_world ''a.suix'' ([mainnet] @ testnet # [devnet, localnet])
      = (map (\<lambda>m. AxiosGet (resolve_url example_world ''a.suix'' m)) ([mainnet] @ [testnet]),
         Some ''0xa11ce'')"
    by (rule resolve_loop_first) (simp_all add: example_resolve_suix)
  then show ?thesis
    by (simp add: resolveSuiNameOnAllNetworks_def NETWORKS_keys example_resolve_url
        example_endpoint)
qed

lemma example_detect:
  "detectNetworkForAddress example_world ''0xa11ce''
     = ([RpcGetAllBalances \<lparr>client_url = ''https://fullnode.mainnet.sui.io:443''\<rparr> ''0xa11ce'',
         RpcGetAllBalances \<lparr>client_url = ''https://fullnode.testnet.sui.io:443''\<rparr> ''0xa11ce''],
        Inr (testnet, \<lparr>client_url = ''https://fullnode.testnet.sui.io:443''\<rparr>))"
proof -
  have "detect_loop example_world ''0xa11ce'' ([mainnet] @ testnet # [devnet])
      = (map (probe example_world ''0xa11ce'') ([mainnet] @ [testnet]),
         Some (testnet, new_SuiClient example_world testnet))"
    by (rule detect_loop_first) (simp_all add: example_has_balances)
  then show ?thesis
    by (simp add: detectNetworkForAddress_def networksToCheck_def probe_def example_client
        sdk_fullnode_def)
qed

lemma example_reverse:
  "checkForSuiNsName example_world ''0xa11ce'' testnet
     = ([AxiosGet ''https://api.suins.io/testnet/reverse-lookup?address=0xa11ce''], None)"
  by (simp add: checkForSuiNsName_def reverse_lookup_url_def example_endpoint example_axios_get)

lemma example_inspect_name:
  "isSuiNsName identifier \<Longrightarrow>
   detect_and_inspect example_world identifier ''0xa11ce''
     = ([RpcGetAllBalances \<lparr>client_url = ''https://fullnode.mainnet.sui.io:443''\<rparr> ''0xa11ce'',
         RpcGetAllBalances \<lparr>client_url = ''https://fullnode.testnet.sui.io:443''\<rparr> ''0xa11ce'',
         RpcGetObject \<lparr>client_url = ''https://fullnode.testnet.sui.io:443''\<rparr> ''0xa11ce'',
         RpcGetAllBalances \<lparr>client_url = ''https://fullnode.testnet.sui.io:443''\<rparr> ''0xa11ce''],
        Inr \<lparr>report_network = testnet, report_address = ''0xa11ce'',
             report_suiNsName = (if identifier = [] then None else Some identifier),
             report_balances = one_coin, report_accountInfo = ''{}''\<rparr>)"
  by (simp add: detect_and_inspect_def example_detect inspect_def example_world_sel)

theorem suffix_convention_counterexample:
  "\<not> spec_has_sui_suffix ''a.suix''
   \<and> getAccountInfo example_world ''a.suix''
       = ([AxiosGet ''https://api.suins.io/mainnet/resolve?name=a.suix'',
           AxiosGet ''https://api.suins.io/testnet/resolve?name=a.suix'',
           RpcGetAllBalances \<lparr>client_url = ''https://fullnode.mainnet.sui.io:443''\<rparr> ''0xa11ce'',
           RpcGetAllBalances \<lparr>client_url = ''https://fullnode.testnet.sui.io:443''\<rparr> ''0xa11ce'',
           RpcGetObject \<lparr>client_url = ''https://fullnode.testnet.sui.io:443''\<rparr> ''0xa11ce'',
           RpcGetAllBalances \<lparr>client_url = ''https://fullnode.testnet.sui.io:443''\<rparr> ''0xa11ce''],
          Inr \<lparr>report_network = testnet, report_address = ''0xa11ce'',
               report_suiNsName = Some ''a.suix'',
               report_balances = one_coin, report_accountInfo = ''{}''\<rparr>)"
proof -
  have "getAccountInfo example_world ''a.suix''
      = (fst (resolveSuiNameOnAllNetworks example_world ''a.suix'')
           @ fst (detect_and_inspect example_world ''a.suix'' ''0xa11ce''),
         snd (detect_and_inspect example_world ''a.suix'' ''0xa11ce''))"
    by (simp add: getAccountInfo_def example_isSuiNsName example_resolve_all_suix)
  then show ?thesis
    by (simp add: example_resolve_all_suix example_inspect_name example_isSuiNsName
        example_suffix)
qed

theorem name_iff_contains_sui_witness:
  "isSuiNsName ''a.suix'' \<and> ''a.suix'' = ''a'' @ ''.sui'' @ ''x''
   \<and> snd (resolveSuiNameOnAllNetworks example_world ''a.suix'') = Inr ''0xa11ce''
   \<and> getAccountInfo example_world ''a.suix''
       = (fst (resolveSuiNameOnAllNetworks example_world ''a.suix'')
            @ fst (detect_and_inspect example_world ''a.suix'' ''0xa11ce''),
          snd (detect_and_inspect example_world ''a.suix'' ''0xa11ce''))
   \<and> \<not> isSuiNsName ''0xa11ce''
   \<and> getAccountInfo example_world ''0xa11ce''
       = detect_and_inspect example_world ''0xa11ce'' ''0xa11ce''
   \<and> isSuiNsName ''nobody.sui''
   \<and> snd (resolveSuiNameOnAllNetworks example_world ''nobody.sui'')
       = Inl (Error ''SuiNS name \"nobody.sui\" not found on any network'')
   \<and> snd (getAccountInfo example_world ''nobody.sui'')
       = Inl ''SuiNS name \"nobody.sui\" not found on any network''"
proof -
  have h1: "isSuiNsName ''a.suix''
      \<and> snd (resolveSuiNameOnAllNetworks example_world ''a.suix'') = Inr ''0xa11ce''"
    by (simp add: example_isSuiNsName example_resolve_all_suix)
  have h2: "\<not> isSuiNsName ''0xa11ce''"
    by (simp add: example_isSuiNsName)
  have nobody: "resolve_loop example_world ''nobody.sui'' [mainnet, testnet, devnet, localnet]
      = (map (\<lambda>m. AxiosGet (resolve_url example_world ''nobody.sui'' m))
           [mainnet, testnet, devnet, localnet], None)"
    by (rule resolve_loop_none) (simp add: example_resolve_nobody)
  have h3: "isSuiNsName ''nobody.sui''
      \<and> snd (resolveSuiNameOnAllNetworks example_world ''nobody.sui'')
        = Inl (Error ''SuiNS name \"nobody.sui\" not found on any network'')"
    by (simp add: isSuiNsName_def resolveSuiNameOnAllNetworks_def NETWORKS_keys nobody)
  note r1 = name_iff_contains_sui [of "''a.suix''" example_world "''0xa11ce''" NonError,
      THEN conjunct2, THEN conjunct2, THEN conjunct1, THEN mp, OF h1]
  note r2 = name_iff_contains_sui [of "''0xa11ce''" example_world "''0xa11ce''" NonError,
      THEN conjunct2, THEN conjunct1, THEN mp, OF h2]
  note r3 = name_iff_contains_sui [of "''nobody.sui''" example_world "''0xa11ce''"
      "Error ''SuiNS name \"nobody.sui\" not found on any network''",
      THEN conjunct2, THEN conjunct2, THEN conjunct2, THEN conjunct1, THEN mp, OF h3]
  have r3': "snd (getAccountInfo example_world ''nobody.sui'')
       = Inl ''SuiNS name \"nobody.sui\" not found on any network''"
    by (simp add: r3)
  show ?thesis
    using h1 h2 h3 r1 r2 r3' by (intro conjI) simp_all
qed


lemma inspect_failure_is_rpc:
  "snd (inspect w identifier addr n client) = Inl m \<Longrightarrow>
   \<exists>err. (getObject w client addr = Inl err \<or> fetchAllBalances w client addr = Inl err)
      \<and> m = error_message err"
  by (auto simp: inspect_def Let_def split: sum.splits)

lemma getNftDetails_with_data:
  "nft_getObject w i = Inr r \<Longrightarrow> response_data r = Some d \<Longrightarrow>
   getNftDetails w i
     = ([ConsoleLog (''\<newline>Fetching details for NFT: '' @ i @ ''...''), NftGetObject i]
          @ fst (fetch_floor_price w i (build_metadata w d))
          @ render_details (snd (fetch_floor_price w i (build_metadata w d))),
        Inr (snd (fetch_floor_price w i (build_metadata w d))))"
  by (simp add: getNftDetails_def Let_def)

lemma getNftDetails_without_data:
  "nft_getObject w i = Inr r \<Longrightarrow> response_data r = None \<Longrightarrow>
   getNftDetails w i
     = ([ConsoleLog (''\<newline>Fetching details for NFT: '' @ i @ ''...''), NftGetObject i],
        Inl (Error ''NFT not found or data unavailable''))"
  by (simp add: getNftDetails_def Let_def)

lemma build_metadata_no_price: "allTimeFloorPrice (build_metadata w d) = None"
  by (simp add: build_metadata_def Let_def split: option.splits SuiParsedData.splits)

lemma or_not_available_cases:
  "or_not_available x
     = (case x of None \<Rightarrow> ''Not available''
        | Some s \<Rightarrow> if s = [] then ''Not available'' else s)"
  by (cases x) (simp_all add: or_not_available_def)

lemma optional_line_cases:
  "(if truthy x then [ConsoleLog (label @ the x)] else [])
     = (case x of None \<Rightarrow> [] | Some s \<Rightarrow> if s = [] then [] else [ConsoleLog (label @ s)])"
  by (cases x) simp_all

lemma attribute_lines_cases:
  "(case x of None \<Rightarrow> []
    | Some attrs \<Rightarrow>
        if length attrs > 0
        then ConsoleLog ''\<newline>Attributes:''
             # map (\<lambda>(k, v). ConsoleLog (''  '' @ k @ '': '' @ v)) attrs
        else [])
   = (case x of None \<Rightarrow> []
      | Some attrs \<Rightarrow>
          if attrs = [] then []
          else ConsoleLog ''\<newline>Attributes:''
               # map (\<lambda>(k, v). ConsoleLog (''  '' @ k @ '': '' @ v)) attrs)"
  by (cases x) simp_all

lemma render_details_explicit:
  "render_details md
     = [ConsoleLog ''\<newline>NFT Details:'',
        ConsoleLog ''----------------------------------'',
        ConsoleLog (''Name: '' @ (case nft_name md of None \<Rightarrow> ''Not available''
                                 | Some s \<Rightarrow> if s = [] then ''Not available'' else s)),
        ConsoleLog (''Type: '' @ (case nft_type md of None \<Rightarrow> ''Not available''
                                 | Some s \<Rightarrow> if s = [] then ''Not available'' else s)),
        ConsoleLog (''Creator: '' @ (case creator md of None \<Rightarrow> ''Not available''
                                    | Some s \<Rightarrow> if s = [] then ''Not available'' else s)),
        ConsoleLog (''Tag: '' @ (case tag md of None \<Rightarrow> ''Not available''
                                | Some s \<Rightarrow> if s = [] then ''Not available'' else s)),
        ConsoleLog (''All Time Floor Price: ''
                      @ (case allTimeFloorPrice md of None \<Rightarrow> ''Not available''
                         | Some s \<Rightarrow> if s = [] then ''Not available'' else s))]
       @ (case nft_description md of None \<Rightarrow> []
          | Some s \<Rightarrow> if s = [] then [] else [ConsoleLog (''\<newline>Description: '' @ s)])
       @ (case nft_imageUrl md of None \<Rightarrow> []
          | Some s \<Rightarrow> if s = [] then [] else [ConsoleLog (''\<newline>Image URL: '' @ s)])
       @ (case attributes md of None \<Rightarrow> []
          | Some attrs \<Rightarrow>
              if attrs = [] then []
              else ConsoleLog ''\<newline>Attributes:''
                   # map (\<lambda>(k, v). ConsoleLog (''  '' @ k @ '': '' @ v)) attrs)
       @ [ConsoleLog ''----------------------------------\<newline>'']"
  unfolding render_details_def or_not_available_cases optional_line_cases attribute_lines_cases
  by (rule refl)

lemma fetch_floor_price_failed:
  assumes "marketplace_get nw (''https://api.suimarketplace.com/nfts/'' @ i @ ''/stats'')
          = Inl (Error msg) \<and> notice = ''Could not fetch floor price data: '' @ msg
      \<or> marketplace_get nw (''https://api.suimarketplace.com/nfts/'' @ i @ ''/stats'')
          = Inl NonError \<and> notice = ''Could not fetch floor price data''
      \<or> marketplace_get nw (''https://api.suimarketplace.com/nfts/'' @ i @ ''/stats'')
          = Inr None
        \<and> notice = ''Could not fetch floor price data: '' @ type_error_message nw"
  shows "fetch_floor_price nw i md
     = ([MarketplaceGet (''https://api.suimarketplace.com/nfts/'' @ i @ ''/stats''),
         ConsoleLog notice], md)"
  using assms
  by (elim disjE conjE) (simp_all add: fetch_floor_price_def stats_url_def floor_price_failed_def)

lemma build_metadata_fields:
  "nft_type (build_metadata nw d) = data_type d"
  "allTimeFloorPrice (build_metadata nw d) = None"
  "display_of d = Some disp \<Longrightarrow>
     nft_name (build_metadata nw d) = disp ''name''
     \<and> nft_description (build_metadata nw d) = disp ''description''
     \<and> nft_imageUrl (build_metadata nw d) = disp ''image_url''
     \<and> creator (build_metadata nw d) = disp ''creator''
     \<and> tag (build_metadata nw d) = disp ''tag''"
  "display_of d = None \<Longrightarrow>
     nft_name (build_metadata nw d) = None \<and> nft_description (build_metadata nw d) = None
     \<and> nft_imageUrl (build_metadata nw d) = None \<and> creator (build_metadata nw d) = None
     \<and> tag (build_metadata nw d) = None"
  by (simp_all add: build_metadata_def Let_def split: option.splits SuiParsedData.splits)

lemma explicit_failure_report:
  assumes h: "nft_getObject nw i = Inr r \<and> response_data r = Some d
      \<and> md = build_metadata nw d
      \<and> (marketplace_get nw (''https://api.suimarketplace.com/nfts/'' @ i @ ''/stats'')
            = Inl (Error msg) \<and> notice = ''Could not fetch floor price data: '' @ msg
        \<or> marketplace_get nw (''https://api.suimarketplace.com/nfts/'' @ i @ ''/stats'')
            = Inl NonError \<and> notice = ''Could not fetch floor price data''
        \<or> marketplace_get nw (''https://api.suimarketplace.com/nfts/'' @ i @ ''/stats'')
            = Inr None
          \<and> notice = ''Could not fetch floor price data: '' @ type_error_message nw)"
  shows "getNftDetails nw i
     = ([ConsoleLog (''\<newline>Fetching details for NFT: '' @ i @ ''...''),
         NftGetObject i,
         MarketplaceGet (''https://api.suimarketplace.com/nfts/'' @ i @ ''/stats''),
         ConsoleLog notice,
         ConsoleLog ''\<newline>NFT Details:'',
         ConsoleLog ''----------------------------------'',
         ConsoleLog (''Name: '' @ (case nft_name md of None \<Rightarrow> ''Not available''
                                  | Some s \<Rightarrow> if s = [] then ''Not available'' else s)),
         ConsoleLog (''Type: '' @ (case nft_type md of None \<Rightarrow> ''Not available''
                                  | Some s \<Rightarrow> if s = [] then ''Not available'' else s)),
         ConsoleLog (''Creator: '' @ (case creator md of None \<Rightarrow> ''Not available''
                                     | Some s \<Rightarrow> if s = [] then ''Not available'' else s)),
         ConsoleLog (''Tag: '' @ (case tag md of None \<Rightarrow> ''Not available''
                                 | Some s \<Rightarrow> if s = [] then ''Not available'' else s)),
         ConsoleLog ''All Time Floor Price: Not available'']
        @ (case nft_description md of None \<Rightarrow> []
           | Some s \<Rightarrow> if s = [] then [] else [ConsoleLog (''\<newline>Description: '' @ s)])
        @ (case nft_imageUrl md of None \<Rightarrow> []
           | Some s \<Rightarrow> if s = [] then [] else [ConsoleLog (''\<newline>Image URL: '' @ s)])
        @ (case attributes md of None \<Rightarrow> []
           | Some attrs \<Rightarrow>
               if attrs = [] then []
               else ConsoleLog ''\<newline>Attributes:''
                    # map (\<lambda>(k, v). ConsoleLog (''  '' @ k @ '': '' @ v)) attrs)
        @ [ConsoleLog ''----------------------------------\<newline>''],
        Inr md)"
proof -
  have o: "nft_getObject nw i = Inr r" and dd: "response_data r = Some d"
    and m: "md = build_metadata nw d"
    using h by simp_all
  have f: "fetch_floor_price nw i (build_metadata nw d)
     = ([MarketplaceGet (''https://api.suimarketplace.com/nfts/'' @ i @ ''/stats''),
         ConsoleLog notice], build_metadata nw d)"
    using h by (intro fetch_floor_price_failed) blast
  have np: "allTimeFloorPrice md = None"
    by (simp add: m build_metadata_fields)
  show ?thesis
    unfolding m
    by (simp add: getNftDetails_with_data [OF o dd] f render_details_explicit np [unfolded m])
qed

section \<open>Best-effort enrichment\<close>

text \<open>
  C4. A failed reverse lookup makes \<open>checkForSuiNsName\<close> return no name, not an error. The
  inspection of an account can only fail with the error of its object query or of its
  balance query; when both succeed and the reverse lookup fails, the report is produced
  with the name absent. When the identifier was a name, no reverse lookup is requested.
  For an NFT whose object has data, a failed floor-price request is printed as a notice
  and the metadata is produced and rendered with every other field as built and the floor
  price absent; a successful one changes that one field only. A reverse lookup that
  answers without data or without a name also gives no name. When the floor-price request
  throws, or answers without data so that reading the statistic throws, the command
  prints: the notice, the heading, the name, type, creator and tag (each "Not available"
  when missing or empty), "All Time Floor Price: Not available", the description, the
  image URL and the attributes when present, and the closing rule; it returns the
  metadata as built from the object, whose type and display fields are the object's.
\<close>

theorem enrichment_failure_not_fatal:
  "(axios_get w (reverse_lookup_url w addr n) = Inl err
      \<longrightarrow> checkForSuiNsName w addr n = ([AxiosGet (reverse_lookup_url w addr n)], None))
   \<and> (snd (inspect w identifier addr n client) = Inl m
      \<longrightarrow> (\<exists>e. (getObject w client addr = Inl e \<or> fetchAllBalances w client addr = Inl e)
              \<and> m = error_message e))
   \<and> (\<not> isSuiNsName identifier \<and> axios_get w (reverse_lookup_url w addr n) = Inl err
        \<and> getObject w client addr = Inr obj \<and> fetchAllBalances w client addr = Inr bs
      \<longrightarrow> inspect w identifier addr n client
          = ([RpcGetObject client addr, RpcGetAllBalances client addr,
              AxiosGet (reverse_lookup_url w addr n)],
             Inr \<lparr>report_network = n, report_address = addr, report_suiNsName = None,
                  report_balances = bs, report_accountInfo = obj\<rparr>))
   \<and> (isSuiNsName identifier
      \<longrightarrow> fst (inspect w identifier addr n client)
          = [RpcGetObject client addr, RpcGetAllBalances client addr])
   \<and> (nft_getObject nw i = Inr r \<and> response_data r = Some d
        \<and> marketplace_get nw (stats_url i) = Inl nerr
      \<longrightarrow> getNftDetails nw i
          = ([ConsoleLog (''\<newline>Fetching details for NFT: '' @ i @ ''...''), NftGetObject i,
              MarketplaceGet (stats_url i), floor_price_failed nerr]
               @ render_details (build_metadata nw d),
             Inr (build_metadata nw d))
        \<and> allTimeFloorPrice (build_metadata nw d) = None)
   \<and> (nft_getObject nw i = Inr r \<and> response_data r = Some d
        \<and> marketplace_get nw (stats_url i) = Inr (Some body)
      \<longrightarrow> snd (getNftDetails nw i)
          = Inr ((build_metadata nw d)\<lparr>allTimeFloorPrice := stat_allTimeFloorPrice body\<rparr>))
   \<and> (axios_get w (reverse_lookup_url w addr n) = Inr None
        \<or> axios_get w (reverse_lookup_url w addr n) = Inr (Some nbody)
          \<and> (resp_name nbody = None \<or> resp_name nbody = Some [])
      \<longrightarrow> checkForSuiNsName w addr n = ([AxiosGet (reverse_lookup_url w addr n)], None))
   \<and> (nft_getObject nw i = Inr r \<and> response_data r = Some d
      \<and> md = build_metadata nw d
      \<and> (marketplace_get nw (''https://api.suimarketplace.com/nfts/'' @ i @ ''/stats'')
            = Inl (Error msg) \<and> notice = ''Could not fetch floor price data: '' @ msg
        \<or> marketplace_get nw (''https://api.suimarketplace.com/nfts/'' @ i @ ''/stats'')
            = Inl NonError \<and> notice = ''Could not fetch floor price data''
        \<or> marketplace_get nw (''https://api.suimarketplace.com/nfts/'' @ i @ ''/stats'')
            = Inr None
          \<and> notice = ''Could not fetch floor price data: '' @ type_error_message nw)
      \<longrightarrow> getNftDetails nw i
     = ([ConsoleLog (''\<newline>Fetching details for NFT: '' @ i @ ''...''),
         NftGetObject i,
         MarketplaceGet (''https://api.suimarketplace.com/nfts/'' @ i @ ''/stats''),
         ConsoleLog notice,
         ConsoleLog ''\<newline>NFT Details:'',
         ConsoleLog ''----------------------------------'',
         ConsoleLog (''Name: '' @ (case nft_name md of None \<Rightarrow> ''Not available''
                                  | Some s \<Rightarrow> if s = [] then ''Not available'' else s)),
         ConsoleLog (''Type: '' @ (case nft_type md of None \<Rightarrow> ''Not available''
                                  | Some s \<Rightarrow> if s = [] then ''Not available'' else s)),
         ConsoleLog (''Creator: '' @ (case creator md of None \<Rightarrow> ''Not available''
                                     | Some s \<Rightarrow> if s = [] then ''Not available'' else s)),
         ConsoleLog (''Tag: '' @ (case tag md of None \<Rightarrow> ''Not available''
                                 | Some s \<Rightarrow> if s = [] then ''Not available'' else s)),
         ConsoleLog ''All Time Floor Price: Not available'']
        @ (case nft_description md of None \<Rightarrow> []
           | Some s \<Rightarrow> if s = [] then [] else [ConsoleLog (''\<newline>Description: '' @ s)])
        @ (case nft_imageUrl md of None \<Rightarrow> []
           | Some s \<Rightarrow> if s = [] then [] else [ConsoleLog (''\<newline>Image URL: '' @ s)])
        @ (case attributes md of None \<Rightarrow> []
           | Some attrs \<Rightarrow>
               if attrs = [] then []
               else ConsoleLog ''\<newline>Attributes:''
                    # map (\<lambda>(k, v). ConsoleLog (''  '' @ k @ '': '' @ v)) attrs)
        @ [ConsoleLog ''----------------------------------\<newline>''],
        Inr md))
   \<and> nft_type (build_metadata nw d) = data_type d
   \<and> (display_of d = Some disp
      \<longrightarrow> nft_name (build_metadata nw d) = disp ''name''
        \<and> nft_description (build_metadata nw d) = disp ''description''
        \<and> nft_imageUrl (build_metadata nw d) = disp ''image_url''
        \<and> creator (build_metadata nw d) = disp ''creator''
        \<and> tag (build_metadata nw d) = disp ''tag'')
   \<and> (display_of d = None
      \<longrightarrow> nft_name (build_metadata nw d) = None \<and> nft_description (build_metadata nw d) = None
        \<and> nft_imageUrl (build_metadata nw d) = None \<and> creator (build_metadata nw d) = None
        \<and> tag (build_metadata nw d) = None)"
proof -
  have c1: "axios_get w (reverse_lookup_url w addr n) = Inl err
      \<longrightarrow> checkForSuiNsName w addr n = ([AxiosGet (reverse_lookup_url w addr n)], None)"
    by (simp add: checkForSuiNsName_def)
  have c2: "snd (inspect w identifier addr n client) = Inl m
      \<longrightarrow> (\<exists>e. (getObject w client addr = Inl e \<or> fetchAllBalances w client addr = Inl e)
              \<and> m = error_message e)"
    by (rule impI) (rule inspect_failure_is_rpc)
  have c3: "\<not> isSuiNsName identifier \<and> axios_get w (reverse_lookup_url w addr n) = Inl err
        \<and> getObject w client addr = Inr obj \<and> fetchAllBalances w client addr = Inr bs
      \<longrightarrow> inspect w identifier addr n client
          = ([RpcGetObject client addr, RpcGetAllBalances client addr,
              AxiosGet (reverse_lookup_url w addr n)],
             Inr \<lparr>report_network = n, report_address = addr, report_suiNsName = None,
                  report_balances = bs, report_accountInfo = obj\<rparr>)"
    by (simp add: inspect_def checkForSuiNsName_def)
  have c4: "isSuiNsName identifier
      \<longrightarrow> fst (inspect w identifier addr n client)
          = [RpcGetObject client addr, RpcGetAllBalances client addr]"
    by (simp add: inspect_def Let_def split: sum.splits)
  have c5: "nft_getObject nw i = Inr r \<and> response_data r = Some d
        \<and> marketplace_get nw (stats_url i) = Inl nerr
      \<longrightarrow> getNftDetails nw i
          = ([ConsoleLog (''\<newline>Fetching details for NFT: '' @ i @ ''...''), NftGetObject i,
              MarketplaceGet (stats_url i), floor_price_failed nerr]
               @ render_details (build_metadata nw d),
             Inr (build_metadata nw d))
        \<and> allTimeFloorPrice (build_metadata nw d) = None"
  proof
    assume h: "nft_getObject nw i = Inr r \<and> response_data r = Some d
        \<and> marketplace_get nw (stats_url i) = Inl nerr"
    then have "fetch_floor_price nw i (build_metadata nw d)
        = ([MarketplaceGet (stats_url i), floor_price_failed nerr], build_metadata nw d)"
      by (simp add: fetch_floor_price_def)
    then show "getNftDetails nw i
          = ([ConsoleLog (''\<newline>Fetching details for NFT: '' @ i @ ''...''), NftGetObject i,
              MarketplaceGet (stats_url i), floor_price_failed nerr]
               @ render_details (build_metadata nw d),
             Inr (build_metadata nw d))
        \<and> allTimeFloorPrice (build_metadata nw d) = None"
      using h by (simp add: getNftDetails_with_data build_metadata_no_price)
  qed
  have c6: "nft_getObject nw i = Inr r \<and> response_data r = Some d
        \<and> marketplace_get nw (stats_url i) = Inr (Some body)
      \<longrightarrow> snd (getNftDetails nw i)
          = Inr ((build_metadata nw d)\<lparr>allTimeFloorPrice := stat_allTimeFloorPrice body\<rparr>)"
  proof
    assume h: "nft_getObject nw i = Inr r \<and> response_data r = Some d
        \<and> marketplace_get nw (stats_url i) = Inr (Some body)"
    then have "snd (fetch_floor_price nw i (build_metadata nw d))
        = (build_metadata nw d)\<lparr>allTimeFloorPrice := stat_allTimeFloorPrice body\<rparr>"
      by (simp add: fetch_floor_price_def)
    then show "snd (getNftDetails nw i)
          = Inr ((build_metadata nw d)\<lparr>allTimeFloorPrice := stat_allTimeFloorPrice body\<rparr>)"
      using h by (simp add: getNftDetails_with_data)
  qed
  have c7: "axios_get w (reverse_lookup_url w addr n) = Inr None
        \<or> axios_get w (reverse_lookup_url w addr n) = Inr (Some nbody)
          \<and> (resp_name nbody = None \<or> resp_name nbody = Some [])
      \<longrightarrow> checkForSuiNsName w addr n = ([AxiosGet (reverse_lookup_url w addr n)], None)"
    by (auto simp: checkForSuiNsName_def)
  have c8: "nft_getObject nw i = Inr r \<and> response_data r = Some d
      \<and> md = build_metadata nw d
      \<and> (marketplace_get nw (''https://api.suimarketplace.com/nfts/'' @ i @ ''/stats'')
            = Inl (Error msg) \<and> notice = ''Could not fetch floor price data: '' @ msg
        \<or> marketplace_get nw (''https://api.suimarketplace.com/nfts/'' @ i @ ''/stats'')
            = Inl NonError \<and> notice = ''Could not fetch floor price data''
        \<or> marketplace_get nw (''https://api.suimarketplace.com/nfts/'' @ i @ ''/stats'')
            = Inr None
          \<and> notice = ''Could not fetch floor price data: '' @ type_error_message nw)
      \<longrightarrow> getNftDetails nw i
     = ([ConsoleLog (''\<newline>Fetching details for NFT: '' @ i @ ''...''),
         NftGetObject i,
         MarketplaceGet (''https://api.suimarketplace.com/nfts/'' @ i @ ''/stats''),
         ConsoleLog notice,
         ConsoleLog ''\<newline>NFT Details:'',
         ConsoleLog ''----------------------------------'',
         ConsoleLog (''Name: '' @ (case nft_name md of None \<Rightarrow> ''Not available''
                                  | Some s \<Rightarrow> if s = [] then ''Not available'' else s)),
         ConsoleLog (''Type: '' @ (case nft_type md of None \<Rightarrow> ''Not available''
                                  | Some s \<Rightarrow> if s = [] then ''Not available'' else s)),
         ConsoleLog (''Creator: '' @ (case creator md of None \<Rightarrow> ''Not available''
                                     | Some s \<Rightarrow> if s = [] then ''Not available'' else s)),
         ConsoleLog (''Tag: '' @ (case tag md of None \<Rightarrow> ''Not available''
                                 | Some s \<Rightarrow> if s = [] then ''Not available'' else s)),
         ConsoleLog ''All Time Floor Price: Not available'']
        @ (case nft_description md of None \<Rightarrow> []
           | Some s \<Rightarrow> if s = [] then [] else [ConsoleLog (''\<newline>Description: '' @ s)])
        @ (case nft_imageUrl md of None \<Rightarrow> []
           | Some s \<Rightarrow> if s = [] then [] else [ConsoleLog (''\<newline>Image URL: '' @ s)])
        @ (case attributes md of None \<Rightarrow> []
           | Some attrs \<Rightarrow>
               if attrs = [] then []
               else ConsoleLog ''\<newline>Attributes:''
                    # map (\<lambda>(k, v). ConsoleLog (''  '' @ k @ '': '' @ v)) attrs)
        @ [ConsoleLog ''----------------------------------\<newline>''],
        Inr md)"
    by (rule impI) (rule explicit_failure_report)
  have c9a: "nft_type (build_metadata nw d) = data_type d"
    by (rule build_metadata_fields)
  have c9c: "display_of d = Some disp
      \<longrightarrow> nft_name (build_metadata nw d) = disp ''name''
        \<and> nft_description (build_metadata nw d) = disp ''description''
        \<and> nft_imageUrl (build_metadata nw d) = disp ''image_url''
        \<and> creator (build_metadata nw d) = disp ''creator''
        \<and> tag (build_metadata nw d) = disp ''tag''"
    by (rule impI) (rule build_metadata_fields)
  have c9d: "display_of d = None
      \<longrightarrow> nft_name (build_metadata nw d) = None \<and> nft_description (build_metadata nw d) = None
        \<and> nft_imageUrl (build_metadata nw d) = None \<and> creator (build_metadata nw d) = None
        \<and> tag (build_metadata nw d) = None"
    by (rule impI) (rule build_metadata_fields)
  show ?thesis
    by (intro conjI c1 c2 c3 c4 c5 c6 c7 c8 c9a c9c c9d)
qed

text \<open>
  In the example worlds the reverse lookup of \<^verbatim>\<open>0xa11ce\<close> and the marketplace both fail.
\<close>

lemma example_nft_sel:
  "nft_getObject example_nft_world ''0x1''
     = Inr \<lparr>response_data = Some \<lparr>data_type = Some ''0x2::devnet_nft::DevNetNFT'',
                                   data_display = None,
                                   data_content = Some (MoveObject [(''_id'', ''x''),
                                                                    (''power'', ''9'')])\<rparr>\<rparr>"
  "nft_getObject example_nft_world ''0x2'' = Inr \<lparr>response_data = None\<rparr>"
  "marketplace_get example_nft_world u = Inl (Error ''ENOTFOUND'')"
  "nft_getObject priced_nft_world = nft_getObject example_nft_world"
  "marketplace_get priced_nft_world u = Inr (Some \<lparr>stat_allTimeFloorPrice = Some ''12 SUI''\<rparr>)"
  "nft_getObject dataless_nft_world = nft_getObject example_nft_world"
  "marketplace_get dataless_nft_world u = Inr None"
  "type_error_message dataless_nft_world = ''Cannot read properties of undefined''"
  by (simp_all add: example_nft_world_def priced_nft_world_def dataless_nft_world_def)

lemma example_nft_runtime:
  "typeof_object example_nft_world v = False"
  "String_of example_nft_world v = v"
  "typeof_object priced_nft_world v = False"
  "String_of priced_nft_world v = v"
  "typeof_object dataless_nft_world v = False"
  "String_of dataless_nft_world v = v"
  by (simp_all add: example_nft_world_def priced_nft_world_def dataless_nft_world_def)

lemma example_metadata:
  "nw = example_nft_world \<or> nw = priced_nft_world \<or> nw = dataless_nft_world \<Longrightarrow>
   build_metadata nw \<lparr>data_type = Some ''0x2::devnet_nft::DevNetNFT'', data_display = None,
       data_content = Some (MoveObject [(''_id'', ''x''), (''power'', ''9'')])\<rparr>
     = \<lparr>creator = None, nft_type = Some ''0x2::devnet_nft::DevNetNFT'', tag = None,
        allTimeFloorPrice = None, nft_name = None, nft_description = None,
        nft_imageUrl = None, attributes = Some [(''power'', ''9'')]\<rparr>"
  by (auto simp: build_metadata_def display_of_def example_nft_runtime)

theorem enrichment_failure_not_fatal_witness:
  "axios_get example_world (reverse_lookup_url example_world ''0xa11ce'' testnet)
     = Inl (Error ''Network Error'')
   \<and> checkForSuiNsName example_world ''0xa11ce'' testnet
     = ([AxiosGet ''https://api.suins.io/testnet/reverse-lookup?address=0xa11ce''], None)
   \<and> \<not> isSuiNsName ''0xa11ce''
   \<and> inspect example_world ''0xa11ce'' ''0xa11ce'' testnet
        \<lparr>client_url = ''https://fullnode.testnet.sui.io:443''\<rparr>
     = ([RpcGetObject \<lparr>client_url = ''https://fullnode.testnet.sui.io:443''\<rparr> ''0xa11ce'',
         RpcGetAllBalances \<lparr>client_url = ''https://fullnode.testnet.sui.io:443''\<rparr> ''0xa11ce'',
         AxiosGet ''https://api.suins.io/testnet/reverse-lookup?address=0xa11ce''],
        Inr \<lparr>report_network = testnet, report_address = ''0xa11ce'', report_suiNsName = None,
             report_balances = one_coin, report_accountInfo = ''{}''\<rparr>)
   \<and> isSuiNsName ''alice.sui''
   \<and> fst (inspect example_world ''alice.sui'' ''0xa11ce'' testnet
        \<lparr>client_url = ''https://fullnode.testnet.sui.io:443''\<rparr>)
     = [RpcGetObject \<lparr>client_url = ''https://fullnode.testnet.sui.io:443''\<rparr> ''0xa11ce'',
        RpcGetAllBalances \<lparr>client_url = ''https://fullnode.testnet.sui.io:443''\<rparr> ''0xa11ce'']
   \<and> marketplace_get example_nft_world (stats_url ''0x1'') = Inl (Error ''ENOTFOUND'')
   \<and> snd (getNftDetails example_nft_world ''0x1'')
     = Inr \<lparr>creator = None, nft_type = Some ''0x2::devnet_nft::DevNetNFT'', tag = None,
        allTimeFloorPrice = None, nft_name = None, nft_description = None,
        nft_imageUrl = None, attributes = Some [(''power'', ''9'')]\<rparr>
   \<and> snd (getNftDetails priced_nft_world ''0x1'')
     = Inr \<lparr>creator = None, nft_type = Some ''0x2::devnet_nft::DevNetNFT'', tag = None,
        allTimeFloorPrice = Some ''12 SUI'', nft_name = None, nft_description = None,
        nft_imageUrl = None, attributes = Some [(''power'', ''9'')]\<rparr>
   \<and> axios_get example_world (reverse_lookup_url example_world ''0xb0b'' testnet) = Inr None
   \<and> checkForSuiNsName example_world ''0xb0b'' testnet
     = ([AxiosGet ''https://api.suins.io/testnet/reverse-lookup?address=0xb0b''], None)
   \<and> marketplace_get dataless_nft_world ''https://api.suimarketplace.com/nfts/0x1/stats''
     = Inr None
   \<and> getNftDetails example_nft_world ''0x1''
     = ([ConsoleLog ''\<newline>Fetching details for NFT: 0x1...'',
         NftGetObject ''0x1'',
         MarketplaceGet ''https://api.suimarketplace.com/nfts/0x1/stats'',
         ConsoleLog ''Could not fetch floor price data: ENOTFOUND'',
         ConsoleLog ''\<newline>NFT Details:'',
         ConsoleLog ''----------------------------------'',
         ConsoleLog ''Name: Not available'',
         ConsoleLog ''Type: 0x2::devnet_nft::DevNetNFT'',
         ConsoleLog ''Creator: Not available'',
         ConsoleLog ''Tag: Not available'',
         ConsoleLog ''All Time Floor Price: Not available'',
         ConsoleLog ''\<newline>Attributes:'',
         ConsoleLog ''  power: 9'',
         ConsoleLog ''----------------------------------\<newline>''],
        Inr \<lparr>creator = None, nft_type = Some ''0x2::devnet_nft::DevNetNFT'', tag = None,
        allTimeFloorPrice = None, nft_name = None, nft_description = None,
        nft_imageUrl = None, attributes = Some [(''power'', ''9'')]\<rparr>)
   \<and> getNftDetails dataless_nft_world ''0x1''
     = ([ConsoleLog ''\<newline>Fetching details for NFT: 0x1...'',
         NftGetObject ''0x1'',
         MarketplaceGet ''https://api.suimarketplace.com/nfts/0x1/stats'',
         ConsoleLog ''Could not fetch floor price data: Cannot read properties of undefined'',
         ConsoleLog ''\<newline>NFT Details:'',
         ConsoleLog ''----------------------------------'',
         ConsoleLog ''Name: Not available'',
         ConsoleLog ''Type: 0x2::devnet_nft::DevNetNFT'',
         ConsoleLog ''Creator: Not available'',
         ConsoleLog ''Tag: Not available'',
         ConsoleLog ''All Time Floor Price: Not available'',
         ConsoleLog ''\<newline>Attributes:'',
         ConsoleLog ''  power: 9'',
         ConsoleLog ''----------------------------------\<newline>''],
        Inr \<lparr>creator = None, nft_type = Some ''0x2::devnet_nft::DevNetNFT'', tag = None,
        allTimeFloorPrice = None, nft_name = None, nft_description = None,
        nft_imageUrl = None, attributes = Some [(''power'', ''9'')]\<rparr>)"
proof -
  let ?c = "\<lparr>client_url = ''https://fullnode.testnet.sui.io:443''\<rparr>"
  let ?d = "\<lparr>data_type = Some ''0x2::devnet_nft::DevNetNFT'', data_display = None,
       data_content = Some (MoveObject [(''_id'', ''x''), (''power'', ''9'')])\<rparr>"
  have url: "reverse_lookup_url example_world ''0xa11ce'' testnet
      = ''https://api.suins.io/testnet/reverse-lookup?address=0xa11ce''"
    by (simp add: reverse_lookup_url_def example_endpoint)
  have h1: "axios_get example_world (reverse_lookup_url example_world ''0xa11ce'' testnet)
      = Inl (Error ''Network Error'')"
    by (simp add: url example_axios_get)
  have h3: "\<not> isSuiNsName ''0xa11ce''
      \<and> axios_get example_world (reverse_lookup_url example_world ''0xa11ce'' testnet)
        = Inl (Error ''Network Error'')
      \<and> getObject example_world ?c ''0xa11ce'' = Inr ''{}''
      \<and> fetchAllBalances example_world ?c ''0xa11ce'' = Inr one_coin"
    by (simp add: h1 example_isSuiNsName example_world_sel)
  have h4: "isSuiNsName ''alice.sui''"
    by (simp add: example_isSuiNsName)
  have h5: "nft_getObject example_nft_world ''0x1'' = Inr \<lparr>response_data = Some ?d\<rparr>
      \<and> response_data \<lparr>response_data = Some ?d\<rparr> = Some ?d
      \<and> marketplace_get example_nft_world (stats_url ''0x1'') = Inl (Error ''ENOTFOUND'')"
    by (simp add: example_nft_sel)
  have h6: "nft_getObject priced_nft_world ''0x1'' = Inr \<lparr>response_data = Some ?d\<rparr>
      \<and> response_data \<lparr>response_data = Some ?d\<rparr> = Some ?d
      \<and> marketplace_get priced_nft_world (stats_url ''0x1'')
        = Inr (Some \<lparr>stat_allTimeFloorPrice = Some ''12 SUI''\<rparr>)"
    by (simp add: example_nft_sel)
  note t1 = enrichment_failure_not_fatal [of example_world "''0xa11ce''" testnet
      "Error ''Network Error''" "''0xa11ce''" ?c "''x''" "''{}''" one_coin
      example_nft_world "''0x1''" "\<lparr>response_data = Some ?d\<rparr>" ?d "Error ''ENOTFOUND''"
      "\<lparr>stat_allTimeFloorPrice = Some ''12 SUI''\<rparr>"]
  note t2 = enrichment_failure_not_fatal [of example_world "''0xa11ce''" testnet
      "Error ''Network Error''" "''alice.sui''" ?c "''x''" "''{}''" one_coin
      priced_nft_world "''0x1''" "\<lparr>response_data = Some ?d\<rparr>" ?d "Error ''ENOTFOUND''"
      "\<lparr>stat_allTimeFloorPrice = Some ''12 SUI''\<rparr>"]
  note r1 = t1 [THEN conjunct1, THEN mp, OF h1]
  note r3 = t1 [THEN conjunct2, THEN conjunct2, THEN conjunct1, THEN mp, OF h3]
  note r4 = t2 [THEN conjunct2, THEN conjunct2, THEN conjunct2, THEN conjunct1, THEN mp, OF h4]
  note r5 = t1 [THEN conjunct2, THEN conjunct2, THEN conjunct2, THEN conjunct2, THEN conjunct1,
      THEN mp, OF h5, THEN conjunct1]
  note r6 = t2 [THEN conjunct2, THEN conjunct2, THEN conjunct2, THEN conjunct2, THEN conjunct2,
      THEN conjunct1, THEN mp, OF h6]
  have g1: "checkForSuiNsName example_world ''0xa11ce'' testnet
     = ([AxiosGet ''https://api.suins.io/testnet/reverse-lookup?address=0xa11ce''], None)"
    using r1 by (simp add: url)
  have g3: "inspect example_world ''0xa11ce'' ''0xa11ce'' testnet ?c
     = ([RpcGetObject ?c ''0xa11ce'', RpcGetAllBalances ?c ''0xa11ce'',
         AxiosGet ''https://api.suins.io/testnet/reverse-lookup?address=0xa11ce''],
        Inr \<lparr>report_network = testnet, report_address = ''0xa11ce'', report_suiNsName = None,
             report_balances = one_coin, report_accountInfo = ''{}''\<rparr>)"
    using r3 by (simp add: url)
  have g5: "snd (getNftDetails example_nft_world ''0x1'')
     = Inr \<lparr>creator = None, nft_type = Some ''0x2::devnet_nft::DevNetNFT'', tag = None,
        allTimeFloorPrice = None, nft_name = None, nft_description = None,
        nft_imageUrl = None, attributes = Some [(''power'', ''9'')]\<rparr>"
    by (simp add: r5 example_metadata)
  have g6: "snd (getNftDetails priced_nft_world ''0x1'')
     = Inr \<lparr>creator = None, nft_type = Some ''0x2::devnet_nft::DevNetNFT'', tag = None,
        allTimeFloorPrice = Some ''12 SUI'', nft_name = None, nft_description = None,
        nft_imageUrl = None, attributes = Some [(''power'', ''9'')]\<rparr>"
    by (simp add: r6 example_metadata)
  have url': "reverse_lookup_url example_world ''0xb0b'' testnet
      = ''https://api.suins.io/testnet/reverse-lookup?address=0xb0b''"
    by (simp add: reverse_lookup_url_def example_endpoint)
  have h7: "axios_get example_world (reverse_lookup_url example_world ''0xb0b'' testnet)
      = Inr None"
    by (simp add: url' example_axios_get)
  have h7': "axios_get example_world (reverse_lookup_url example_world ''0xb0b'' testnet)
        = Inr None
      \<or> axios_get example_world (reverse_lookup_url example_world ''0xb0b'' testnet)
        = Inr (Some \<lparr>resp_address = None, resp_name = None\<rparr>)
          \<and> (resp_name \<lparr>resp_address = None, resp_name = None\<rparr> = None
            \<or> resp_name \<lparr>resp_address = None, resp_name = None\<rparr> = Some [])"
    using h7 by (rule disjI1)
  note r7 = enrichment_failure_not_fatal [where w = example_world and addr = "''0xb0b''"
      and n = testnet and nbody = "\<lparr>resp_address = None, resp_name = None\<rparr>",
      THEN conjunct2, THEN conjunct2, THEN conjunct2, THEN conjunct2, THEN conjunct2,
      THEN conjunct2, THEN conjunct1, THEN mp, OF h7']
  have g7: "checkForSuiNsName example_world ''0xb0b'' testnet
     = ([AxiosGet ''https://api.suins.io/testnet/reverse-lookup?address=0xb0b''], None)"
    using r7 by (simp add: url')
  have md: "build_metadata nw ?d = \<lparr>creator = None, nft_type = Some ''0x2::devnet_nft::DevNetNFT'', tag = None,
        allTimeFloorPrice = None, nft_name = None, nft_description = None,
        nft_imageUrl = None, attributes = Some [(''power'', ''9'')]\<rparr>"
    if "nw = example_nft_world \<or> nw = priced_nft_world \<or> nw = dataless_nft_world" for nw
    using that by (rule example_metadata)
  have h8: "nft_getObject example_nft_world ''0x1'' = Inr \<lparr>response_data = Some ?d\<rparr>
      \<and> response_data \<lparr>response_data = Some ?d\<rparr> = Some ?d
      \<and> \<lparr>creator = None, nft_type = Some ''0x2::devnet_nft::DevNetNFT'', tag = None,
        allTimeFloorPrice = None, nft_name = None, nft_description = None,
        nft_imageUrl = None, attributes = Some [(''power'', ''9'')]\<rparr> = build_metadata example_nft_world ?d
      \<and> (marketplace_get example_nft_world
              (''https://api.suimarketplace.com/nfts/'' @ ''0x1'' @ ''/stats'')
            = Inl (Error ''ENOTFOUND'')
          \<and> ''Could not fetch floor price data: ENOTFOUND''
            = ''Could not fetch floor price data: '' @ ''ENOTFOUND''
        \<or> marketplace_get example_nft_world
              (''https://api.suimarketplace.com/nfts/'' @ ''0x1'' @ ''/stats'')
            = Inl NonError
          \<and> ''Could not fetch floor price data: ENOTFOUND''
            = ''Could not fetch floor price data''
        \<or> marketplace_get example_nft_world
              (''https://api.suimarketplace.com/nfts/'' @ ''0x1'' @ ''/stats'')
            = Inr None
          \<and> ''Could not fetch floor price data: ENOTFOUND''
            = ''Could not fetch floor price data: '' @ type_error_message example_nft_world)"
    by (simp add: example_nft_sel md)
  have h9: "nft_getObject dataless_nft_world ''0x1'' = Inr \<lparr>response_data = Some ?d\<rparr>
      \<and> response_data \<lparr>response_data = Some ?d\<rparr> = Some ?d
      \<and> \<lparr>creator = None, nft_type = Some ''0x2::devnet_nft::DevNetNFT'', tag = None,
        allTimeFloorPrice = None, nft_name = None, nft_description = None,
        nft_imageUrl = None, attributes = Some [(''power'', ''9'')]\<rparr> = build_metadata dataless_nft_world ?d
      \<and> (marketplace_get dataless_nft_world
              (''https://api.suimarketplace.com/nfts/'' @ ''0x1'' @ ''/stats'')
            = Inl (Error ''x'')
          \<and> ''Could not fetch floor price data: Cannot read properties of undefined''
            = ''Could not fetch floor price data: '' @ ''x''
        \<or> marketplace_get dataless_nft_world
              (''https://api.suimarketplace.com/nfts/'' @ ''0x1'' @ ''/stats'')
            = Inl NonError
          \<and> ''Could not fetch floor price data: Cannot read properties of undefined''
            = ''Could not fetch floor price data''
        \<or> marketplace_get dataless_nft_world
              (''https://api.suimarketplace.com/nfts/'' @ ''0x1'' @ ''/stats'')
            = Inr None
          \<and> ''Could not fetch floor price data: Cannot read properties of undefined''
            = ''Could not fetch floor price data: '' @ type_error_message dataless_nft_world)"
    by (simp add: example_nft_sel md)
  note r8 = enrichment_failure_not_fatal [where nw = example_nft_world and i = "''0x1''"
      and r = "\<lparr>response_data = Some ?d\<rparr>" and d = ?d
      and md = "\<lparr>creator = None, nft_type = Some ''0x2::devnet_nft::DevNetNFT'', tag = None,
        allTimeFloorPrice = None, nft_name = None, nft_description = None,
        nft_imageUrl = None, attributes = Some [(''power'', ''9'')]\<rparr>"
      and msg = "''ENOTFOUND''"
      and notice = "''Could not fetch floor price data: ENOTFOUND''",
      THEN conjunct2, THEN conjunct2, THEN conjunct2, THEN conjunct2, THEN conjunct2,
      THEN conjunct2, THEN conjunct2, THEN conjunct1, THEN mp, OF h8]
  note r9 = enrichment_failure_not_fatal [where nw = dataless_nft_world and i = "''0x1''"
      and r = "\<lparr>response_data = Some ?d\<rparr>" and d = ?d
      and md = "\<lparr>creator = None, nft_type = Some ''0x2::devnet_nft::DevNetNFT'', tag = None,
        allTimeFloorPrice = None, nft_name = None, nft_description = None,
        nft_imageUrl = None, attributes = Some [(''power'', ''9'')]\<rparr>"
      and msg = "''x''"
      and notice = "''Could not fetch floor price data: Cannot read properties of undefined''",
      THEN conjunct2, THEN conjunct2, THEN conjunct2, THEN conjunct2, THEN conjunct2,
      THEN conjunct2, THEN conjunct2, THEN conjunct1, THEN mp, OF h9]
  have g8: "getNftDetails example_nft_world ''0x1''
     = ([ConsoleLog ''\<newline>Fetching details for NFT: 0x1...'',
         NftGetObject ''0x1'',
         MarketplaceGet ''https://api.suimarketplace.com/nfts/0x1/stats'',
         ConsoleLog ''Could not fetch floor price data: ENOTFOUND'',
         ConsoleLog ''\<newline>NFT Details:'',
         ConsoleLog ''----------------------------------'',
         ConsoleLog ''Name: Not available'',
         ConsoleLog ''Type: 0x2::devnet_nft::DevNetNFT'',
         ConsoleLog ''Creator: Not available'',
         ConsoleLog ''Tag: Not available'',
         ConsoleLog ''All Time Floor Price: Not available'',
         ConsoleLog ''\<newline>Attributes:'',
         ConsoleLog ''  power: 9'',
         ConsoleLog ''----------------------------------\<newline>''],
        Inr \<lparr>creator = None, nft_type = Some ''0x2::devnet_nft::DevNetNFT'', tag = None,
        allTimeFloorPrice = None, nft_name = None, nft_description = None,
        nft_imageUrl = None, attributes = Some [(''power'', ''9'')]\<rparr>)"
    using r8 by simp
  have g9: "getNftDetails dataless_nft_world ''0x1''
     = ([ConsoleLog ''\<newline>Fetching details for NFT: 0x1...'',
         NftGetObject ''0x1'',
         MarketplaceGet ''https://api.suimarketplace.com/nfts/0x1/stats'',
         ConsoleLog ''Could not fetch floor price data: Cannot read properties of undefined'',
         ConsoleLog ''\<newline>NFT Details:'',
         ConsoleLog ''----------------------------------'',
         ConsoleLog ''Name: Not available'',
         ConsoleLog ''Type: 0x2::devnet_nft::DevNetNFT'',
         ConsoleLog ''Creator: Not available'',
         ConsoleLog ''Tag: Not available'',
         ConsoleLog ''All Time Floor Price: Not available'',
         ConsoleLog ''\<newline>Attributes:'',
         ConsoleLog ''  power: 9'',
         ConsoleLog ''----------------------------------\<newline>''],
        Inr \<lparr>creator = None, nft_type = Some ''0x2::devnet_nft::DevNetNFT'', tag = None,
        allTimeFloorPrice = None, nft_name = None, nft_description = None,
        nft_imageUrl = None, attributes = Some [(''power'', ''9'')]\<rparr>)"
    using r9 by simp
  have h9m: "marketplace_get dataless_nft_world ''https://api.suimarketplace.com/nfts/0x1/stats''
     = Inr None"
    by (simp add: example_nft_sel)
  show ?thesis
    by (intro conjI h1 g1 h4 r4 g3 g5 g6 h7 g7 h9m g8 g9)
      (simp_all add: example_isSuiNsName example_nft_sel)
qed

lemma fetch_floor_price_keeps:
  "nft_name (snd (fetch_floor_price w i md)) = nft_name md"
  "creator (snd (fetch_floor_price w i md)) = creator md"
  "tag (snd (fetch_floor_price w i md)) = tag md"
  by (simp_all add: fetch_floor_price_def Let_def split: sum.splits option.splits)

lemma build_metadata_no_display:
  "display_of d = None \<Longrightarrow>
   nft_name (build_metadata w d) = None \<and> creator (build_metadata w d) = None
     \<and> tag (build_metadata w d) = None"
  by (simp add: build_metadata_def Let_def split: option.splits SuiParsedData.splits)

lemma or_not_available_falsy: "\<not> truthy x \<Longrightarrow> or_not_available x = ''Not available''"
  by (simp add: or_not_available_def)

lemma render_details_lines:
  "ConsoleLog (''Name: '' @ or_not_available (nft_name md)) \<in> set (render_details md)"
  "ConsoleLog (''Creator: '' @ or_not_available (creator md)) \<in> set (render_details md)"
  "ConsoleLog (''Tag: '' @ or_not_available (tag md)) \<in> set (render_details md)"
  by (simp_all add: render_details_def)

lemma getNftDetails_action_status:
  "snd (getNftDetails_action w i) = (if isl (snd (getNftDetails w i)) then 1 else 0)"
  by (cases "getNftDetails w i") (auto simp: getNftDetails_action_def split: sum.splits)

section \<open>NFT inspection\<close>

text \<open>
  C8. Once the object query has answered, \<open>getNftDetails\<close> fails exactly when the answer
  carries no data; it then fails at once with "NFT not found or data unavailable", before
  any marketplace request or output of details, and the command exits with status 1. When
  the answer carries data the command succeeds, and each of the name, the creator and the
  tag that is missing or empty is printed as "Not available"; all three are missing when
  the object has no display data.
\<close>

theorem nft_fails_only_without_data:
  "(nft_getObject w i = Inr r
      \<longrightarrow> ((\<exists>e. snd (getNftDetails w i) = Inl e) \<longleftrightarrow> response_data r = None))
   \<and> (nft_getObject w i = Inr r \<and> response_data r = None
      \<longrightarrow> getNftDetails w i
          = ([ConsoleLog (''\<newline>Fetching details for NFT: '' @ i @ ''...''), NftGetObject i],
             Inl (Error ''NFT not found or data unavailable''))
        \<and> snd (getNftDetails_action w i) = 1)
   \<and> (nft_getObject w i = Inr r \<and> response_data r = Some d
      \<longrightarrow> (\<exists>md. snd (getNftDetails w i) = Inr md
            \<and> (\<not> truthy (nft_name md)
                \<longrightarrow> ConsoleLog ''Name: Not available'' \<in> set (fst (getNftDetails w i)))
            \<and> (\<not> truthy (creator md)
                \<longrightarrow> ConsoleLog ''Creator: Not available'' \<in> set (fst (getNftDetails w i)))
            \<and> (\<not> truthy (tag md)
                \<longrightarrow> ConsoleLog ''Tag: Not available'' \<in> set (fst (getNftDetails w i)))
            \<and> (display_of d = None
                \<longrightarrow> nft_name md = None \<and> creator md = None \<and> tag md = None))
        \<and> snd (getNftDetails_action w i) = 0)"
proof -
  have c2: "nft_getObject w i = Inr r \<and> response_data r = None
      \<longrightarrow> getNftDetails w i
          = ([ConsoleLog (''\<newline>Fetching details for NFT: '' @ i @ ''...''), NftGetObject i],
             Inl (Error ''NFT not found or data unavailable''))
        \<and> snd (getNftDetails_action w i) = 1"
    by (simp add: getNftDetails_without_data getNftDetails_action_status)
  have c3: "nft_getObject w i = Inr r \<and> response_data r = Some d
      \<longrightarrow> (\<exists>md. snd (getNftDetails w i) = Inr md
            \<and> (\<not> truthy (nft_name md)
                \<longrightarrow> ConsoleLog ''Name: Not available'' \<in> set (fst (getNftDetails w i)))
            \<and> (\<not> truthy (creator md)
                \<longrightarrow> ConsoleLog ''Creator: Not available'' \<in> set (fst (getNftDetails w i)))
            \<and> (\<not> truthy (tag md)
                \<longrightarrow> ConsoleLog ''Tag: Not available'' \<in> set (fst (getNftDetails w i)))
            \<and> (display_of d = None
                \<longrightarrow> nft_name md = None \<and> creator md = None \<and> tag md = None))
        \<and> snd (getNftDetails_action w i) = 0"
  proof
    assume h: "nft_getObject w i = Inr r \<and> response_data r = Some d"
    let ?md = "snd (fetch_floor_price w i (build_metadata w d))"
    have run: "getNftDetails w i
        = ([ConsoleLog (''\<newline>Fetching details for NFT: '' @ i @ ''...''), NftGetObject i]
             @ fst (fetch_floor_price w i (build_metadata w d)) @ render_details ?md,
           Inr ?md)"
      using h by (simp add: getNftDetails_with_data)
    have tr: "fst (getNftDetails w i)
        = ([ConsoleLog (''\<newline>Fetching details for NFT: '' @ i @ ''...''), NftGetObject i]
             @ fst (fetch_floor_price w i (build_metadata w d))) @ render_details ?md"
      by (simp add: run)
    have shown: "x \<in> set (fst (getNftDetails w i))" if "x \<in> set (render_details ?md)" for x
      using that by (simp only: tr set_append Un_iff simp_thms)
    have name: "ConsoleLog ''Name: Not available'' \<in> set (fst (getNftDetails w i))"
      if "\<not> truthy (nft_name ?md)"
    proof -
      have "ConsoleLog ''Name: Not available'' \<in> set (render_details ?md)"
        using render_details_lines(1) [of ?md] or_not_available_falsy [OF that] by simp
      then show ?thesis by (rule shown)
    qed
    have crea: "ConsoleLog ''Creator: Not available'' \<in> set (fst (getNftDetails w i))"
      if "\<not> truthy (creator ?md)"
    proof -
      have "ConsoleLog ''Creator: Not available'' \<in> set (render_details ?md)"
        using render_details_lines(2) [of ?md] or_not_available_falsy [OF that] by simp
      then show ?thesis by (rule shown)
    qed
    have tg: "ConsoleLog ''Tag: Not available'' \<in> set (fst (getNftDetails w i))"
      if "\<not> truthy (tag ?md)"
    proof -
      have "ConsoleLog ''Tag: Not available'' \<in> set (render_details ?md)"
        using render_details_lines(3) [of ?md] or_not_available_falsy [OF that] by simp
      then show ?thesis by (rule shown)
    qed
    have nodisp: "nft_name ?md = None \<and> creator ?md = None \<and> tag ?md = None"
      if "display_of d = None"
      using build_metadata_no_display [OF that, of w] by (simp add: fetch_floor_price_keeps)
    have res: "snd (getNftDetails w i) = Inr ?md" by (simp add: run)
    have status: "snd (getNftDetails_action w i) = 0"
      by (simp add: getNftDetails_action_status run)
    have "snd (getNftDetails w i) = Inr ?md
            \<and> (\<not> truthy (nft_name ?md)
                \<longrightarrow> ConsoleLog ''Name: Not available'' \<in> set (fst (getNftDetails w i)))
            \<and> (\<not> truthy (creator ?md)
                \<longrightarrow> ConsoleLog ''Creator: Not available'' \<in> set (fst (getNftDetails w i)))
            \<and> (\<not> truthy (tag ?md)
                \<longrightarrow> ConsoleLog ''Tag: Not available'' \<in> set (fst (getNftDetails w i)))
            \<and> (display_of d = None
                \<longrightarrow> nft_name ?md = None \<and> creator ?md = None \<and> tag ?md = None)"
      by (intro conjI impI res name crea tg nodisp [THEN conjunct1]
          nodisp [THEN conjunct2, THEN conjunct1] nodisp [THEN conjunct2, THEN conjunct2])
    then have "\<exists>md. snd (getNftDetails w i) = Inr md
            \<and> (\<not> truthy (nft_name md)
                \<longrightarrow> ConsoleLog ''Name: Not available'' \<in> set (fst (getNftDetails w i)))
            \<and> (\<not> truthy (creator md)
                \<longrightarrow> ConsoleLog ''Creator: Not available'' \<in> set (fst (getNftDetails w i)))
            \<and> (\<not> truthy (tag md)
                \<longrightarrow> ConsoleLog ''Tag: Not available'' \<in> set (fst (getNftDetails w i)))
            \<and> (display_of d = None
                \<longrightarrow> nft_name md = None \<and> creator md = None \<and> tag md = None)"
      by (rule exI)
    then show "(\<exists>md. snd (getNftDetails w i) = Inr md
            \<and> (\<not> truthy (nft_name md)
                \<longrightarrow> ConsoleLog ''Name: Not available'' \<in> set (fst (getNftDetails w i)))
            \<and> (\<not> truthy (creator md)
                \<longrightarrow> ConsoleLog ''Creator: Not available'' \<in> set (fst (getNftDetails w i)))
            \<and> (\<not> truthy (tag md)
                \<longrightarrow> ConsoleLog ''Tag: Not available'' \<in> set (fst (getNftDetails w i)))
            \<and> (display_of d = None
                \<longrightarrow> nft_name md = None \<and> creator md = None \<and> tag md = None))
        \<and> snd (getNftDetails_action w i) = 0"
      using status by (rule conjI)
  qed
  have c1: "nft_getObject w i = Inr r
      \<longrightarrow> ((\<exists>e. snd (getNftDetails w i) = Inl e) \<longleftrightarrow> response_data r = None)"
  proof
    assume h: "nft_getObject w i = Inr r"
    show "(\<exists>e. snd (getNftDetails w i) = Inl e) \<longleftrightarrow> response_data r = None"
    proof (cases "response_data r")
      case None
      then show ?thesis using h by (simp add: getNftDetails_without_data)
    next
      case (Some d')
      then show ?thesis using h by (simp add: getNftDetails_with_data)
    qed
  qed
  show ?thesis
    by (intro conjI c1 c2 c3)
qed

lemma example_nft_trace:
  "getNftDetails example_nft_world ''0x1''
     = ([ConsoleLog ''\<newline>Fetching details for NFT: 0x1...'',
         NftGetObject ''0x1'',
         MarketplaceGet ''https://api.suimarketplace.com/nfts/0x1/stats'',
         ConsoleLog ''Could not fetch floor price data: ENOTFOUND'',
         ConsoleLog ''\<newline>NFT Details:'',
         ConsoleLog ''----------------------------------'',
         ConsoleLog ''Name: Not available'',
         ConsoleLog ''Type: 0x2::devnet_nft::DevNetNFT'',
         ConsoleLog ''Creator: Not available'',
         ConsoleLog ''Tag: Not available'',
         ConsoleLog ''All Time Floor Price: Not available'',
         ConsoleLog ''\<newline>Attributes:'',
         ConsoleLog ''  power: 9'',
         ConsoleLog ''----------------------------------\<newline>''],
        Inr \<lparr>creator = None, nft_type = Some ''0x2::devnet_nft::DevNetNFT'', tag = None,
           allTimeFloorPrice = None, nft_name = None, nft_description = None,
           nft_imageUrl = None, attributes = Some [(''power'', ''9'')]\<rparr>)"
  by (simp add: getNftDetails_def example_nft_sel example_metadata fetch_floor_price_def
      stats_url_def floor_price_failed_def render_details_def or_not_available_def)

theorem nft_fails_only_without_data_witness:
  "nft_getObject example_nft_world ''0x2'' = Inr \<lparr>response_data = None\<rparr>
   \<and> getNftDetails example_nft_world ''0x2''
       = ([ConsoleLog ''\<newline>Fetching details for NFT: 0x2...'', NftGetObject ''0x2''],
          Inl (Error ''NFT not found or data unavailable''))
   \<and> snd (getNftDetails_action example_nft_world ''0x2'') = 1
   \<and> display_of \<lparr>data_type = Some ''0x2::devnet_nft::DevNetNFT'', data_display = None,
         data_content = Some (MoveObject [(''_id'', ''x''), (''power'', ''9'')])\<rparr> = None
   \<and> snd (getNftDetails_action example_nft_world ''0x1'') = 0
   \<and> ConsoleLog ''Name: Not available'' \<in> set (fst (getNftDetails example_nft_world ''0x1''))
   \<and> ConsoleLog ''Creator: Not available'' \<in> set (fst (getNftDetails example_nft_world ''0x1''))
   \<and> ConsoleLog ''Tag: Not available'' \<in> set (fst (getNftDetails example_nft_world ''0x1''))
   \<and> fst (getNftDetails example_nft_world ''0x1'')
       = [ConsoleLog ''\<newline>Fetching details for NFT: 0x1...'',
          NftGetObject ''0x1'',
          MarketplaceGet ''https://api.suimarketplace.com/nfts/0x1/stats'',
          ConsoleLog ''Could not fetch floor price data: ENOTFOUND'',
          ConsoleLog ''\<newline>NFT Details:'',
          ConsoleLog ''----------------------------------'',
          ConsoleLog ''Name: Not available'',
          ConsoleLog ''Type: 0x2::devnet_nft::DevNetNFT'',
          ConsoleLog ''Creator: Not available'',
          ConsoleLog ''Tag: Not available'',
          ConsoleLog ''All Time Floor Price: Not available'',
          ConsoleLog ''\<newline>Attributes:'',
          ConsoleLog ''  power: 9'',
          ConsoleLog ''----------------------------------\<newline>'']"
proof -
  let ?d = "\<lparr>data_type = Some ''0x2::devnet_nft::DevNetNFT'', data_display = None,
       data_content = Some (MoveObject [(''_id'', ''x''), (''power'', ''9'')])\<rparr>"
  have h2: "nft_getObject example_nft_world ''0x2'' = Inr \<lparr>response_data = None\<rparr>
      \<and> response_data \<lparr>response_data = None\<rparr> = (None :: string SuiObjectData option)"
    by (simp add: example_nft_sel)
  have h3: "nft_getObject example_nft_world ''0x1'' = Inr \<lparr>response_data = Some ?d\<rparr>
      \<and> response_data \<lparr>response_data = Some ?d\<rparr> = Some ?d"
    by (simp add: example_nft_sel)
  have nd: "display_of ?d = None"
    by (simp add: display_of_def)
  note r2 = nft_fails_only_without_data [of example_nft_world "''0x2''"
      "\<lparr>response_data = None\<rparr>" ?d, THEN conjunct2, THEN conjunct1, THEN mp, OF h2]
  note r3 = nft_fails_only_without_data [of example_nft_world "''0x1''"
      "\<lparr>response_data = Some ?d\<rparr>" ?d, THEN conjunct2, THEN conjunct2, THEN mp, OF h3]
  from r3 [THEN conjunct1] obtain md where md:
    "snd (getNftDetails example_nft_world ''0x1'') = Inr md
     \<and> (\<not> truthy (nft_name md)
       \<longrightarrow> ConsoleLog ''Name: Not available'' \<in> set (fst (getNftDetails example_nft_world ''0x1'')))
     \<and> (\<not> truthy (creator md)
       \<longrightarrow> ConsoleLog ''Creator: Not available'' \<in> set (fst (getNftDetails example_nft_world ''0x1'')))
     \<and> (\<not> truthy (tag md)
       \<longrightarrow> ConsoleLog ''Tag: Not available'' \<in> set (fst (getNftDetails example_nft_world ''0x1'')))
     \<and> (display_of ?d = None \<longrightarrow> nft_name md = None \<and> creator md = None \<and> tag md = None)"
    by (rule exE)
  note md1 = md [THEN conjunct2, THEN conjunct1]
  note md2 = md [THEN conjunct2, THEN conjunct2, THEN conjunct1]
  note md3 = md [THEN conjunct2, THEN conjunct2, THEN conjunct2, THEN conjunct1]
  note md4 = md [THEN conjunct2, THEN conjunct2, THEN conjunct2, THEN conjunct2, THEN mp, OF nd]
  from md4 have none: "nft_name md = None" "creator md = None" "tag md = None"
    by simp_all
  have l1: "ConsoleLog ''Name: Not available'' \<in> set (fst (getNftDetails example_nft_world ''0x1''))"
    using md1 none(1) by simp
  have l2: "ConsoleLog ''Creator: Not available'' \<in> set (fst (getNftDetails example_nft_world ''0x1''))"
    using md2 none(2) by simp
  have l3: "ConsoleLog ''Tag: Not available'' \<in> set (fst (getNftDetails example_nft_world ''0x1''))"
    using md3 none(3) by simp
  have s1: "snd (getNftDetails_action example_nft_world ''0x1'') = 0"
    using r3 by (rule conjunct2)
  have s2: "snd (getNftDetails_action example_nft_world ''0x2'') = 1"
    using r2 by (rule conjunct2)
  have o2: "nft_getObject example_nft_world ''0x2'' = Inr \<lparr>response_data = None\<rparr>"
    using h2 by (rule conjunct1)
  have g2: "getNftDetails example_nft_world ''0x2''
       = ([ConsoleLog ''\<newline>Fetching details for NFT: 0x2...'', NftGetObject ''0x2''],
          Inl (Error ''NFT not found or data unavailable''))"
    using r2 [THEN conjunct1] by simp
  have full: "fst (getNftDetails example_nft_world ''0x1'')
       = [ConsoleLog ''\<newline>Fetching details for NFT: 0x1...'',
          NftGetObject ''0x1'',
          MarketplaceGet ''https://api.suimarketplace.com/nfts/0x1/stats'',
          ConsoleLog ''Could not fetch floor price data: ENOTFOUND'',
          ConsoleLog ''\<newline>NFT Details:'',
          ConsoleLog ''----------------------------------'',
          ConsoleLog ''Name: Not available'',
          ConsoleLog ''Type: 0x2::devnet_nft::DevNetNFT'',
          ConsoleLog ''Creator: Not available'',
          ConsoleLog ''Tag: Not available'',
          ConsoleLog ''All Time Floor Price: Not available'',
          ConsoleLog ''\<newline>Attributes:'',
          ConsoleLog ''  power: 9'',
          ConsoleLog ''----------------------------------\<newline>'']"
    by (simp only: example_nft_trace fst_conv)
  show ?thesis
    by (intro conjI o2 g2 s2 nd s1 l1 l2 l3 full)
qed


lemma number_min_max_iff: "number_min_max lo hi x = [] \<longleftrightarrow> in_range lo hi x"
  by (cases x) (auto simp: number_min_max_def)

lemma schema_issues_iff:
  "schema_issues w raw = [] \<longleftrightarrow>
     raw_name raw \<noteq> [] \<and> matches_AZ_3_5 (raw_symbol raw)
     \<and> in_range 1 10000 (raw_totalSupply raw)
     \<and> (case raw_royaltyBps raw of None \<Rightarrow> True | Some r \<Rightarrow> in_range 0 100 r)
     \<and> (\<exists>u. fs_access w (raw_imagePath raw) = Inr u)"
  by (auto simp: schema_issues_def shape_name_def shape_symbol_def shape_imagePath_def
      shape_totalSupply_def shape_royaltyBps_def number_min_max_iff
      split: sum.splits option.splits)

lemma parse_Inr_iff:
  "(\<exists>cfg. snd (MemeSchema_parseAsync w raw) = Inr cfg) \<longleftrightarrow> schema_issues w raw = []"
  by (simp add: MemeSchema_parseAsync_def)

lemma launchMeme_invalid:
  "snd (MemeSchema_parseAsync w raw) = Inl e \<Longrightarrow>
   launchMeme w raw = ([FsAccess (raw_imagePath raw)], Inl e)"
  by (simp add: launchMeme_def and_then_def MemeSchema_parseAsync_def split: if_splits)

lemma capital_letters: "map char_of [65 ..< 91 :: nat] = ''ABCDEFGHIJKLMNOPQRSTUVWXYZ''"
  by code_simp

lemma isUpperAZ_iff: "isUpperAZ c \<longleftrightarrow> c \<in> set ''ABCDEFGHIJKLMNOPQRSTUVWXYZ''"
proof
  assume "isUpperAZ c"
  then have "65 \<le> (of_char c :: nat) \<and> (of_char c :: nat) < 91"
    by (simp add: isUpperAZ_def)
  then have "(of_char c :: nat) \<in> set [65 ..< 91]"
    by (simp only: set_upt atLeastLessThan_iff)
  then have "char_of (of_char c :: nat) \<in> set (map char_of [65 ..< 91 :: nat])"
    by (simp only: set_map) (rule imageI)
  then show "c \<in> set ''ABCDEFGHIJKLMNOPQRSTUVWXYZ''"
    by (simp only: capital_letters char_of_char)
next
  assume "c \<in> set ''ABCDEFGHIJKLMNOPQRSTUVWXYZ''"
  then have "c \<in> set (map char_of [65 ..< 91 :: nat])"
    by (simp only: capital_letters)
  then obtain k :: nat where k: "c = char_of k" "65 \<le> k" "k < 91"
    by (auto simp only: set_map set_upt image_iff atLeastLessThan_iff)
  then have "(of_char c :: nat) = k"
    by simp
  then show "isUpperAZ c"
    using k by (simp add: isUpperAZ_def)
qed

lemma matches_AZ_3_5_iff:
  "matches_AZ_3_5 s \<longleftrightarrow>
     3 \<le> length s \<and> length s \<le> 5 \<and> set s \<subseteq> set ''ABCDEFGHIJKLMNOPQRSTUVWXYZ''"
proof -
  have "list_all isUpperAZ s \<longleftrightarrow> set s \<subseteq> set ''ABCDEFGHIJKLMNOPQRSTUVWXYZ''"
    unfolding list_all_iff isUpperAZ_iff by (rule subset_eq [symmetric])
  then show ?thesis by (simp only: matches_AZ_3_5_def)
qed

lemma symbol_examples:
  "\<not> matches_AZ_3_5 ''btc''" "\<not> matches_AZ_3_5 ''toolongname''" "matches_AZ_3_5 ''DOGE''"
  by (simp_all add: matches_AZ_3_5_def isUpperAZ_def)

section \<open>Launch input validation\<close>

text \<open>
  C5. The schema accepts a record exactly when its name is not empty, its symbol has
  three to five characters, each one of the 26 capital letters, its total supply lies between 1 and 10000, its
  royalty, when given, lies between 0 and 100, and the file system grants access to its
  image path. The symbols \<^verbatim>\<open>btc\<close> and \<^verbatim>\<open>toolongname\<close> are rejected and \<^verbatim>\<open>DOGE\<close> is accepted;
  the supplies 0 and 10001 are rejected and 1 and 10000 accepted; the royalty 101 is
  rejected and 0 and 100 accepted. The workflow parses the whole record first, asking the
  file system once, and does nothing more when the parse fails.
\<close>

theorem schema_accepts_iff:
  "((\<exists>cfg. snd (MemeSchema_parseAsync w raw) = Inr cfg) \<longleftrightarrow>
       raw_name raw \<noteq> []
       \<and> 3 \<le> length (raw_symbol raw) \<and> length (raw_symbol raw) \<le> 5
       \<and> set (raw_symbol raw) \<subseteq> set ''ABCDEFGHIJKLMNOPQRSTUVWXYZ''
       \<and> in_range 1 10000 (raw_totalSupply raw)
       \<and> (case raw_royaltyBps raw of None \<Rightarrow> True | Some r \<Rightarrow> in_range 0 100 r)
       \<and> (\<exists>u. fs_access w (raw_imagePath raw) = Inr u))
   \<and> shape_symbol ''btc'' \<noteq> [] \<and> shape_symbol ''toolongname'' \<noteq> [] \<and> shape_symbol ''DOGE'' = []
   \<and> shape_totalSupply (Num 0) \<noteq> [] \<and> shape_totalSupply (Num 10001) \<noteq> []
   \<and> shape_totalSupply (Num 1) = [] \<and> shape_totalSupply (Num 10000) = []
   \<and> shape_royaltyBps (Some (Num 101)) \<noteq> []
   \<and> shape_royaltyBps (Some (Num 0)) = [] \<and> shape_royaltyBps (Some (Num 100)) = []
   \<and> fst (MemeSchema_parseAsync w raw) = [FsAccess (raw_imagePath raw)]
   \<and> (snd (MemeSchema_parseAsync w raw) = Inl e
      \<longrightarrow> launchMeme w raw = ([FsAccess (raw_imagePath raw)], Inl e))"
proof -
  have c1: "(\<exists>cfg. snd (MemeSchema_parseAsync w raw) = Inr cfg) \<longleftrightarrow>
       raw_name raw \<noteq> []
       \<and> 3 \<le> length (raw_symbol raw) \<and> length (raw_symbol raw) \<le> 5
       \<and> set (raw_symbol raw) \<subseteq> set ''ABCDEFGHIJKLMNOPQRSTUVWXYZ''
       \<and> in_range 1 10000 (raw_totalSupply raw)
       \<and> (case raw_royaltyBps raw of None \<Rightarrow> True | Some r \<Rightarrow> in_range 0 100 r)
       \<and> (\<exists>u. fs_access w (raw_imagePath raw) = Inr u)"
    by (simp only: parse_Inr_iff schema_issues_iff matches_AZ_3_5_iff conj_assoc)
  have c2: "shape_symbol ''btc'' \<noteq> []" "shape_symbol ''toolongname'' \<noteq> []"
    "shape_symbol ''DOGE'' = []"
    by (simp_all add: shape_symbol_def symbol_examples)
  have c3: "shape_totalSupply (Num 0) \<noteq> []" "shape_totalSupply (Num 10001) \<noteq> []"
    "shape_totalSupply (Num 1) = []" "shape_totalSupply (Num 10000) = []"
    by (simp_all add: shape_totalSupply_def number_min_max_def)
  have c4: "shape_royaltyBps (Some (Num 101)) \<noteq> []"
    "shape_royaltyBps (Some (Num 0)) = []" "shape_royaltyBps (Some (Num 100)) = []"
    by (simp_all add: shape_royaltyBps_def number_min_max_def)
  have c5: "fst (MemeSchema_parseAsync w raw) = [FsAccess (raw_imagePath raw)]"
    by (simp add: MemeSchema_parseAsync_def)
  have c6: "snd (MemeSchema_parseAsync w raw) = Inl e
      \<longrightarrow> launchMeme w raw = ([FsAccess (raw_imagePath raw)], Inl e)"
    by (rule impI) (rule launchMeme_invalid)
  show ?thesis
    by (intro conjI c1 c2 c3 c4 c5 c6)
qed

text \<open>The example answers omit the three optional fields.\<close>

lemma example_launch_sel:
  "fs_access example_launch_world p = (if p = ''doge.png'' then Inr () else Inl (Error ''ENOENT''))"
  "fs_access upload_down_world = fs_access example_launch_world"
  by (simp_all add: example_launch_world_def upload_down_world_def)

lemma doge_sel:
  "raw_name doge_answers = ''Doge \"1\"''" "raw_symbol doge_answers = ''DOGE''"
  "raw_description doge_answers = None" "raw_imagePath doge_answers = ''doge.png''"
  "raw_network doge_answers = None" "raw_totalSupply doge_answers = Num 1000"
  "raw_royaltyBps doge_answers = None"
  by (simp_all add: doge_answers_def)

lemma doge_valid: "schema_issues example_launch_world doge_answers = []"
  by (simp add: schema_issues_iff doge_sel symbol_examples example_launch_sel)

lemma doge_parse:
  "MemeSchema_parseAsync example_launch_world doge_answers
     = ([FsAccess ''doge.png''],
        Inr \<lparr>name = ''Doge \"1\"'', symbol = ''DOGE'', description = ''A meme NFT collection'',
             imagePath = ''doge.png'', network = launch_testnet, totalSupply = Num 1000,
             royaltyBps = Num 5\<rparr>)"
  by (simp add: MemeSchema_parseAsync_def doge_valid doge_sel with_default_def
      description_default_def network_default_def royaltyBps_default_def)

theorem schema_accepts_iff_witness:
  "snd (MemeSchema_parseAsync example_launch_world doge_answers)
     = Inr \<lparr>name = ''Doge \"1\"'', symbol = ''DOGE'', description = ''A meme NFT collection'',
             imagePath = ''doge.png'', network = launch_testnet, totalSupply = Num 1000,
             royaltyBps = Num 5\<rparr>
   \<and> raw_name doge_answers \<noteq> []
   \<and> 3 \<le> length (raw_symbol doge_answers) \<and> length (raw_symbol doge_answers) \<le> 5
   \<and> set (raw_symbol doge_answers) \<subseteq> set ''ABCDEFGHIJKLMNOPQRSTUVWXYZ''
   \<and> in_range 1 10000 (raw_totalSupply doge_answers)
   \<and> fs_access example_launch_world (raw_imagePath doge_answers) = Inr ()
   \<and> (\<exists>cfg. snd (MemeSchema_parseAsync example_launch_world doge_answers) = Inr cfg)
   \<and> snd (MemeSchema_parseAsync example_launch_world (doge_answers\<lparr>raw_symbol := ''btc''\<rparr>))
       = Inl (ZodError [(''symbol'', Message ''Must be 3-5 uppercase letters'')])
   \<and> launchMeme example_launch_world (doge_answers\<lparr>raw_symbol := ''btc''\<rparr>)
       = ([FsAccess ''doge.png''],
          Inl (ZodError [(''symbol'', Message ''Must be 3-5 uppercase letters'')]))"
proof -
  let ?bad = "doge_answers\<lparr>raw_symbol := ''btc''\<rparr>"
  have bad: "schema_issues example_launch_world ?bad
      = [(''symbol'', Message ''Must be 3-5 uppercase letters'')]"
    by (simp add: schema_issues_def doge_sel shape_name_def shape_symbol_def symbol_examples
        shape_imagePath_def example_launch_sel shape_totalSupply_def number_min_max_def
        shape_royaltyBps_def)
  have h: "snd (MemeSchema_parseAsync example_launch_world ?bad)
       = Inl (ZodError [(''symbol'', Message ''Must be 3-5 uppercase letters'')])"
    by (simp add: MemeSchema_parseAsync_def bad)
  note stop = schema_accepts_iff [of example_launch_world ?bad
      "ZodError [(''symbol'', Message ''Must be 3-5 uppercase letters'')]",
      THEN conjunct2, THEN conjunct2, THEN conjunct2, THEN conjunct2, THEN conjunct2,
      THEN conjunct2, THEN conjunct2, THEN conjunct2, THEN conjunct2, THEN conjunct2,
      THEN conjunct2, THEN conjunct2, THEN mp, OF h]
  have g: "launchMeme example_launch_world ?bad
       = ([FsAccess ''doge.png''],
          Inl (ZodError [(''symbol'', Message ''Must be 3-5 uppercase letters'')]))"
    using stop by (simp add: doge_sel)
  have ok: "snd (MemeSchema_parseAsync example_launch_world doge_answers)
     = Inr \<lparr>name = ''Doge \"1\"'', symbol = ''DOGE'', description = ''A meme NFT collection'',
             imagePath = ''doge.png'', network = launch_testnet, totalSupply = Num 1000,
             royaltyBps = Num 5\<rparr>"
    by (simp add: doge_parse)
  have conds: "raw_name doge_answers \<noteq> []
       \<and> 3 \<le> length (raw_symbol doge_answers) \<and> length (raw_symbol doge_answers) \<le> 5
       \<and> set (raw_symbol doge_answers) \<subseteq> set ''ABCDEFGHIJKLMNOPQRSTUVWXYZ''
       \<and> in_range 1 10000 (raw_totalSupply doge_answers)
       \<and> (case raw_royaltyBps doge_answers of None \<Rightarrow> True | Some r \<Rightarrow> in_range 0 100 r)
       \<and> (\<exists>u. fs_access example_launch_world (raw_imagePath doge_answers) = Inr u)"
    by (simp add: doge_sel example_launch_sel)
  note accepted = schema_accepts_iff [of example_launch_world doge_answers
      "ZodError []", THEN conjunct1, THEN iffD2, OF conds]
  show ?thesis
    by (intro conjI ok h g accepted) (simp_all add: doge_sel example_launch_sel)
qed

section \<open>Schema defaults\<close>

text \<open>
  C9. The schema's defaults are the description "A meme NFT collection", the network
  testnet and the royalty 5, and the form offers these same values. The default royalty
  passes the royalty check. A parsed record carries the default in each field that was
  omitted, and the record completed with those values parses to the same result; a
  record that is valid with the royalty omitted stays valid when all three defaults are
  filled in.
\<close>

theorem defaults_pass_validation:
  "description_default = ''A meme NFT collection''
   \<and> network_default = launch_testnet
   \<and> royaltyBps_default = Num 5
   \<and> shape_royaltyBps (Some royaltyBps_default) = []
   \<and> map_of question_defaults ''description'' = Some (AnswerString description_default)
   \<and> map_of question_defaults ''network'' = Some (AnswerNetwork network_default)
   \<and> map_of question_defaults ''royaltyBps'' = Some (AnswerNumber royaltyBps_default)
   \<and> (snd (MemeSchema_parseAsync w raw) = Inr cfg
      \<longrightarrow> description cfg = (case raw_description raw of None \<Rightarrow> ''A meme NFT collection''
                                | Some x \<Rightarrow> x)
        \<and> network cfg = (case raw_network raw of None \<Rightarrow> launch_testnet | Some x \<Rightarrow> x)
        \<and> royaltyBps cfg = (case raw_royaltyBps raw of None \<Rightarrow> Num 5 | Some x \<Rightarrow> x)
        \<and> snd (MemeSchema_parseAsync w
                 (raw\<lparr>raw_description := Some (description cfg),
                      raw_network := Some (network cfg),
                      raw_royaltyBps := Some (royaltyBps cfg)\<rparr>)) = Inr cfg)
   \<and> (schema_issues w (raw\<lparr>raw_royaltyBps := None\<rparr>) = []
      \<longrightarrow> schema_issues w (raw\<lparr>raw_description := Some description_default,
                                raw_network := Some network_default,
                                raw_royaltyBps := Some royaltyBps_default\<rparr>) = [])"
proof -
  have c1: "description_default = ''A meme NFT collection''" "network_default = launch_testnet"
    "royaltyBps_default = Num 5"
    by (simp_all add: description_default_def network_default_def royaltyBps_default_def)
  have c2: "shape_royaltyBps (Some royaltyBps_default) = []"
    by (simp add: shape_royaltyBps_def number_min_max_def royaltyBps_default_def)
  have c3: "map_of question_defaults ''description'' = Some (AnswerString description_default)"
    "map_of question_defaults ''network'' = Some (AnswerNetwork network_default)"
    "map_of question_defaults ''royaltyBps'' = Some (AnswerNumber royaltyBps_default)"
    by (simp_all add: question_defaults_def)
  have c4: "snd (MemeSchema_parseAsync w raw) = Inr cfg
      \<longrightarrow> description cfg = (case raw_description raw of None \<Rightarrow> ''A meme NFT collection''
                                | Some x \<Rightarrow> x)
        \<and> network cfg = (case raw_network raw of None \<Rightarrow> launch_testnet | Some x \<Rightarrow> x)
        \<and> royaltyBps cfg = (case raw_royaltyBps raw of None \<Rightarrow> Num 5 | Some x \<Rightarrow> x)
        \<and> snd (MemeSchema_parseAsync w
                 (raw\<lparr>raw_description := Some (description cfg),
                      raw_network := Some (network cfg),
                      raw_royaltyBps := Some (royaltyBps cfg)\<rparr>)) = Inr cfg"
  proof
    assume h: "snd (MemeSchema_parseAsync w raw) = Inr cfg"
    then have ok: "schema_issues w raw = []"
      by (simp add: MemeSchema_parseAsync_def split: if_splits)
    then have cfg: "cfg = \<lparr>name = raw_name raw, symbol = raw_symbol raw,
                description = with_default description_default (raw_description raw),
                imagePath = raw_imagePath raw,
                network = with_default network_default (raw_network raw),
                totalSupply = raw_totalSupply raw,
                royaltyBps = with_default royaltyBps_default (raw_royaltyBps raw)\<rparr>"
      using h by (simp add: MemeSchema_parseAsync_def)
    have roy: "in_range 0 100 (royaltyBps cfg)"
      using ok by (cases "raw_royaltyBps raw")
        (simp_all add: schema_issues_iff cfg with_default_def royaltyBps_default_def)
    have again: "schema_issues w (raw\<lparr>raw_description := Some (description cfg),
                      raw_network := Some (network cfg),
                      raw_royaltyBps := Some (royaltyBps cfg)\<rparr>) = []"
      using ok roy by (simp add: schema_issues_iff)
    show "description cfg = (case raw_description raw of None \<Rightarrow> ''A meme NFT collection''
                                | Some x \<Rightarrow> x)
        \<and> network cfg = (case raw_network raw of None \<Rightarrow> launch_testnet | Some x \<Rightarrow> x)
        \<and> royaltyBps cfg = (case raw_royaltyBps raw of None \<Rightarrow> Num 5 | Some x \<Rightarrow> x)
        \<and> snd (MemeSchema_parseAsync w
                 (raw\<lparr>raw_description := Some (description cfg),
                      raw_network := Some (network cfg),
                      raw_royaltyBps := Some (royaltyBps cfg)\<rparr>)) = Inr cfg"
      by (simp add: MemeSchema_parseAsync_def again)
        (simp add: cfg with_default_def c1 split: option.splits)
  qed
  have c5: "schema_issues w (raw\<lparr>raw_royaltyBps := None\<rparr>) = []
      \<longrightarrow> schema_issues w (raw\<lparr>raw_description := Some description_default,
                                raw_network := Some network_default,
                                raw_royaltyBps := Some royaltyBps_default\<rparr>) = []"
    by (simp add: schema_issues_iff royaltyBps_default_def)
  show ?thesis
    by (intro conjI c1 c2 c3 c4 c5)
qed

theorem defaults_pass_validation_witness:
  "snd (MemeSchema_parseAsync example_launch_world doge_answers)
     = Inr \<lparr>name = ''Doge \"1\"'', symbol = ''DOGE'', description = ''A meme NFT collection'',
             imagePath = ''doge.png'', network = launch_testnet, totalSupply = Num 1000,
             royaltyBps = Num 5\<rparr>
   \<and> raw_description doge_answers = None \<and> raw_network doge_answers = None
   \<and> raw_royaltyBps doge_answers = None
   \<and> snd (MemeSchema_parseAsync example_launch_world
            (doge_answers\<lparr>raw_description := Some ''A meme NFT collection'',
                          raw_network := Some launch_testnet,
                          raw_royaltyBps := Some (Num 5)\<rparr>))
     = Inr \<lparr>name = ''Doge \"1\"'', symbol = ''DOGE'', description = ''A meme NFT collection'',
             imagePath = ''doge.png'', network = launch_testnet, totalSupply = Num 1000,
             royaltyBps = Num 5\<rparr>
   \<and> schema_issues example_launch_world (doge_answers\<lparr>raw_royaltyBps := None\<rparr>) = []
   \<and> schema_issues example_launch_world
        (doge_answers\<lparr>raw_description := Some description_default,
                      raw_network := Some network_default,
                      raw_royaltyBps := Some royaltyBps_default\<rparr>) = []"
proof -
  let ?cfg = "\<lparr>name = ''Doge \"1\"'', symbol = ''DOGE'', description = ''A meme NFT collection'',
             imagePath = ''doge.png'', network = launch_testnet, totalSupply = Num 1000,
             royaltyBps = Num 5\<rparr>"
  have h: "snd (MemeSchema_parseAsync example_launch_world doge_answers) = Inr ?cfg"
    by (simp add: doge_parse)
  have same: "doge_answers\<lparr>raw_royaltyBps := None\<rparr> = doge_answers"
    by (simp add: doge_answers_def)
  have v: "schema_issues example_launch_world (doge_answers\<lparr>raw_royaltyBps := None\<rparr>) = []"
    by (simp only: same doge_valid)
  note all = defaults_pass_validation [of example_launch_world doge_answers ?cfg]
  note tail = all [THEN conjunct2, THEN conjunct2, THEN conjunct2, THEN conjunct2,
      THEN conjunct2, THEN conjunct2, THEN conjunct2]
  note r4 = tail [THEN conjunct1, THEN mp, OF h]
  note r5 = tail [THEN conjunct2, THEN mp, OF v]
  have again: "snd (MemeSchema_parseAsync example_launch_world
            (doge_answers\<lparr>raw_description := Some ''A meme NFT collection'',
                          raw_network := Some launch_testnet,
                          raw_royaltyBps := Some (Num 5)\<rparr>)) = Inr ?cfg"
    using r4 by simp
  show ?thesis
    by (intro conjI h again v r5) (simp_all add: doge_sel)
qed


lemma move_toml_names_symbol:
  "\<exists>pre post. move_toml config = pre @ ''name = \"meme_'' @ toLowerCase (symbol config) @ ''\"'' @ post"
  unfolding move_toml_def
  by (rule exI [of _ "''[package]\<newline>''"],
      rule exI [of _ "''\<newline>''
            @ ''version = \"0.1.0\"\<newline>''
            @ ''\<newline>''
            @ ''[dependencies]\<newline>''
            @ ''Sui = { git = \"https://github.com/MystenLabs/sui.git\", subdir = \"crates/sui-framework/packages/sui-framework\", rev = \"framework/testnet\" }''"]) simp

lemma generateMoveCode_embeds:
  "\<exists>head tail. generateMoveCode w config
     = head @ ''(\"name\", \"''
         @ name config
         @ ''\"),\<newline>                (\"description\", \"''
         @ description config
         @ ''\"),\<newline>                (\"image_url\", \"''
         @ imageUrl config
         @ ''\"),'' @ tail"
  unfolding generateMoveCode_def
  by (rule exI [of _ "''module meme_'' @ toLowerCase (symbol config) @ ''::meme {\<newline>''
            @ ''    use sui::transfer;\<newline>''
            @ ''    use sui::object::{Self, UID};\<newline>''
            @ ''    use sui::tx_context::TxContext;\<newline>''
            @ ''    use sui::display;\<newline>''
            @ ''    use sui::url::Url;\<newline>''
            @ ''    use sui::string::String;\<newline>''
            @ ''\<newline>''
            @ ''    struct '' @ symbol config @ '' has key, store {\<newline>''
            @ ''        id: UID,\<newline>''
            @ ''        name: String,\<newline>''
            @ ''        description: String,\<newline>''
            @ ''        image_url: Url,\<newline>''
            @ ''    }\<newline>''
            @ ''\<newline>''
            @ ''    public fun init(otw: &mut TxContext) {\<newline>''
            @ ''        let display = display::new_with_fields(\<newline>''
            @ ''            &mut display::new(),\<newline>''
            @ ''            vector[\<newline>''
            @ ''                ''"],
      rule exI [of _ "''\<newline>''
            @ ''                (\"creator\", \"Meme Creator\"),\<newline>''
            @ ''                (\"royalty\", \"'' @ Number_toString w (royaltyBps config) @ ''\"),\<newline>''
            @ ''                (\"symbol\", \"'' @ symbol config @ ''\")\<newline>''
            @ ''            ]\<newline>''
            @ ''        );\<newline>''
            @ ''        display::update_version(&mut display);\<newline>''
            @ ''        transfer::public_transfer(display, tx_context::sender(otw));\<newline>''
            @ ''    }\<newline>''
            @ ''\<newline>''
            @ ''    public entry fun mint(\<newline>''
            @ ''        name: String,\<newline>''
            @ ''        description: String,\<newline>''
            @ ''        image_url: Url,\<newline>''
            @ ''        recipient: address,\<newline>''
            @ ''        ctx: &mut TxContext\<newline>''
            @ ''    ) {\<newline>''
            @ ''        let meme = '' @ symbol config @ '' {\<newline>''
            @ ''            id: object::new(ctx),\<newline>''
            @ ''            name,\<newline>''
            @ ''            description,\<newline>''
            @ ''            image_url\<newline>''
            @ ''        };\<newline>''
            @ ''        transfer::public_transfer(meme, recipient);\<newline>''
            @ ''    }\<newline>''
            @ ''}''"]) simp

lemma with_imageUrl_sel:
  "name (with_imageUrl answers uploaded) = name answers"
  "symbol (with_imageUrl answers uploaded) = symbol answers"
  "description (with_imageUrl answers uploaded) = description answers"
  "imageUrl (with_imageUrl answers uploaded) = uploaded"
  by (simp_all add: with_imageUrl_def)

lemma uploadToWalrus_cases:
  "uploadToWalrus w p =
     (case fs_readFile w p of
        Inl t \<Rightarrow> ([FsReadFile p], Inl (Thrown t))
      | Inr data \<Rightarrow>
          (case axios_post w ''https://api.walrus.gg/upload'' data
                  (''Bearer '' @ with_default ''undefined'' (WALRUS_API_KEY w)) of
             Inl t \<Rightarrow> ([FsReadFile p,
                         AxiosPost ''https://api.walrus.gg/upload'' data
                           (''Bearer '' @ with_default ''undefined'' (WALRUS_API_KEY w))],
                        Inl (Thrown t))
           | Inr res \<Rightarrow> ([FsReadFile p,
                           AxiosPost ''https://api.walrus.gg/upload'' data
                             (''Bearer '' @ with_default ''undefined'' (WALRUS_API_KEY w))],
                          Inr (walrus_url res))))"
  by (simp add: uploadToWalrus_def and_then_def perform_def Let_def split: sum.splits)

lemma uploadToWalrus_events:
  "ev \<in> set (fst (uploadToWalrus w p)) \<Longrightarrow> \<not> after_upload ev \<and> \<not> is_build ev \<and> \<not> is_write ev"
  by (auto simp: uploadToWalrus_cases split: sum.splits)

lemma generateMoveFiles_cases:
  "generateMoveFiles w dir config =
     (case fs_mkdir w (path_join w [dir, ''sources'']) of
        Inl t \<Rightarrow> ([FsMkdir (path_join w [dir, ''sources''])], Inl (Thrown t))
      | Inr u1 \<Rightarrow>
          (case fs_writeFile w (path_join w [dir, ''Move.toml'']) (move_toml config) of
             Inl t \<Rightarrow> ([FsMkdir (path_join w [dir, ''sources'']),
                         FsWriteFile (path_join w [dir, ''Move.toml'']) (move_toml config)],
                        Inl (Thrown t))
           | Inr u2 \<Rightarrow>
               ([FsMkdir (path_join w [dir, ''sources'']),
                 FsWriteFile (path_join w [dir, ''Move.toml'']) (move_toml config),
                 FsWriteFile (path_join w [dir, ''sources'', ''meme.move''])
                   (generateMoveCode w config)],
                case fs_writeFile w (path_join w [dir, ''sources'', ''meme.move''])
                       (generateMoveCode w config) of
                  Inl t \<Rightarrow> Inl (Thrown t) | Inr u3 \<Rightarrow> Inr u3)))"
  by (simp add: generateMoveFiles_def and_then_def perform_def split: sum.splits)

lemma generateMoveFiles_ok:
  "snd (generateMoveFiles w dir config) = Inr u \<Longrightarrow>
   fst (generateMoveFiles w dir config)
     = [FsMkdir (path_join w [dir, ''sources'']),
        FsWriteFile (path_join w [dir, ''Move.toml'']) (move_toml config),
        FsWriteFile (path_join w [dir, ''sources'', ''meme.move'']) (generateMoveCode w config)]"
  by (simp add: generateMoveFiles_cases split: sum.splits)

lemma generateMoveFiles_events:
  "ev \<in> set (fst (generateMoveFiles w dir config)) \<Longrightarrow> \<not> is_build ev"
  by (auto simp: generateMoveFiles_cases split: sum.splits)

lemma deployCollection_events:
  "ev \<in> set (fst (deployCollection w dir net)) \<Longrightarrow> \<not> is_write ev \<and> \<not> is_build ev"
  by (auto simp: deployCollection_def and_then_def perform_def split: sum.splits)

lemma parse_answers:
  "snd (MemeSchema_parseAsync w raw) = Inr answers \<Longrightarrow>
   MemeSchema_parseAsync w raw = ([FsAccess (raw_imagePath raw)], Inr answers)
   \<and> imagePath answers = raw_imagePath raw \<and> symbol answers = raw_symbol raw
   \<and> name answers = raw_name raw"
  by (auto simp: MemeSchema_parseAsync_def split: if_splits)

lemma launchMeme_cases:
  assumes "snd (MemeSchema_parseAsync w raw) = Inr answers"
  shows "launchMeme w raw =
     (case fs_mkdir w (projectDir_of w answers) of
        Inl t \<Rightarrow> ([FsAccess (raw_imagePath raw), FsMkdir (projectDir_of w answers)],
                   Inl (Thrown t))
      | Inr u1 \<Rightarrow>
          (case snd (uploadToWalrus w (imagePath answers)) of
             Inl e \<Rightarrow> ([FsAccess (raw_imagePath raw), FsMkdir (projectDir_of w answers)]
                          @ fst (uploadToWalrus w (imagePath answers)), Inl e)
           | Inr uploaded \<Rightarrow>
               (case snd (generateMoveFiles w (projectDir_of w answers)
                            (with_imageUrl answers uploaded)) of
                  Inl e \<Rightarrow> ([FsAccess (raw_imagePath raw), FsMkdir (projectDir_of w answers)]
                               @ fst (uploadToWalrus w (imagePath answers))
                               @ fst (generateMoveFiles w (projectDir_of w answers)
                                        (with_imageUrl answers uploaded)), Inl e)
                | Inr u2 \<Rightarrow>
                    (case execSync w ''sui move build'' (projectDir_of w answers) of
                       Inl t \<Rightarrow> ([FsAccess (raw_imagePath raw),
                                   FsMkdir (projectDir_of w answers)]
                                    @ fst (uploadToWalrus w (imagePath answers))
                                    @ fst (generateMoveFiles w (projectDir_of w answers)
                                             (with_imageUrl answers uploaded))
                                    @ [ExecSync ''sui move build'' (projectDir_of w answers)],
                                  Inl (Thrown t))
                     | Inr out \<Rightarrow>
                         ([FsAccess (raw_imagePath raw), FsMkdir (projectDir_of w answers)]
                            @ fst (uploadToWalrus w (imagePath answers))
                            @ fst (generateMoveFiles w (projectDir_of w answers)
                                     (with_imageUrl answers uploaded))
                            @ [ExecSync ''sui move build'' (projectDir_of w answers)]
                            @ fst (deployCollection w (projectDir_of w answers)
                                     (network answers)),
                          snd (deployCollection w (projectDir_of w answers)
                                 (network answers)))))))"
proof -
  have p: "MemeSchema_parseAsync w raw = ([FsAccess (raw_imagePath raw)], Inr answers)"
    using assms parse_answers by blast
  obtain utr ur where u: "uploadToWalrus w (imagePath answers) = (utr, ur)"
    by (cases "uploadToWalrus w (imagePath answers)")
  show ?thesis
  proof (cases ur)
    case (Inl e)
    then show ?thesis
      by (simp add: launchMeme_def p u and_then_def perform_def Let_def split: sum.splits)
  next
    case (Inr uploaded)
    obtain gtr gr where g: "generateMoveFiles w (projectDir_of w answers)
        (with_imageUrl answers uploaded) = (gtr, gr)"
      by (cases "generateMoveFiles w (projectDir_of w answers) (with_imageUrl answers uploaded)")
    show ?thesis
      by (simp add: launchMeme_def p u Inr g and_then_def perform_def Let_def split: sum.splits)
  qed
qed

lemma launchMeme_upload_failed:
  assumes p: "snd (MemeSchema_parseAsync w raw) = Inr answers"
    and m: "fs_mkdir w (projectDir_of w answers) = Inr u"
    and f: "snd (uploadToWalrus w (imagePath answers)) = Inl e"
  shows "launchMeme w raw
     = ([FsAccess (raw_imagePath raw), FsMkdir (projectDir_of w answers)]
          @ fst (uploadToWalrus w (imagePath answers)), Inl e)"
  by (simp add: launchMeme_cases [OF p] m f)

lemma launchMeme_no_upload_no_later_step:
  assumes f: "snd (uploadToWalrus w (raw_imagePath raw)) = Inl e"
  shows "(\<forall>ev\<in>set (fst (launchMeme w raw)). \<not> after_upload ev) \<and> isl (snd (launchMeme w raw))"
proof (cases "snd (MemeSchema_parseAsync w raw)")
  case (Inl z)
  then have "launchMeme w raw = ([FsAccess (raw_imagePath raw)], Inl z)"
    by (rule launchMeme_invalid)
  then show ?thesis by simp
next
  case (Inr answers)
  then have path: "imagePath answers = raw_imagePath raw"
    using parse_answers by blast
  show ?thesis
  proof (cases "fs_mkdir w (projectDir_of w answers)")
    case (Inl t)
    then show ?thesis by (simp add: launchMeme_cases [OF Inr])
  next
    case (Inr u)
    have f': "snd (uploadToWalrus w (imagePath answers)) = Inl e"
      using f path by simp
    have run: "launchMeme w raw
        = ([FsAccess (raw_imagePath raw), FsMkdir (projectDir_of w answers)]
             @ fst (uploadToWalrus w (imagePath answers)), Inl e)"
      using \<open>snd (MemeSchema_parseAsync w raw) = Inr answers\<close> Inr f'
      by (rule launchMeme_upload_failed)
    have "\<not> after_upload ev" if "ev \<in> set (fst (uploadToWalrus w (imagePath answers)))" for ev
      using uploadToWalrus_events [OF that] by simp
    then show ?thesis by (auto simp: run)
  qed
qed

section \<open>A failed upload ends the launch\<close>

text \<open>
  C6. When the upload of the image fails, the launch fails, and nothing it did is a write
  of a file, a run of a subprocess or a submission of a transaction: neither file is
  generated and neither the build nor the deployment is started. After a successful parse
  and creation of the project directory the launch consists of exactly the parse, the
  creation of the directory and the requests of the upload, and ends with the upload's
  failure. The upload fails when the image cannot be read or when the request to the
  storage service fails.
\<close>

theorem upload_failure_aborts:
  "(snd (uploadToWalrus w (raw_imagePath raw)) = Inl e
      \<longrightarrow> (\<forall>ev\<in>set (fst (launchMeme w raw)). \<not> after_upload ev)
        \<and> isl (snd (launchMeme w raw)))
   \<and> (snd (MemeSchema_parseAsync w raw) = Inr answers
        \<and> fs_mkdir w (projectDir_of w answers) = Inr ()
        \<and> snd (uploadToWalrus w (imagePath answers)) = Inl e
      \<longrightarrow> launchMeme w raw
          = ([FsAccess (raw_imagePath raw), FsMkdir (projectDir_of w answers)]
               @ fst (uploadToWalrus w (imagePath answers)), Inl e))
   \<and> (fs_readFile w p = Inl t
      \<longrightarrow> uploadToWalrus w p = ([FsReadFile p], Inl (Thrown t)))
   \<and> (fs_readFile w p = Inr content
        \<and> axios_post w ''https://api.walrus.gg/upload'' content
             (''Bearer '' @ with_default ''undefined'' (WALRUS_API_KEY w)) = Inl t
      \<longrightarrow> uploadToWalrus w p
          = ([FsReadFile p,
              AxiosPost ''https://api.walrus.gg/upload'' content
                (''Bearer '' @ with_default ''undefined'' (WALRUS_API_KEY w))],
             Inl (Thrown t)))"
proof -
  have c1: "snd (uploadToWalrus w (raw_imagePath raw)) = Inl e
      \<longrightarrow> (\<forall>ev\<in>set (fst (launchMeme w raw)). \<not> after_upload ev)
        \<and> isl (snd (launchMeme w raw))"
    by (rule impI) (rule launchMeme_no_upload_no_later_step)
  have c2: "snd (MemeSchema_parseAsync w raw) = Inr answers
        \<and> fs_mkdir w (projectDir_of w answers) = Inr ()
        \<and> snd (uploadToWalrus w (imagePath answers)) = Inl e
      \<longrightarrow> launchMeme w raw
          = ([FsAccess (raw_imagePath raw), FsMkdir (projectDir_of w answers)]
               @ fst (uploadToWalrus w (imagePath answers)), Inl e)"
    using launchMeme_upload_failed by blast
  have c3: "fs_readFile w p = Inl t
      \<longrightarrow> uploadToWalrus w p = ([FsReadFile p], Inl (Thrown t))"
    by (simp add: uploadToWalrus_cases)
  have c4: "fs_readFile w p = Inr content
        \<and> axios_post w ''https://api.walrus.gg/upload'' content
             (''Bearer '' @ with_default ''undefined'' (WALRUS_API_KEY w)) = Inl t
      \<longrightarrow> uploadToWalrus w p
          = ([FsReadFile p,
              AxiosPost ''https://api.walrus.gg/upload'' content
                (''Bearer '' @ with_default ''undefined'' (WALRUS_API_KEY w))],
             Inl (Thrown t))"
    by (simp add: uploadToWalrus_cases)
  show ?thesis
    by (intro conjI c1 c2 c3 c4)
qed

text \<open>The example launch with the storage service down.\<close>

lemma toLowerCase_DOGE: "toLowerCase ''DOGE'' = ''doge''"
  by code_simp

lemma example_launch_fields:
  "cwd example_launch_world = ''/home/u''"
  "path_join example_launch_world
     = (\<lambda>segments. foldr (\<lambda>seg acc. if acc = [] then seg else seg @ ''/'' @ acc) segments [])"
  "fs_mkdir example_launch_world = (\<lambda>p. Inr ())"
  "fs_readFile example_launch_world = (\<lambda>p. Inr ''PNG'')"
  "fs_writeFile example_launch_world = (\<lambda>p c. Inr ())"
  "WALRUS_API_KEY example_launch_world = Some ''k''"
  "axios_post example_launch_world = (\<lambda>u d a. Inr \<lparr>walrus_url = ''https://walrus.example/doge''\<rparr>)"
  "Number_toString example_launch_world = (\<lambda>n. if n = Num 5 then ''5'' else ''0'')"
  "execSync example_launch_world = (\<lambda>c d. Inr ''{}'')"
  "SUI_PRIVATE_KEY example_launch_world = Some ''key''"
  "fromSecretKey example_launch_world = (\<lambda>k. Inr ())"
  "JSON_parse example_launch_world = (\<lambda>t. Inr \<lparr>modules = [], dependencies = []\<rparr>)"
  "launch_getFullnodeUrl example_launch_world
     = (\<lambda>n. ''https://fullnode.'' @ network_string n @ ''.sui.io:443'')"
  "signAndExecuteTransaction example_launch_world = (\<lambda>u b k.
        Inr \<lparr>objectChanges = Some [\<lparr>change_type = ''published'', packageId = Some ''0xpkg''\<rparr>],
             digest = ''D1''\<rparr>)"
  by (simp_all add: example_launch_world_def)

lemma upload_down_fields:
  "cwd upload_down_world = ''/home/u''"
  "path_join upload_down_world = path_join example_launch_world"
  "fs_mkdir upload_down_world = (\<lambda>p. Inr ())"
  "fs_readFile upload_down_world = (\<lambda>p. Inr ''PNG'')"
  "WALRUS_API_KEY upload_down_world = Some ''k''"
  "axios_post upload_down_world = (\<lambda>u d a. Inl (Error ''502''))"
  by (simp_all add: upload_down_world_def example_launch_world_def)

lemma doge_config_sel:
  "name doge_config = ''Doge \"1\"''" "symbol doge_config = ''DOGE''"
  "description doge_config = ''A meme NFT collection''" "imagePath doge_config = ''doge.png''"
  "network doge_config = launch_testnet" "royaltyBps doge_config = Num 5"
  by (simp_all add: doge_config_def)

lemma doge_parse_down:
  "snd (MemeSchema_parseAsync upload_down_world doge_answers) = Inr doge_config"
proof -
  have "schema_issues upload_down_world doge_answers = []"
    by (simp add: schema_issues_iff doge_sel symbol_examples example_launch_sel)
  then show ?thesis
    by (simp add: MemeSchema_parseAsync_def doge_sel with_default_def doge_config_def
        description_default_def network_default_def royaltyBps_default_def)
qed

lemma doge_dir:
  "projectDir_of example_launch_world doge_config = ''/home/u/meme-doge''"
  "projectDir_of upload_down_world doge_config = ''/home/u/meme-doge''"
  by (simp_all add: projectDir_of_def doge_config_sel toLowerCase_DOGE example_launch_fields
      upload_down_fields)

lemma doge_upload:
  "uploadToWalrus example_launch_world ''doge.png''
     = ([FsReadFile ''doge.png'', AxiosPost ''https://api.walrus.gg/upload'' ''PNG'' ''Bearer k''],
        Inr ''https://walrus.example/doge'')"
  "uploadToWalrus upload_down_world ''doge.png''
     = ([FsReadFile ''doge.png'', AxiosPost ''https://api.walrus.gg/upload'' ''PNG'' ''Bearer k''],
        Inl (Thrown (Error ''502'')))"
  by (simp_all add: uploadToWalrus_cases example_launch_fields upload_down_fields with_default_def)

theorem upload_failure_aborts_witness:
  "snd (uploadToWalrus upload_down_world (raw_imagePath doge_answers)) = Inl (Thrown (Error ''502''))
   \<and> snd (MemeSchema_parseAsync upload_down_world doge_answers) = Inr doge_config
   \<and> fs_mkdir upload_down_world (projectDir_of upload_down_world doge_config) = Inr ()
   \<and> launchMeme upload_down_world doge_answers
       = ([FsAccess ''doge.png'', FsMkdir ''/home/u/meme-doge'', FsReadFile ''doge.png'',
           AxiosPost ''https://api.walrus.gg/upload'' ''PNG'' ''Bearer k''],
          Inl (Thrown (Error ''502'')))
   \<and> isl (snd (launchMeme upload_down_world doge_answers))
   \<and> fs_readFile upload_down_world ''doge.png'' = Inr ''PNG''
   \<and> axios_post upload_down_world ''https://api.walrus.gg/upload'' ''PNG''
        (''Bearer '' @ with_default ''undefined'' (WALRUS_API_KEY upload_down_world))
       = Inl (Error ''502'')"
proof -
  have h1: "snd (uploadToWalrus upload_down_world (raw_imagePath doge_answers))
      = Inl (Thrown (Error ''502''))"
    by (simp add: doge_sel doge_upload)
  have h2: "snd (MemeSchema_parseAsync upload_down_world doge_answers) = Inr doge_config
      \<and> fs_mkdir upload_down_world (projectDir_of upload_down_world doge_config) = Inr ()
      \<and> snd (uploadToWalrus upload_down_world (imagePath doge_config))
        = Inl (Thrown (Error ''502''))"
    by (simp add: doge_parse_down upload_down_fields doge_config_sel doge_upload)
  note all = upload_failure_aborts [of upload_down_world doge_answers "Thrown (Error ''502'')"
      doge_config "''doge.png''" "Error ''502''" "''PNG''"]
  note r1 = all [THEN conjunct1, THEN mp, OF h1]
  note r2 = all [THEN conjunct2, THEN conjunct1, THEN mp, OF h2]
  have g2: "launchMeme upload_down_world doge_answers
       = ([FsAccess ''doge.png'', FsMkdir ''/home/u/meme-doge'', FsReadFile ''doge.png'',
           AxiosPost ''https://api.walrus.gg/upload'' ''PNG'' ''Bearer k''],
          Inl (Thrown (Error ''502'')))"
    by (simp add: r2 doge_sel doge_dir doge_config_sel doge_upload)
  have g3: "fs_readFile upload_down_world ''doge.png'' = Inr ''PNG''"
    by (simp add: upload_down_fields)
  have g4: "axios_post upload_down_world ''https://api.walrus.gg/upload'' ''PNG''
        (''Bearer '' @ with_default ''undefined'' (WALRUS_API_KEY upload_down_world))
       = Inl (Error ''502'')"
    by (simp add: upload_down_fields)
  show ?thesis
    by (intro conjI h1 h2 [THEN conjunct1] h2 [THEN conjunct2, THEN conjunct1] g2
        r1 [THEN conjunct2] g3 g4)
qed

lemma launchMeme_built:
  assumes p: "snd (MemeSchema_parseAsync w raw) = Inr answers"
    and m: "fs_mkdir w (projectDir_of w answers) = Inr u1"
    and up: "snd (uploadToWalrus w (imagePath answers)) = Inr uploaded"
    and g: "snd (generateMoveFiles w (projectDir_of w answers) (with_imageUrl answers uploaded))
        = Inr u2"
  shows "\<exists>rest. launchMeme w raw
     = ([FsAccess (raw_imagePath raw), FsMkdir (projectDir_of w answers)]
          @ fst (uploadToWalrus w (imagePath answers))
          @ [FsMkdir (path_join w [projectDir_of w answers, ''sources'']),
             FsWriteFile (path_join w [projectDir_of w answers, ''Move.toml''])
               (move_toml (with_imageUrl answers uploaded)),
             FsWriteFile (path_join w [projectDir_of w answers, ''sources'', ''meme.move''])
               (generateMoveCode w (with_imageUrl answers uploaded)),
             ExecSync ''sui move build'' (projectDir_of w answers)]
          @ rest,
        snd (launchMeme w raw))
     \<and> (\<forall>ev\<in>set rest. \<not> is_write ev)
     \<and> (\<forall>out. execSync w ''sui move build'' (projectDir_of w answers) = Inr out
          \<longrightarrow> rest = fst (deployCollection w (projectDir_of w answers) (network answers))
            \<and> snd (launchMeme w raw)
              = snd (deployCollection w (projectDir_of w answers) (network answers)))"
proof (cases "execSync w ''sui move build'' (projectDir_of w answers)")
  case (Inl t)
  have "launchMeme w raw
     = ([FsAccess (raw_imagePath raw), FsMkdir (projectDir_of w answers)]
          @ fst (uploadToWalrus w (imagePath answers))
          @ [FsMkdir (path_join w [projectDir_of w answers, ''sources'']),
             FsWriteFile (path_join w [projectDir_of w answers, ''Move.toml''])
               (move_toml (with_imageUrl answers uploaded)),
             FsWriteFile (path_join w [projectDir_of w answers, ''sources'', ''meme.move''])
               (generateMoveCode w (with_imageUrl answers uploaded)),
             ExecSync ''sui move build'' (projectDir_of w answers)]
          @ [],
        Inl (Thrown t))"
    by (simp add: launchMeme_cases [OF p] m up g Inl generateMoveFiles_ok [OF g])
  then show ?thesis using Inl by (intro exI [of _ "[]"]) simp
next
  case (Inr out)
  let ?rest = "fst (deployCollection w (projectDir_of w answers) (network answers))"
  have "launchMeme w raw
     = ([FsAccess (raw_imagePath raw), FsMkdir (projectDir_of w answers)]
          @ fst (uploadToWalrus w (imagePath answers))
          @ [FsMkdir (path_join w [projectDir_of w answers, ''sources'']),
             FsWriteFile (path_join w [projectDir_of w answers, ''Move.toml''])
               (move_toml (with_imageUrl answers uploaded)),
             FsWriteFile (path_join w [projectDir_of w answers, ''sources'', ''meme.move''])
               (generateMoveCode w (with_imageUrl answers uploaded)),
             ExecSync ''sui move build'' (projectDir_of w answers)]
          @ ?rest,
        snd (deployCollection w (projectDir_of w answers) (network answers)))"
    by (simp add: launchMeme_cases [OF p] m up g Inr generateMoveFiles_ok [OF g])
  moreover have "\<forall>ev\<in>set ?rest. \<not> is_write ev"
    using deployCollection_events by blast
  ultimately show ?thesis using Inr by (intro exI [of _ ?rest]) simp
qed

lemma launchMeme_build_invoked:
  assumes b: "list_ex is_build (fst (launchMeme w raw))"
  shows "\<exists>answers u1 uploaded u2.
      snd (MemeSchema_parseAsync w raw) = Inr answers
      \<and> fs_mkdir w (projectDir_of w answers) = Inr u1
      \<and> snd (uploadToWalrus w (imagePath answers)) = Inr uploaded
      \<and> snd (generateMoveFiles w (projectDir_of w answers) (with_imageUrl answers uploaded))
          = Inr u2"
proof (cases "snd (MemeSchema_parseAsync w raw)")
  case (Inl z)
  then have "launchMeme w raw = ([FsAccess (raw_imagePath raw)], Inl z)"
    by (rule launchMeme_invalid)
  then show ?thesis using b by simp
next
  case (Inr answers)
  note p = this
  show ?thesis
  proof (cases "fs_mkdir w (projectDir_of w answers)")
    case (Inl t)
    then show ?thesis using b by (simp add: launchMeme_cases [OF p])
  next
    case (Inr u1)
    note m = this
    show ?thesis
    proof (cases "snd (uploadToWalrus w (imagePath answers))")
      case (Inl e)
      have "\<not> is_build ev" if "ev \<in> set (fst (uploadToWalrus w (imagePath answers)))" for ev
        using uploadToWalrus_events [OF that] by simp
      then show ?thesis using b by (auto simp: launchMeme_cases [OF p] m Inl list_ex_iff)
    next
      case (Inr uploaded)
      note up = this
      show ?thesis
      proof (cases "snd (generateMoveFiles w (projectDir_of w answers)
          (with_imageUrl answers uploaded))")
        case (Inl e)
        have "\<not> is_build ev" if "ev \<in> set (fst (uploadToWalrus w (imagePath answers)))" for ev
          using uploadToWalrus_events [OF that] by simp
        moreover have "\<not> is_build ev"
          if "ev \<in> set (fst (generateMoveFiles w (projectDir_of w answers)
            (with_imageUrl answers uploaded)))" for ev
          using generateMoveFiles_events [OF that] by simp
        ultimately show ?thesis
          using b by (auto simp: launchMeme_cases [OF p] m up Inl list_ex_iff)
      next
        case (Inr u2)
        with p m up show ?thesis by blast
      qed
    qed
  qed
qed

section \<open>The generated project\<close>

text \<open>
  C7. When the answers pass the schema and the creation of the directory, the upload, the
  writing of the files and the build succeed, the launch does the following in order: it
  creates the directory named \<^verbatim>\<open>meme-\<close> followed by the lower-cased symbol under the working
  directory, uploads the image, creates \<^verbatim>\<open>sources\<close> in the project directory, writes
  \<^verbatim>\<open>Move.toml\<close> and then the one source file \<^verbatim>\<open>sources/meme.move\<close>, runs the build in the
  project directory and deploys. Whenever the build is run at all, these steps have come
  before it in this order and nothing after it writes a file. The manifest names the
  package \<^verbatim>\<open>meme_\<close> followed by the lower-cased symbol, and the source file contains the
  name, the description and the uploaded URL between double quotes exactly as they were
  given, whatever characters they contain.
\<close>

theorem launch_generates_project:
  "(snd (MemeSchema_parseAsync w raw) = Inr answers
        \<and> fs_mkdir w (projectDir_of w answers) = Inr ()
        \<and> snd (uploadToWalrus w (imagePath answers)) = Inr uploaded
        \<and> snd (generateMoveFiles w (projectDir_of w answers) (with_imageUrl answers uploaded))
            = Inr ()
        \<and> execSync w ''sui move build'' (projectDir_of w answers) = Inr out
      \<longrightarrow> launchMeme w raw
          = ([FsAccess (raw_imagePath raw), FsMkdir (projectDir_of w answers)]
               @ fst (uploadToWalrus w (imagePath answers))
               @ [FsMkdir (path_join w [projectDir_of w answers, ''sources'']),
                  FsWriteFile (path_join w [projectDir_of w answers, ''Move.toml''])
                    (move_toml (with_imageUrl answers uploaded)),
                  FsWriteFile (path_join w [projectDir_of w answers, ''sources'', ''meme.move''])
                    (generateMoveCode w (with_imageUrl answers uploaded)),
                  ExecSync ''sui move build'' (projectDir_of w answers)]
               @ fst (deployCollection w (projectDir_of w answers) (network answers)),
             snd (deployCollection w (projectDir_of w answers) (network answers))))
   \<and> (list_ex is_build (fst (launchMeme w raw))
      \<longrightarrow> (\<exists>a v rest.
            snd (MemeSchema_parseAsync w raw) = Inr a
            \<and> snd (uploadToWalrus w (imagePath a)) = Inr v
            \<and> fst (launchMeme w raw)
              = [FsAccess (raw_imagePath raw), FsMkdir (projectDir_of w a)]
               @ fst (uploadToWalrus w (imagePath a))
               @ [FsMkdir (path_join w [projectDir_of w a, ''sources'']),
                  FsWriteFile (path_join w [projectDir_of w a, ''Move.toml''])
                    (move_toml (with_imageUrl a v)),
                  FsWriteFile (path_join w [projectDir_of w a, ''sources'', ''meme.move''])
                    (generateMoveCode w (with_imageUrl a v)),
                  ExecSync ''sui move build'' (projectDir_of w a)]
               @ rest
            \<and> (\<forall>ev\<in>set rest. \<not> is_write ev)))
   \<and> projectDir_of w answers = path_join w [cwd w, ''meme-'' @ toLowerCase (symbol answers)]
   \<and> (\<exists>pre post. move_toml (with_imageUrl answers uploaded)
          = pre @ ''name = \"meme_'' @ toLowerCase (symbol answers) @ ''\"'' @ post)
   \<and> (\<exists>head tail. generateMoveCode w (with_imageUrl answers uploaded)
          = head @ ''(\"name\", \"'' @ name answers
              @ ''\"),\<newline>                (\"description\", \"'' @ description answers
              @ ''\"),\<newline>                (\"image_url\", \"'' @ uploaded
              @ ''\"),'' @ tail)"
proof -
  have c1: "snd (MemeSchema_parseAsync w raw) = Inr answers
        \<and> fs_mkdir w (projectDir_of w answers) = Inr ()
        \<and> snd (uploadToWalrus w (imagePath answers)) = Inr uploaded
        \<and> snd (generateMoveFiles w (projectDir_of w answers) (with_imageUrl answers uploaded))
            = Inr ()
        \<and> execSync w ''sui move build'' (projectDir_of w answers) = Inr out
      \<longrightarrow> launchMeme w raw
          = ([FsAccess (raw_imagePath raw), FsMkdir (projectDir_of w answers)]
               @ fst (uploadToWalrus w (imagePath answers))
               @ [FsMkdir (path_join w [projectDir_of w answers, ''sources'']),
                  FsWriteFile (path_join w [projectDir_of w answers, ''Move.toml''])
                    (move_toml (with_imageUrl answers uploaded)),
                  FsWriteFile (path_join w [projectDir_of w answers, ''sources'', ''meme.move''])
                    (generateMoveCode w (with_imageUrl answers uploaded)),
                  ExecSync ''sui move build'' (projectDir_of w answers)]
               @ fst (deployCollection w (projectDir_of w answers) (network answers)),
             snd (deployCollection w (projectDir_of w answers) (network answers)))"
  proof
    assume h: "snd (MemeSchema_parseAsync w raw) = Inr answers
        \<and> fs_mkdir w (projectDir_of w answers) = Inr ()
        \<and> snd (uploadToWalrus w (imagePath answers)) = Inr uploaded
        \<and> snd (generateMoveFiles w (projectDir_of w answers) (with_imageUrl answers uploaded))
            = Inr ()
        \<and> execSync w ''sui move build'' (projectDir_of w answers) = Inr out"
    then obtain rest where r: "launchMeme w raw
         = ([FsAccess (raw_imagePath raw), FsMkdir (projectDir_of w answers)]
               @ fst (uploadToWalrus w (imagePath answers))
               @ [FsMkdir (path_join w [projectDir_of w answers, ''sources'']),
                  FsWriteFile (path_join w [projectDir_of w answers, ''Move.toml''])
                    (move_toml (with_imageUrl answers uploaded)),
                  FsWriteFile (path_join w [projectDir_of w answers, ''sources'', ''meme.move''])
                    (generateMoveCode w (with_imageUrl answers uploaded)),
                  ExecSync ''sui move build'' (projectDir_of w answers)]
               @ rest,
            snd (launchMeme w raw))
       \<and> (\<forall>ev\<in>set rest. \<not> is_write ev)
       \<and> (\<forall>out. execSync w ''sui move build'' (projectDir_of w answers) = Inr out
          \<longrightarrow> rest = fst (deployCollection w (projectDir_of w answers) (network answers))
            \<and> snd (launchMeme w raw)
              = snd (deployCollection w (projectDir_of w answers) (network answers)))"
      using launchMeme_built [of w raw answers "()" uploaded "()"] by blast
    then have "rest = fst (deployCollection w (projectDir_of w answers) (network answers))
        \<and> snd (launchMeme w raw)
          = snd (deployCollection w (projectDir_of w answers) (network answers))"
      using h by blast
    then show "launchMeme w raw
          = ([FsAccess (raw_imagePath raw), FsMkdir (projectDir_of w answers)]
               @ fst (uploadToWalrus w (imagePath answers))
               @ [FsMkdir (path_join w [projectDir_of w answers, ''sources'']),
                  FsWriteFile (path_join w [projectDir_of w answers, ''Move.toml''])
                    (move_toml (with_imageUrl answers uploaded)),
                  FsWriteFile (path_join w [projectDir_of w answers, ''sources'', ''meme.move''])
                    (generateMoveCode w (with_imageUrl answers uploaded)),
                  ExecSync ''sui move build'' (projectDir_of w answers)]
               @ fst (deployCollection w (projectDir_of w answers) (network answers)),
             snd (deployCollection w (projectDir_of w answers) (network answers)))"
      using r by simp
  qed
  have c2: "list_ex is_build (fst (launchMeme w raw))
      \<longrightarrow> (\<exists>a v rest.
            snd (MemeSchema_parseAsync w raw) = Inr a
            \<and> snd (uploadToWalrus w (imagePath a)) = Inr v
            \<and> fst (launchMeme w raw)
              = [FsAccess (raw_imagePath raw), FsMkdir (projectDir_of w a)]
               @ fst (uploadToWalrus w (imagePath a))
               @ [FsMkdir (path_join w [projectDir_of w a, ''sources'']),
                  FsWriteFile (path_join w [projectDir_of w a, ''Move.toml''])
                    (move_toml (with_imageUrl a v)),
                  FsWriteFile (path_join w [projectDir_of w a, ''sources'', ''meme.move''])
                    (generateMoveCode w (with_imageUrl a v)),
                  ExecSync ''sui move build'' (projectDir_of w a)]
               @ rest
            \<and> (\<forall>ev\<in>set rest. \<not> is_write ev))"
  proof
    assume "list_ex is_build (fst (launchMeme w raw))"
    then obtain a u1 v u2 where
      p: "snd (MemeSchema_parseAsync w raw) = Inr a"
      and m: "fs_mkdir w (projectDir_of w a) = Inr u1"
      and up: "snd (uploadToWalrus w (imagePath a)) = Inr v"
      and g: "snd (generateMoveFiles w (projectDir_of w a) (with_imageUrl a v)) = Inr u2"
      using launchMeme_build_invoked by blast
    from launchMeme_built [OF p m up g] obtain rest where
      r: "launchMeme w raw
         = ([FsAccess (raw_imagePath raw), FsMkdir (projectDir_of w a)]
               @ fst (uploadToWalrus w (imagePath a))
               @ [FsMkdir (path_join w [projectDir_of w a, ''sources'']),
                  FsWriteFile (path_join w [projectDir_of w a, ''Move.toml''])
                    (move_toml (with_imageUrl a v)),
                  FsWriteFile (path_join w [projectDir_of w a, ''sources'', ''meme.move''])
                    (generateMoveCode w (with_imageUrl a v)),
                  ExecSync ''sui move build'' (projectDir_of w a)]
               @ rest,
            snd (launchMeme w raw))"
      and nw: "\<forall>ev\<in>set rest. \<not> is_write ev"
      by blast
    have "fst (launchMeme w raw)
         = [FsAccess (raw_imagePath raw), FsMkdir (projectDir_of w a)]
               @ fst (uploadToWalrus w (imagePath a))
               @ [FsMkdir (path_join w [projectDir_of w a, ''sources'']),
                  FsWriteFile (path_join w [projectDir_of w a, ''Move.toml''])
                    (move_toml (with_imageUrl a v)),
                  FsWriteFile (path_join w [projectDir_of w a, ''sources'', ''meme.move''])
                    (generateMoveCode w (with_imageUrl a v)),
                  ExecSync ''sui move build'' (projectDir_of w a)]
               @ rest"
      by (subst r) simp
    with p up nw show "\<exists>a v rest.
            snd (MemeSchema_parseAsync w raw) = Inr a
            \<and> snd (uploadToWalrus w (imagePath a)) = Inr v
            \<and> fst (launchMeme w raw)
              = [FsAccess (raw_imagePath raw), FsMkdir (projectDir_of w a)]
               @ fst (uploadToWalrus w (imagePath a))
               @ [FsMkdir (path_join w [projectDir_of w a, ''sources'']),
                  FsWriteFile (path_join w [projectDir_of w a, ''Move.toml''])
                    (move_toml (with_imageUrl a v)),
                  FsWriteFile (path_join w [projectDir_of w a, ''sources'', ''meme.move''])
                    (generateMoveCode w (with_imageUrl a v)),
                  ExecSync ''sui move build'' (projectDir_of w a)]
               @ rest
            \<and> (\<forall>ev\<in>set rest. \<not> is_write ev)"
      by blast
  qed
  have c3: "projectDir_of w answers = path_join w [cwd w, ''meme-'' @ toLowerCase (symbol answers)]"
    by (simp add: projectDir_of_def)
  have c4: "(\<exists>pre post. move_toml (with_imageUrl answers uploaded)
          = pre @ ''name = \"meme_'' @ toLowerCase (symbol answers) @ ''\"'' @ post)"
    using move_toml_names_symbol [of "with_imageUrl answers uploaded"]
    by (simp add: with_imageUrl_sel)
  have c5: "(\<exists>head tail. generateMoveCode w (with_imageUrl answers uploaded)
          = head @ ''(\"name\", \"'' @ name answers
              @ ''\"),\<newline>                (\"description\", \"'' @ description answers
              @ ''\"),\<newline>                (\"image_url\", \"'' @ uploaded
              @ ''\"),'' @ tail)"
    using generateMoveCode_embeds [of w "with_imageUrl answers uploaded"]
    by (simp add: with_imageUrl_sel)
  show ?thesis
    by (intro conjI c1 c2 c3 c4 c5)
qed

text \<open>
  The example launch: the name \<^verbatim>\<open>Doge "1"\<close> reaches the source file with its quotes.
\<close>

lemma doge_toml:
  "move_toml (with_imageUrl doge_config ''https://walrus.example/doge'')
     = ''[package]\<newline>''
              @ ''name = \"meme_doge\"\<newline>''
              @ ''version = \"0.1.0\"\<newline>''
              @ ''\<newline>''
              @ ''[dependencies]\<newline>''
              @ ''Sui = { git = \"https://github.com/MystenLabs/sui.git\", subdir = \"crates/sui-framework/packages/sui-framework\", rev = \"framework/testnet\" }''"
  by (simp add: move_toml_def with_imageUrl_sel doge_config_sel toLowerCase_DOGE)

lemma doge_code:
  "generateMoveCode example_launch_world (with_imageUrl doge_config ''https://walrus.example/doge'')
     = ''module meme_doge::meme {\<newline>''
              @ ''    use sui::transfer;\<newline>''
              @ ''    use sui::object::{Self, UID};\<newline>''
              @ ''    use sui::tx_context::TxContext;\<newline>''
              @ ''    use sui::display;\<newline>''
              @ ''    use sui::url::Url;\<newline>''
              @ ''    use sui::string::String;\<newline>''
              @ ''\<newline>''
              @ ''    struct DOGE has key, store {\<newline>''
              @ ''        id: UID,\<newline>''
              @ ''        name: String,\<newline>''
              @ ''        description: String,\<newline>''
              @ ''        image_url: Url,\<newline>''
              @ ''    }\<newline>''
              @ ''\<newline>''
              @ ''    public fun init(otw: &mut TxContext) {\<newline>''
              @ ''        let display = display::new_with_fields(\<newline>''
              @ ''            &mut display::new(),\<newline>''
              @ ''            vector[\<newline>''
              @ ''                (\"name\", \"Doge \"1\"\"),\<newline>''
              @ ''                (\"description\", \"A meme NFT collection\"),\<newline>''
              @ ''                (\"image_url\", \"https://walrus.example/doge\"),\<newline>''
              @ ''                (\"creator\", \"Meme Creator\"),\<newline>''
              @ ''                (\"royalty\", \"5\"),\<newline>''
              @ ''                (\"symbol\", \"DOGE\")\<newline>''
              @ ''            ]\<newline>''
              @ ''        );\<newline>''
              @ ''        display::update_version(&mut display);\<newline>''
              @ ''        transfer::public_transfer(display, tx_context::sender(otw));\<newline>''
              @ ''    }\<newline>''
              @ ''\<newline>''
              @ ''    public entry fun mint(\<newline>''
              @ ''        name: String,\<newline>''
              @ ''        description: String,\<newline>''
              @ ''        image_url: Url,\<newline>''
              @ ''        recipient: address,\<newline>''
              @ ''        ctx: &mut TxContext\<newline>''
              @ ''    ) {\<newline>''
              @ ''        let meme = DOGE {\<newline>''
              @ ''            id: object::new(ctx),\<newline>''
              @ ''            name,\<newline>''
              @ ''            description,\<newline>''
              @ ''            image_url\<newline>''
              @ ''        };\<newline>''
              @ ''        transfer::public_transfer(meme, recipient);\<newline>''
              @ ''    }\<newline>''
              @ ''}''"
  by (simp add: generateMoveCode_def with_imageUrl_def doge_config_def toLowerCase_DOGE
      example_launch_fields)

lemma doge_deploy:
  "deployCollection example_launch_world ''/home/u/meme-doge'' launch_testnet
     = ([ExecSync ''sui move build --dump-bytecode-as-base64'' ''/home/u/meme-doge'',
         SignAndExecute ''https://fullnode.testnet.sui.io:443''],
        Inr \<lparr>reported_packageId = ''0xpkg'',
             reported_explorer = ''https://suiexplorer.com/txblock/D1?network=testnet''\<rparr>)"
  by (simp add: deployCollection_def getKeypair_def example_launch_fields and_then_def
      perform_def publishedPackage_def)

lemma doge_parse_config:
  "snd (MemeSchema_parseAsync example_launch_world doge_answers) = Inr doge_config"
  by (simp add: doge_parse doge_config_def)

lemma doge_generate:
  "generateMoveFiles example_launch_world ''/home/u/meme-doge''
       (with_imageUrl doge_config ''https://walrus.example/doge'')
     = ([FsMkdir ''/home/u/meme-doge/sources'',
         FsWriteFile ''/home/u/meme-doge/Move.toml''
           (move_toml (with_imageUrl doge_config ''https://walrus.example/doge'')),
         FsWriteFile ''/home/u/meme-doge/sources/meme.move''
           (generateMoveCode example_launch_world
              (with_imageUrl doge_config ''https://walrus.example/doge''))],
        Inr ())"
  by (simp add: generateMoveFiles_cases example_launch_fields)

theorem launch_generates_project_witness:
  "snd (MemeSchema_parseAsync example_launch_world doge_answers) = Inr doge_config
   \<and> fs_mkdir example_launch_world (projectDir_of example_launch_world doge_config) = Inr ()
   \<and> snd (uploadToWalrus example_launch_world (imagePath doge_config))
       = Inr ''https://walrus.example/doge''
   \<and> snd (generateMoveFiles example_launch_world (projectDir_of example_launch_world doge_config)
            (with_imageUrl doge_config ''https://walrus.example/doge'')) = Inr ()
   \<and> execSync example_launch_world ''sui move build''
        (projectDir_of example_launch_world doge_config) = Inr ''{}''
   \<and> launchMeme example_launch_world doge_answers
       = ([FsAccess ''doge.png'',
           FsMkdir ''/home/u/meme-doge'',
           FsReadFile ''doge.png'',
           AxiosPost ''https://api.walrus.gg/upload'' ''PNG'' ''Bearer k'',
           FsMkdir ''/home/u/meme-doge/sources'',
           FsWriteFile ''/home/u/meme-doge/Move.toml''
             (''[package]\<newline>''
              @ ''name = \"meme_doge\"\<newline>''
              @ ''version = \"0.1.0\"\<newline>''
              @ ''\<newline>''
              @ ''[dependencies]\<newline>''
              @ ''Sui = { git = \"https://github.com/MystenLabs/sui.git\", subdir = \"crates/sui-framework/packages/sui-framework\", rev = \"framework/testnet\" }''),
           FsWriteFile ''/home/u/meme-doge/sources/meme.move''
             (''module meme_doge::meme {\<newline>''
              @ ''    use sui::transfer;\<newline>''
              @ ''    use sui::object::{Self, UID};\<newline>''
              @ ''    use sui::tx_context::TxContext;\<newline>''
              @ ''    use sui::display;\<newline>''
              @ ''    use sui::url::Url;\<newline>''
              @ ''    use sui::string::String;\<newline>''
              @ ''\<newline>''
              @ ''    struct DOGE has key, store {\<newline>''
              @ ''        id: UID,\<newline>''
              @ ''        name: String,\<newline>''
              @ ''        description: String,\<newline>''
              @ ''        image_url: Url,\<newline>''
              @ ''    }\<newline>''
              @ ''\<newline>''
              @ ''    public fun init(otw: &mut TxContext) {\<newline>''
              @ ''        let display = display::new_with_fields(\<newline>''
              @ ''            &mut display::new(),\<newline>''
              @ ''            vector[\<newline>''
              @ ''                (\"name\", \"Doge \"1\"\"),\<newline>''
              @ ''                (\"description\", \"A meme NFT collection\"),\<newline>''
              @ ''                (\"image_url\", \"https://walrus.example/doge\"),\<newline>''
              @ ''                (\"creator\", \"Meme Creator\"),\<newline>''
              @ ''                (\"royalty\", \"5\"),\<newline>''
              @ ''                (\"symbol\", \"DOGE\")\<newline>''
              @ ''            ]\<newline>''
              @ ''        );\<newline>''
              @ ''        display::update_version(&mut display);\<newline>''
              @ ''        transfer::public_transfer(display, tx_context::sender(otw));\<newline>''
              @ ''    }\<newline>''
              @ ''\<newline>''
              @ ''    public entry fun mint(\<newline>''
              @ ''        name: String,\<newline>''
              @ ''        description: String,\<newline>''
              @ ''        image_url: Url,\<newline>''
              @ ''        recipient: address,\<newline>''
              @ ''        ctx: &mut TxContext\<newline>''
              @ ''    ) {\<newline>''
              @ ''        let meme = DOGE {\<newline>''
              @ ''            id: object::new(ctx),\<newline>''
              @ ''            name,\<newline>''
              @ ''            description,\<newline>''
              @ ''            image_url\<newline>''
              @ ''        };\<newline>''
              @ ''        transfer::public_transfer(meme, recipient);\<newline>''
              @ ''    }\<newline>''
              @ ''}''),
           ExecSync ''sui move build'' ''/home/u/meme-doge'',
           ExecSync ''sui move build --dump-bytecode-as-base64'' ''/home/u/meme-doge'',
           SignAndExecute ''https://fullnode.testnet.sui.io:443''],
          Inr \<lparr>reported_packageId = ''0xpkg'',
               reported_explorer = ''https://suiexplorer.com/txblock/D1?network=testnet''\<rparr>)
   \<and> list_ex is_build (fst (launchMeme example_launch_world doge_answers))
   \<and> (\<exists>a v rest.
         snd (MemeSchema_parseAsync example_launch_world doge_answers) = Inr a
         \<and> snd (uploadToWalrus example_launch_world (imagePath a)) = Inr v
         \<and> fst (launchMeme example_launch_world doge_answers)
           = [FsAccess (raw_imagePath doge_answers),
              FsMkdir (projectDir_of example_launch_world a)]
               @ fst (uploadToWalrus example_launch_world (imagePath a))
               @ [FsMkdir (path_join example_launch_world
                     [projectDir_of example_launch_world a, ''sources'']),
                  FsWriteFile (path_join example_launch_world
                     [projectDir_of example_launch_world a, ''Move.toml''])
                    (move_toml (with_imageUrl a v)),
                  FsWriteFile (path_join example_launch_world
                     [projectDir_of example_launch_world a, ''sources'', ''meme.move''])
                    (generateMoveCode example_launch_world (with_imageUrl a v)),
                  ExecSync ''sui move build'' (projectDir_of example_launch_world a)]
               @ rest
         \<and> (\<forall>ev\<in>set rest. \<not> is_write ev))"
proof -
  let ?u = "''https://walrus.example/doge''"
  have h1: "snd (MemeSchema_parseAsync example_launch_world doge_answers) = Inr doge_config
      \<and> fs_mkdir example_launch_world (projectDir_of example_launch_world doge_config) = Inr ()
      \<and> snd (uploadToWalrus example_launch_world (imagePath doge_config)) = Inr ?u
      \<and> snd (generateMoveFiles example_launch_world
             (projectDir_of example_launch_world doge_config) (with_imageUrl doge_config ?u))
          = Inr ()
      \<and> execSync example_launch_world ''sui move build''
           (projectDir_of example_launch_world doge_config) = Inr ''{}''"
    by (simp add: doge_parse_config example_launch_fields doge_config_sel doge_upload doge_dir
        doge_generate)
  note all = launch_generates_project [of example_launch_world doge_answers doge_config ?u
      "''{}''"]
  note r1 = all [THEN conjunct1, THEN mp, OF h1]
  have run: "launchMeme example_launch_world doge_answers
       = ([FsAccess ''doge.png'',
           FsMkdir ''/home/u/meme-doge'',
           FsReadFile ''doge.png'',
           AxiosPost ''https://api.walrus.gg/upload'' ''PNG'' ''Bearer k'',
           FsMkdir ''/home/u/meme-doge/sources'',
           FsWriteFile ''/home/u/meme-doge/Move.toml''
             (''[package]\<newline>''
              @ ''name = \"meme_doge\"\<newline>''
              @ ''version = \"0.1.0\"\<newline>''
              @ ''\<newline>''
              @ ''[dependencies]\<newline>''
              @ ''Sui = { git = \"https://github.com/MystenLabs/sui.git\", subdir = \"crates/sui-framework/packages/sui-framework\", rev = \"framework/testnet\" }''),
           FsWriteFile ''/home/u/meme-doge/sources/meme.move''
             (''module meme_doge::meme {\<newline>''
              @ ''    use sui::transfer;\<newline>''
              @ ''    use sui::object::{Self, UID};\<newline>''
              @ ''    use sui::tx_context::TxContext;\<newline>''
              @ ''    use sui::display;\<newline>''
              @ ''    use sui::url::Url;\<newline>''
              @ ''    use sui::string::String;\<newline>''
              @ ''\<newline>''
              @ ''    struct DOGE has key, store {\<newline>''
              @ ''        id: UID,\<newline>''
              @ ''        name: String,\<newline>''
              @ ''        description: String,\<newline>''
              @ ''        image_url: Url,\<newline>''
              @ ''    }\<newline>''
              @ ''\<newline>''
              @ ''    public fun init(otw: &mut TxContext) {\<newline>''
              @ ''        let display = display::new_with_fields(\<newline>''
              @ ''            &mut display::new(),\<newline>''
              @ ''            vector[\<newline>''
              @ ''                (\"name\", \"Doge \"1\"\"),\<newline>''
              @ ''                (\"description\", \"A meme NFT collection\"),\<newline>''
              @ ''                (\"image_url\", \"https://walrus.example/doge\"),\<newline>''
              @ ''                (\"creator\", \"Meme Creator\"),\<newline>''
              @ ''                (\"royalty\", \"5\"),\<newline>''
              @ ''                (\"symbol\", \"DOGE\")\<newline>''
              @ ''            ]\<newline>''
              @ ''        );\<newline>''
              @ ''        display::update_version(&mut display);\<newline>''
              @ ''        transfer::public_transfer(display, tx_context::sender(otw));\<newline>''
              @ ''    }\<newline>''
              @ ''\<newline>''
              @ ''    public entry fun mint(\<newline>''
              @ ''        name: String,\<newline>''
              @ ''        description: String,\<newline>''
              @ ''        image_url: Url,\<newline>''
              @ ''        recipient: address,\<newline>''
              @ ''        ctx: &mut TxContext\<newline>''
              @ ''    ) {\<newline>''
              @ ''        let meme = DOGE {\<newline>''
              @ ''            id: object::new(ctx),\<newline>''
              @ ''            name,\<newline>''
              @ ''            description,\<newline>''
              @ ''            image_url\<newline>''
              @ ''        };\<newline>''
              @ ''        transfer::public_transfer(meme, recipient);\<newline>''
              @ ''    }\<newline>''
              @ ''}''),
           ExecSync ''sui move build'' ''/home/u/meme-doge'',
           ExecSync ''sui move build --dump-bytecode-as-base64'' ''/home/u/meme-doge'',
           SignAndExecute ''https://fullnode.testnet.sui.io:443''],
          Inr \<lparr>reported_packageId = ''0xpkg'',
               reported_explorer = ''https://suiexplorer.com/txblock/D1?network=testnet''\<rparr>)"
    by (simp add: r1 doge_sel doge_dir doge_config_sel doge_upload example_launch_fields
        doge_toml doge_code doge_deploy)
  have h2: "list_ex is_build (fst (launchMeme example_launch_world doge_answers))"
    by (simp only: run fst_conv) simp
  note r2 = all [THEN conjunct2, THEN conjunct1, THEN mp, OF h2]
  show ?thesis
    by (intro conjI run h2 r2 h1 [THEN conjunct1] h1 [THEN conjunct2, THEN conjunct1]
        h1 [THEN conjunct2, THEN conjunct2, THEN conjunct1]
        h1 [THEN conjunct2, THEN conjunct2, THEN conjunct2, THEN conjunct1]
        h1 [THEN conjunct2, THEN conjunct2, THEN conjunct2, THEN conjunct2])
qed

end
